theory Spec2Isabelle
  imports Main
begin

section \<open>Go strings and the string functions the program calls\<close>

text \<open>
  A Go string is a sequence of bytes, here a \<^typ>\<open>string\<close> (a list of 8-bit characters).
  An error value is the message it carries, as built by \<^verbatim>\<open>fmt.Errorf\<close>.

  \<^verbatim>\<open>strings.ToLower\<close> and \<^verbatim>\<open>strings.TrimSpace\<close> belong to the Go standard library.
  On a string of ASCII bytes they work byte by byte, and that path is written out below.
  On a string holding a byte of 128 or more they consult the Unicode tables; that part of
  the library is a parameter of the model (\<open>unicode_lib\<close>).
\<close>

type_synonym error = string

record unicode_lib =
  unicode_ToLower :: "string \<Rightarrow> string"
  unicode_TrimFunc :: "string \<Rightarrow> string"
  unicode_TrimRightFunc :: "string \<Rightarrow> string"

definition isASCIIByte :: "char \<Rightarrow> bool" where
  "isASCIIByte c = ((of_char c :: nat) < 128)"

definition isASCII :: "string \<Rightarrow> bool" where
  "isASCII s = list_all isASCIIByte s"

definition isUpperByte :: "char \<Rightarrow> bool" where
  "isUpperByte c = (65 \<le> (of_char c :: nat) \<and> (of_char c :: nat) \<le> 90)"

definition toLowerByte :: "char \<Rightarrow> char" where
  "toLowerByte c = (if isUpperByte c then char_of ((of_char c :: nat) + 32) else c)"

definition ToLower :: "unicode_lib \<Rightarrow> string \<Rightarrow> string" where
  "ToLower L s = (if isASCII s then map toLowerByte s else unicode_ToLower L s)"

definition asciiSpace :: "char \<Rightarrow> bool" where
  "asciiSpace c = ((of_char c :: nat) \<in> {9, 10, 11, 12, 13, 32})"

text \<open>
  \<^verbatim>\<open>strings.TrimSpace\<close>: skip ASCII white space from the left; a byte of 128 or more met
  there hands the rest to the Unicode-aware trimming. Then the same from the right.
\<close>

definition TrimSpace :: "unicode_lib \<Rightarrow> string \<Rightarrow> string" where
  "TrimSpace L s =
     (case dropWhile asciiSpace s of
        [] \<Rightarrow> []
      | c # cs \<Rightarrow>
          if \<not> isASCIIByte c then unicode_TrimFunc L (c # cs)
          else (case dropWhile asciiSpace (rev (c # cs)) of
                  [] \<Rightarrow> []
                | d # ds \<Rightarrow>
                    if \<not> isASCIIByte d then unicode_TrimRightFunc L (rev (d # ds))
                    else rev (d # ds)))"

text \<open>
  \<^verbatim>\<open>strings.ReplaceAll(s, old, new)\<close>: non-overlapping occurrences of \<open>old\<close>, leftmost
  first, are replaced by \<open>new\<close>. Every call of the program passes a non-empty literal for
  \<open>old\<close>. (For an empty \<open>old\<close> Go puts \<open>new\<close> around every code point; the first
  equation below does not model that and is never used.)
\<close>

function ReplaceAll :: "string \<Rightarrow> string \<Rightarrow> string \<Rightarrow> string" where
  "ReplaceAll s [] new = s"
| "ReplaceAll [] (c # cs) new = []"
| "ReplaceAll (x # xs) (c # cs) new =
     (if x = c \<and> take (length cs) xs = cs
      then new @ ReplaceAll (drop (length cs) xs) (c # cs) new
      else x # ReplaceAll xs (c # cs) new)"
  by pat_completeness auto
termination
  by (relation "measure (\<lambda>(s, old, new). length s)") auto

section \<open>Usage tokens (internal/storage/usage.go)\<close>

text \<open>
  A \<^verbatim>\<open>[]string\<close> is a list; the nil slice is the empty list (Go gives both length 0, and
  \<^verbatim>\<open>ParseUsage\<close> never returns an empty slice that is not nil).
\<close>

definition ParseUsage :: "unicode_lib \<Rightarrow> string \<Rightarrow> error + string list" where
  "ParseUsage L input0 =
     (let input = ToLower L (TrimSpace L input0) in
      if input = ''sticker'' then Inr [''sticker'']
      else if input = ''emoticon'' \<or> input = ''emoji'' then Inr [''emoticon'']
      else if input = ''both'' then Inr [''sticker'', ''emoticon'']
      else if input = ''reset'' then Inr []
      else Inl (''invalid usage type: '' @ input @
                '' (valid: sticker, emoticon, emoji, both, reset)''))"

fun Join :: "string list \<Rightarrow> string \<Rightarrow> string" where
  "Join [] sep = []"
| "Join [x] sep = x"
| "Join (x # y # ys) sep = x @ sep @ Join (y # ys) sep"

definition FormatUsage :: "string list \<Rightarrow> string" where
  "FormatUsage usage =
     (if length usage = 0 then ''(not set)''
      else if ''sticker'' \<in> set usage \<and> ''emoticon'' \<in> set usage then ''both''
      else if ''sticker'' \<in> set usage then ''sticker''
      else if ''emoticon'' \<in> set usage then ''emoticon''
      else Join usage '', '')"

subsection \<open>What "case-insensitive" means, in the words of the specification\<close>

text \<open>
  Two bytes are the same letter up to case when they are equal, or one is an upper-case
  ASCII letter and the other is the lower-case letter 32 code points above it. Two tokens
  are equal up to case when they agree in this way position by position.
\<close>

definition spec_same_letter :: "char \<Rightarrow> char \<Rightarrow> bool" where
  "spec_same_letter c d =
     (c = d \<or> (isUpperByte c \<and> (of_char d :: nat) = of_char c + 32)
            \<or> (isUpperByte d \<and> (of_char c :: nat) = of_char d + 32))"

definition spec_equal_fold :: "string \<Rightarrow> string \<Rightarrow> bool" where
  "spec_equal_fold a b = list_all2 spec_same_letter a b"

definition isLowerLetter :: "char \<Rightarrow> bool" where
  "isLowerLetter c = (97 \<le> (of_char c :: nat) \<and> (of_char c :: nat) \<le> 122)"

text \<open>
  That relation speaks of ASCII letters only. For any two strings, with letters of any
  script, being the same up to case means having the same lower-case form, the lower-case
  form being the one \<^verbatim>\<open>strings.ToLower\<close> computes with the Unicode tables of the library.
  On strings of ASCII bytes the two notions agree.
\<close>

definition spec_same_up_to_case :: "unicode_lib \<Rightarrow> string \<Rightarrow> string \<Rightarrow> bool" where
  "spec_same_up_to_case L a b = (ToLower L a = ToLower L b)"


section \<open>The data model (package storage, type declarations)\<close>

text \<open>
  \<^verbatim>\<open>time.Time\<close> is a number (an instant), Go's \<^verbatim>\<open>int\<close> and \<^verbatim>\<open>int64\<close> are integers
  (no arithmetic is done on them), \<^verbatim>\<open>map[string]string\<close> is a partial function and the
  nil map is the empty one.
\<close>

record Sticker =
  ID :: string
  Name :: string
  CollectedAt :: int
  SourceRoom :: string
  SourceEvent :: string
  SourceMXC :: string
  LocalMXC :: string
  MimeType :: string
  Width :: int
  Height :: int
  SizeBytes :: int
  OriginalBody :: string
  GeneratedAltText :: string
  InPacks :: "string list"
  Usage :: "string list"

record Collection =
  Stickers :: "Sticker list"

record Pack =
  Name :: string
  DisplayName :: string
  AvatarURL :: string
  Attribution :: string
  StickerIDs :: "string list"
  PublishedRooms :: "string \<rightharpoonup> string"
  Usage :: "string list"

record PacksData =
  Packs :: "Pack list"

text \<open>
  The data directory holds the two files \<^verbatim>\<open>collection.json\<close> and \<^verbatim>\<open>packs.json\<close>. The
  model identifies the directory with the content of its two files. A missing file reads
  as the empty record set, which is the initial state. Reading and writing the files is
  taken to succeed: the operating system's failures are outside the model, so every
  \<^verbatim>\<open>failed to load\<close> and \<^verbatim>\<open>failed to write\<close> branch of the source is left out.
\<close>

record dataDir =
  collection_json :: Collection
  packs_json :: PacksData

definition emptyDir :: dataDir where
  "emptyDir = \<lparr>collection_json = \<lparr>Stickers = []\<rparr>, packs_json = \<lparr>Packs = []\<rparr>\<rparr>"

definition LoadCollection :: "dataDir \<Rightarrow> Collection" where
  "LoadCollection d = collection_json d"

definition SaveCollection :: "dataDir \<Rightarrow> Collection \<Rightarrow> dataDir" where
  "SaveCollection d collection = d\<lparr>collection_json := collection\<rparr>"

definition LoadPacks :: "dataDir \<Rightarrow> PacksData" where
  "LoadPacks d = packs_json d"

definition SavePacks :: "dataDir \<Rightarrow> PacksData \<Rightarrow> dataDir" where
  "SavePacks d packsData = d\<lparr>packs_json := packsData\<rparr>"

text \<open>
  The loop \<^verbatim>\<open>for i, x := range xs { if p(x) { ...; break } }\<close>, which the store uses
  throughout: the index of the first element that satisfies \<open>p\<close>.
\<close>

fun first_index :: "('a \<Rightarrow> bool) \<Rightarrow> 'a list \<Rightarrow> nat option" where
  "first_index p [] = None"
| "first_index p (x # xs) =
     (if p x then Some 0 else map_option Suc (first_index p xs))"

section \<open>The collection store (package storage, stickers)\<close>

text \<open>
  Every operation takes the data directory and returns the error, if any, with the
  directory as the call leaves it.
\<close>

definition AddSticker :: "dataDir \<Rightarrow> Sticker \<Rightarrow> error option \<times> dataDir" where
  "AddSticker d sticker =
     (let collection = LoadCollection d in
      case first_index (\<lambda>existing. ID existing = ID sticker) (Stickers collection) of
        Some i \<Rightarrow>
          (None, SaveCollection d
             (collection\<lparr>Stickers := (Stickers collection)[i := sticker]\<rparr>))
      | None \<Rightarrow>
          (None, SaveCollection d
             (collection\<lparr>Stickers := Stickers collection @ [sticker]\<rparr>)))"

definition GetSticker :: "dataDir \<Rightarrow> string \<Rightarrow> error + Sticker" where
  "GetSticker d id' =
     (case find (\<lambda>sticker. ID sticker = id') (Stickers (LoadCollection d)) of
        Some sticker \<Rightarrow> Inr sticker
      | None \<Rightarrow> Inl (''sticker not found: '' @ id'))"

definition ListStickers :: "dataDir \<Rightarrow> Sticker list" where
  "ListStickers d = Stickers (LoadCollection d)"

definition UpdateAltText :: "dataDir \<Rightarrow> string \<Rightarrow> string \<Rightarrow> error option \<times> dataDir" where
  "UpdateAltText d id' altText =
     (let collection = LoadCollection d in
      case first_index (\<lambda>sticker. ID sticker = id') (Stickers collection) of
        Some i \<Rightarrow>
          (None, SaveCollection d (collection\<lparr>Stickers :=
             (Stickers collection)[i := (Stickers collection ! i)\<lparr>GeneratedAltText := altText\<rparr>]\<rparr>))
      | None \<Rightarrow> (Some (''sticker not found: '' @ id'), d))"

definition SetStickerUsage :: "dataDir \<Rightarrow> string \<Rightarrow> string list \<Rightarrow> error option \<times> dataDir" where
  "SetStickerUsage d stickerID usage =
     (let collection = LoadCollection d in
      case first_index (\<lambda>sticker. ID sticker = stickerID) (Stickers collection) of
        Some i \<Rightarrow>
          (None, SaveCollection d (collection\<lparr>Stickers :=
             (Stickers collection)[i := (Stickers collection ! i)\<lparr>Sticker.Usage := usage\<rparr>]\<rparr>))
      | None \<Rightarrow> (Some (''sticker not found: '' @ stickerID), d))"

definition SetStickerName :: "dataDir \<Rightarrow> string \<Rightarrow> string \<Rightarrow> error option \<times> dataDir" where
  "SetStickerName d stickerID name =
     (let collection = LoadCollection d in
      case first_index (\<lambda>sticker. ID sticker = stickerID) (Stickers collection) of
        Some i \<Rightarrow>
          (None, SaveCollection d (collection\<lparr>Stickers :=
             (Stickers collection)[i := (Stickers collection ! i)\<lparr>Sticker.Name := name\<rparr>]\<rparr>))
      | None \<Rightarrow> (Some (''sticker not found: '' @ stickerID), d))"

section \<open>The pack store (internal/storage/packs.go)\<close>

definition CreatePackWithAttribution ::
    "dataDir \<Rightarrow> string \<Rightarrow> string \<Rightarrow> string \<Rightarrow> error option \<times> dataDir" where
  "CreatePackWithAttribution d name displayName attribution =
     (let packsData = LoadPacks d in
      if list_ex (\<lambda>pack. Pack.Name pack = name) (Packs packsData)
      then (Some (''pack already exists: '' @ name), d)
      else
        let newPack = \<lparr>Pack.Name = name, DisplayName = displayName, AvatarURL = [],
                        Attribution = attribution, StickerIDs = [],
                        PublishedRooms = Map.empty, Pack.Usage = []\<rparr>
        in (None, SavePacks d (packsData\<lparr>Packs := Packs packsData @ [newPack]\<rparr>)))"

definition CreatePack :: "dataDir \<Rightarrow> string \<Rightarrow> string \<Rightarrow> error option \<times> dataDir" where
  "CreatePack d name displayName = CreatePackWithAttribution d name displayName []"

text \<open>
  The first loop of \<^verbatim>\<open>AddToPack\<close>: each id in turn is looked up in the collection (an
  absent one ends the call with an error) and appended to the pack's ids unless it is there.
\<close>

fun add_sticker_ids :: "Sticker list \<Rightarrow> string list \<Rightarrow> string list \<Rightarrow> error + string list" where
  "add_sticker_ids stickers [] packIDs = Inr packIDs"
| "add_sticker_ids stickers (stickerID # rest) packIDs =
     (if \<not> list_ex (\<lambda>sticker. ID sticker = stickerID) stickers
      then Inl (''sticker not found in collection: '' @ stickerID)
      else add_sticker_ids stickers rest
             (if list_ex (\<lambda>existingID. existingID = stickerID) packIDs then packIDs
              else packIDs @ [stickerID]))"

text \<open>The second loop of \<^verbatim>\<open>AddToPack\<close>, for one sticker of the collection.\<close>

definition add_in_packs :: "string \<Rightarrow> string list \<Rightarrow> Sticker \<Rightarrow> Sticker" where
  "add_in_packs packName stickerIDs sticker =
     fold (\<lambda>stickerID s.
             if ID s = stickerID
             then (if list_ex (\<lambda>packInList. packInList = packName) (InPacks s) then s
                   else s\<lparr>InPacks := InPacks s @ [packName]\<rparr>)
             else s)
          stickerIDs sticker"

definition AddToPack :: "dataDir \<Rightarrow> string \<Rightarrow> string list \<Rightarrow> error option \<times> dataDir" where
  "AddToPack d packName stickerIDs =
     (let packsData = LoadPacks d; collection = LoadCollection d in
      case first_index (\<lambda>pack. Pack.Name pack = packName) (Packs packsData) of
        None \<Rightarrow> (Some (''pack not found: '' @ packName), d)
      | Some packIndex \<Rightarrow>
          (case add_sticker_ids (Stickers collection) stickerIDs
                  (StickerIDs (Packs packsData ! packIndex)) of
             Inl err \<Rightarrow> (Some err, d)
           | Inr ids \<Rightarrow>
               let packsData' = packsData\<lparr>Packs :=
                     (Packs packsData)[packIndex := (Packs packsData ! packIndex)\<lparr>StickerIDs := ids\<rparr>]\<rparr>;
                   collection' = collection\<lparr>Stickers :=
                     map (add_in_packs packName stickerIDs) (Stickers collection)\<rparr>
               in (None, SavePacks (SaveCollection d collection') packsData')))"

definition remove_in_packs :: "string \<Rightarrow> string list \<Rightarrow> Sticker \<Rightarrow> Sticker" where
  "remove_in_packs packName stickerIDs sticker =
     fold (\<lambda>stickerID s.
             if ID s = stickerID
             then s\<lparr>InPacks := filter (\<lambda>packInList. packInList \<noteq> packName) (InPacks s)\<rparr>
             else s)
          stickerIDs sticker"

definition RemoveFromPack :: "dataDir \<Rightarrow> string \<Rightarrow> string list \<Rightarrow> error option \<times> dataDir" where
  "RemoveFromPack d packName stickerIDs =
     (let packsData = LoadPacks d; collection = LoadCollection d in
      case first_index (\<lambda>pack. Pack.Name pack = packName) (Packs packsData) of
        None \<Rightarrow> (Some (''pack not found: '' @ packName), d)
      | Some packIndex \<Rightarrow>
          let ids = fold (\<lambda>stickerID packIDs.
                            filter (\<lambda>existingID. existingID \<noteq> stickerID) packIDs)
                      stickerIDs (StickerIDs (Packs packsData ! packIndex));
              packsData' = packsData\<lparr>Packs :=
                (Packs packsData)[packIndex := (Packs packsData ! packIndex)\<lparr>StickerIDs := ids\<rparr>]\<rparr>;
              collection' = collection\<lparr>Stickers :=
                map (remove_in_packs packName stickerIDs) (Stickers collection)\<rparr>
          in (None, SavePacks (SaveCollection d collection') packsData'))"

definition GetPack :: "dataDir \<Rightarrow> string \<Rightarrow> error + Pack" where
  "GetPack d name =
     (case find (\<lambda>pack. Pack.Name pack = name) (Packs (LoadPacks d)) of
        Some pack \<Rightarrow> Inr pack
      | None \<Rightarrow> Inl (''pack not found: '' @ name))"

definition UpdatePublished ::
    "dataDir \<Rightarrow> string \<Rightarrow> string \<Rightarrow> string \<Rightarrow> error option \<times> dataDir" where
  "UpdatePublished d packName roomID stateKey =
     (let packsData = LoadPacks d in
      case first_index (\<lambda>pack. Pack.Name pack = packName) (Packs packsData) of
        Some i \<Rightarrow>
          (None, SavePacks d (packsData\<lparr>Packs := (Packs packsData)
             [i := (Packs packsData ! i)
                \<lparr>PublishedRooms := (PublishedRooms (Packs packsData ! i))(roomID \<mapsto> stateKey)\<rparr>]\<rparr>))
      | None \<Rightarrow> (Some (''pack not found: '' @ packName), d))"

definition SetPackAvatar :: "dataDir \<Rightarrow> string \<Rightarrow> string \<Rightarrow> error option \<times> dataDir" where
  "SetPackAvatar d packName avatarURL =
     (let packsData = LoadPacks d in
      case first_index (\<lambda>pack. Pack.Name pack = packName) (Packs packsData) of
        Some i \<Rightarrow>
          (None, SavePacks d (packsData\<lparr>Packs := (Packs packsData)
             [i := (Packs packsData ! i)\<lparr>AvatarURL := avatarURL\<rparr>]\<rparr>))
      | None \<Rightarrow> (Some (''pack not found: '' @ packName), d))"

definition ListPacks :: "dataDir \<Rightarrow> Pack list" where
  "ListPacks d = Packs (LoadPacks d)"

definition SetPackUsage :: "dataDir \<Rightarrow> string \<Rightarrow> string list \<Rightarrow> error option \<times> dataDir" where
  "SetPackUsage d packName usage =
     (let packsData = LoadPacks d in
      case first_index (\<lambda>pack. Pack.Name pack = packName) (Packs packsData) of
        Some i \<Rightarrow>
          (None, SavePacks d (packsData\<lparr>Packs := (Packs packsData)
             [i := (Packs packsData ! i)\<lparr>Pack.Usage := usage\<rparr>]\<rparr>))
      | None \<Rightarrow> (Some (''pack not found: '' @ packName), d))"

text \<open>
  \<^verbatim>\<open>DeleteSticker\<close>: the first sticker with the id is cut out of the collection, which is
  saved; then the sticker is removed from each pack it named, one \<^verbatim>\<open>RemoveFromPack\<close>
  call per pack, whose error is printed and dropped.
\<close>

definition DeleteSticker :: "dataDir \<Rightarrow> string \<Rightarrow> error option \<times> dataDir" where
  "DeleteSticker d id' =
     (let collection = LoadCollection d in
      case first_index (\<lambda>sticker. ID sticker = id') (Stickers collection) of
        None \<Rightarrow> (Some (''sticker not found: '' @ id'), d)
      | Some i \<Rightarrow>
          let packNames = InPacks (Stickers collection ! i);
              d1 = SaveCollection d (collection\<lparr>Stickers :=
                     take i (Stickers collection) @ drop (Suc i) (Stickers collection)\<rparr>)
          in (None, fold (\<lambda>packName d'. snd (RemoveFromPack d' packName [id'])) packNames d1))"


section \<open>Publishing a pack (package matrix, MSC2545 state event)\<close>

record StickerDataInfo =
  Width :: int
  Height :: int
  Size :: int
  MimeType :: string

record StickerData =
  URL :: string
  Body :: string
  Usage :: "string list"
  Info :: StickerDataInfo

record PackInfo =
  DisplayName :: string
  AvatarURL :: string
  Usage :: "string list"
  Attribution :: string

record PackContent =
  Pack :: PackInfo
  Images :: "string \<rightharpoonup> StickerData"

text \<open>
  The state event handed to the transport: room, event type, state key and content.
\<close>

record StateEvent =
  roomID :: string
  eventType :: string
  stateKey :: string
  content :: PackContent

text \<open>
  What \<^verbatim>\<open>encoding/json\<close> writes for the two payload structs, read off their field tags:
  a field tagged \<^verbatim>\<open>omitempty\<close> is left out when it is empty, every other field is always
  written.
\<close>

datatype json = JString string | JNumber int | JArray "json list" | JObject "(string \<times> json) list"

definition StickerData_json :: "StickerData \<Rightarrow> (string \<times> json) list" where
  "StickerData_json sd =
     [(''url'', JString (URL sd)), (''body'', JString (Body sd))] @
     (if length (StickerData.Usage sd) = 0 then []
      else [(''usage'', JArray (map JString (StickerData.Usage sd)))]) @
     [(''info'', JObject
        [(''w'', JNumber (StickerDataInfo.Width (Info sd))),
         (''h'', JNumber (StickerDataInfo.Height (Info sd))),
         (''size'', JNumber (StickerDataInfo.Size (Info sd))),
         (''mimetype'', JString (StickerDataInfo.MimeType (Info sd)))])]"

definition PackInfo_json :: "PackInfo \<Rightarrow> (string \<times> json) list" where
  "PackInfo_json pi =
     [(''display_name'', JString (PackInfo.DisplayName pi))] @
     (if PackInfo.AvatarURL pi = [] then []
      else [(''avatar_url'', JString (PackInfo.AvatarURL pi))]) @
     (if length (PackInfo.Usage pi) = 0 then []
      else [(''usage'', JArray (map JString (PackInfo.Usage pi)))]) @
     (if PackInfo.Attribution pi = [] then []
      else [(''attribution'', JString (PackInfo.Attribution pi))])"

text \<open>The entry of one member: body, address, dimensions and the usage override.\<close>

definition stickerData_of :: "Sticker \<Rightarrow> StickerData" where
  "stickerData_of sticker =
     (let body = (if GeneratedAltText sticker = [] then OriginalBody sticker
                  else GeneratedAltText sticker)
      in \<lparr>URL = LocalMXC sticker, Body = body,
          StickerData.Usage = (if length (Sticker.Usage sticker) > 0 then Sticker.Usage sticker else []),
          Info = \<lparr>StickerDataInfo.Width = Sticker.Width sticker,
                  StickerDataInfo.Height = Sticker.Height sticker,
                  StickerDataInfo.Size = SizeBytes sticker,
                  StickerDataInfo.MimeType = Sticker.MimeType sticker\<rparr>\<rparr>)"

definition shortcode_of :: "Sticker \<Rightarrow> string \<Rightarrow> string" where
  "shortcode_of sticker stickerID =
     (if Sticker.Name sticker = [] then stickerID else Sticker.Name sticker)"

text \<open>
  The loop over the pack's ids: each id is resolved to the first sticker of the collection
  that has it (a missing one ends the call), and its entry is stored under its shortcode.
\<close>

fun build_images ::
    "Sticker list \<Rightarrow> string list \<Rightarrow> (string \<rightharpoonup> StickerData) \<Rightarrow> error + (string \<rightharpoonup> StickerData)" where
  "build_images stickers [] images = Inr images"
| "build_images stickers (stickerID # rest) images =
     (case find (\<lambda>s. ID s = stickerID) stickers of
        None \<Rightarrow> Inl (''sticker not found in collection: '' @ stickerID)
      | Some sticker \<Rightarrow>
          build_images stickers rest
            (images(shortcode_of sticker stickerID \<mapsto> stickerData_of sticker)))"

definition packInfo_of :: "Pack \<Rightarrow> PackInfo" where
  "packInfo_of pack =
     \<lparr>PackInfo.DisplayName = Pack.DisplayName pack,
      PackInfo.AvatarURL = Pack.AvatarURL pack,
      PackInfo.Usage = (if length (Pack.Usage pack) > 0 then Pack.Usage pack
                        else [''sticker'', ''emoticon'']),
      PackInfo.Attribution = Pack.Attribution pack\<rparr>"

text \<open>
  \<^verbatim>\<open>PublishPack\<close> up to the call of the transport: the state event it builds.
\<close>

definition PublishPack_event :: "dataDir \<Rightarrow> string \<Rightarrow> string \<Rightarrow> error + StateEvent" where
  "PublishPack_event d packName room =
     (case GetPack d packName of
        Inl err \<Rightarrow> Inl (''failed to load pack: '' @ err)
      | Inr pack \<Rightarrow>
          (case build_images (Stickers (LoadCollection d)) (StickerIDs pack) Map.empty of
             Inl err \<Rightarrow> Inl err
           | Inr images \<Rightarrow>
               Inr \<lparr>roomID = room, eventType = ''im.ponies.room_emotes'',
                    stateKey = packName,
                    content = \<lparr>Pack = packInfo_of pack, Images = images\<rparr>\<rparr>))"

section \<open>The collaborators\<close>

text \<open>
  The chat transport (mautrix), the image decoder, SHA-256 and the captioning service are
  not code of this repository. Each is a parameter: a function from what the program hands
  over to what it gets back, an error being the left summand.
  \<^item> \<open>UserHomeserver\<close>: the server part of the bot's own user id;
  \<^item> \<open>ParseContentURI\<close>: an \<^verbatim>\<open>mxc://\<close> address parsed into homeserver and file id;
  \<^item> \<open>DownloadBytes\<close>, \<open>UploadBytes\<close>, \<open>SendStateEvent\<close>: the transport;
  \<^item> \<open>DecodeConfig\<close>: width, height and format name of an image (\<^verbatim>\<open>image.DecodeConfig\<close>);
  \<^item> \<open>Sum256Hex\<close>: the lower-case hexadecimal SHA-256 digest of a byte sequence;
  \<^item> \<open>MessagesNew\<close>: the captioning request; the answer is a list of content blocks, each
    a type and a text;
  \<^item> \<open>Now\<close>: the clock, read when the sticker record is built.
\<close>

record collaborators =
  UserID :: string
  UserHomeserver :: string
  ParseContentURI :: "string \<Rightarrow> error + string \<times> string"
  DownloadBytes :: "string \<times> string \<Rightarrow> error + string"
  UploadBytes :: "string \<Rightarrow> string \<Rightarrow> error + string"
  SendStateEvent :: "StateEvent \<Rightarrow> error option"
  DecodeConfig :: "string \<Rightarrow> error + int \<times> int \<times> string"
  Sum256Hex :: "string \<Rightarrow> string"
  MessagesNew :: "string \<Rightarrow> string \<Rightarrow> error + (string \<times> string) list"
  Now :: int

definition PublishPack ::
    "collaborators \<Rightarrow> dataDir \<Rightarrow> string \<Rightarrow> string \<Rightarrow> error option \<times> dataDir" where
  "PublishPack C d packName room =
     (case PublishPack_event d packName room of
        Inl err \<Rightarrow> (Some err, d)
      | Inr ev \<Rightarrow>
          (case SendStateEvent C ev of
             Some err \<Rightarrow> (Some (''failed to send state event: '' @ err), d)
           | None \<Rightarrow>
               (case UpdatePublished d packName room (stateKey ev) of
                  (Some err, d') \<Rightarrow> (Some (''failed to update published rooms: '' @ err), d')
                | (None, d') \<Rightarrow> (None, d'))))"

section \<open>Media helpers (internal/matrix/media.go) and captioning (internal/llm/vision.go)\<close>

record ImageInfo =
  Width :: int
  Height :: int
  SizeBytes :: int
  MimeType :: string

definition detectMimeType :: "string \<Rightarrow> string" where
  "detectMimeType data =
     (if length data < 4 then ''application/octet-stream''
      else if data ! 0 = CHR 0x89 \<and> data ! 1 = CHR 0x50 \<and> data ! 2 = CHR 0x4E \<and> data ! 3 = CHR 0x47
        then ''image/png''
      else if data ! 0 = CHR 0xFF \<and> data ! 1 = CHR 0xD8 \<and> data ! 2 = CHR 0xFF then ''image/jpeg''
      else if data ! 0 = CHR 0x47 \<and> data ! 1 = CHR 0x49 \<and> data ! 2 = CHR 0x46 then ''image/gif''
      else if length data \<ge> 12 \<and> data ! 0 = CHR 0x52 \<and> data ! 1 = CHR 0x49 \<and> data ! 2 = CHR 0x46
              \<and> data ! 3 = CHR 0x46 \<and> data ! 8 = CHR 0x57 \<and> data ! 9 = CHR 0x45
              \<and> data ! 10 = CHR 0x42 \<and> data ! 11 = CHR 0x50
        then ''image/webp''
      else ''application/octet-stream'')"

definition formatToMimeType :: "string \<Rightarrow> string" where
  "formatToMimeType format =
     (if format = ''png'' then ''image/png''
      else if format = ''jpeg'' then ''image/jpeg''
      else if format = ''gif'' then ''image/gif''
      else if format = ''webp'' then ''image/webp''
      else ''image/'' @ format)"

definition DownloadMedia :: "collaborators \<Rightarrow> string \<Rightarrow> error + string \<times> string" where
  "DownloadMedia C mxcURI =
     (case ParseContentURI C mxcURI of
        Inl err \<Rightarrow> Inl (''failed to parse MXC URI: '' @ err)
      | Inr parsedURI \<Rightarrow>
          (case DownloadBytes C parsedURI of
             Inl err \<Rightarrow> Inl (''failed to download media: '' @ err)
           | Inr data \<Rightarrow> Inr (data, detectMimeType data)))"

definition UploadMedia :: "collaborators \<Rightarrow> string \<Rightarrow> string \<Rightarrow> error + string" where
  "UploadMedia C data mimeType =
     (case UploadBytes C data mimeType of
        Inl err \<Rightarrow> Inl (''failed to upload media: '' @ err)
      | Inr contentURI \<Rightarrow> Inr contentURI)"

definition GetImageInfo :: "collaborators \<Rightarrow> string \<Rightarrow> error + ImageInfo" where
  "GetImageInfo C data =
     (case DecodeConfig C data of
        Inl err \<Rightarrow> Inl (''failed to decode image: '' @ err)
      | Inr (w, h, format) \<Rightarrow>
          Inr \<lparr>ImageInfo.Width = w, ImageInfo.Height = h,
               ImageInfo.SizeBytes = int (length data),
               ImageInfo.MimeType = formatToMimeType format\<rparr>)"

definition HashImage :: "collaborators \<Rightarrow> string \<Rightarrow> string" where
  "HashImage C data = Sum256Hex C data"

definition isImageMimeType :: "string \<Rightarrow> bool" where
  "isImageMimeType mimeType =
     list_ex (\<lambda>valid. mimeType = valid) [''image/png'', ''image/jpeg'', ''image/gif'', ''image/webp'']"

definition GenerateAltText :: "collaborators \<Rightarrow> string \<Rightarrow> string \<Rightarrow> error + string" where
  "GenerateAltText C imageData mimeType =
     (if length imageData = 0 then Inl ''image data is empty''
      else if \<not> isImageMimeType mimeType then Inl (''invalid MIME type for image: '' @ mimeType)
      else (case MessagesNew C mimeType imageData of
              Inl err \<Rightarrow> Inl (''failed to generate alt-text: '' @ err)
            | Inr [] \<Rightarrow> Inl ''no content in response''
            | Inr ((ty, text) # _) \<Rightarrow>
                if ty \<noteq> ''text'' then Inl (''unexpected response type: '' @ ty)
                else Inr text))"

section \<open>The collection workflow (internal/bot/reactions.go)\<close>

text \<open>
  \<^verbatim>\<open>collectSticker\<close>: parse the address, download, read the image header, hash, upload
  unless the image is already on the bot's homeserver, ask for the caption, clean it, build
  the sticker record and hand it to \<^verbatim>\<open>AddSticker\<close>. Each failing step ends the workflow.
  The record that is built is a function of its own, so that it can be named.
\<close>

definition cleanAltText :: "unicode_lib \<Rightarrow> string \<Rightarrow> string" where
  "cleanAltText L altText =
     TrimSpace L
       (ReplaceAll (ReplaceAll (ReplaceAll altText [CHR 0x0D, CHR 0x0A] '' '') [CHR 0x0A] '' '')
          [CHR 0x0D] '' '')"

definition newSticker ::
    "collaborators \<Rightarrow> string \<Rightarrow> string \<Rightarrow> string \<Rightarrow> string \<Rightarrow> string \<Rightarrow> ImageInfo \<Rightarrow> string \<Rightarrow> string
       \<Rightarrow> Sticker" where
  "newSticker C stickerID room eventID mxcURI localMXC imageInfo originalBody altText =
     \<lparr>ID = stickerID, Sticker.Name = stickerID, CollectedAt = Now C,
      SourceRoom = room, SourceEvent = eventID, SourceMXC = mxcURI, LocalMXC = localMXC,
      Sticker.MimeType = ImageInfo.MimeType imageInfo,
      Sticker.Width = ImageInfo.Width imageInfo, Sticker.Height = ImageInfo.Height imageInfo,
      Sticker.SizeBytes = ImageInfo.SizeBytes imageInfo,
      OriginalBody = originalBody, GeneratedAltText = altText,
      InPacks = [], Sticker.Usage = []\<rparr>"

definition collectSticker ::
    "collaborators \<Rightarrow> unicode_lib \<Rightarrow> dataDir \<Rightarrow> string \<Rightarrow> string \<Rightarrow> string \<Rightarrow> string
       \<Rightarrow> error option \<times> dataDir" where
  "collectSticker C L d room eventID mxcURI originalBody =
     (case ParseContentURI C mxcURI of
        Inl err \<Rightarrow> (Some (''invalid MXC URI: '' @ err), d)
      | Inr parsedMXC \<Rightarrow>
     let needsRehost = (fst parsedMXC \<noteq> UserHomeserver C) in
     (case DownloadMedia C mxcURI of
        Inl err \<Rightarrow> (Some (''download failed: '' @ err), d)
      | Inr (imageData, detectedMimeType) \<Rightarrow>
     (case GetImageInfo C imageData of
        Inl err \<Rightarrow> (Some (''failed to get image info: '' @ err), d)
      | Inr imageInfo0 \<Rightarrow>
     let imageInfo =
           (if ImageInfo.MimeType imageInfo0 = [] \<or>
               ImageInfo.MimeType imageInfo0 = ''application/octet-stream''
            then imageInfo0\<lparr>ImageInfo.MimeType := detectedMimeType\<rparr> else imageInfo0);
         stickerID = HashImage C imageData
     in
     (case (if needsRehost
            then (case UploadMedia C imageData (ImageInfo.MimeType imageInfo) of
                    Inl err \<Rightarrow> Inl (''upload failed: '' @ err)
                  | Inr uploaded \<Rightarrow> Inr uploaded)
            else Inr mxcURI) of
        Inl err \<Rightarrow> (Some err, d)
      | Inr localMXC \<Rightarrow>
     (case GenerateAltText C imageData (ImageInfo.MimeType imageInfo) of
        Inl err \<Rightarrow> (Some (''alt-text generation failed: '' @ err), d)
      | Inr altText0 \<Rightarrow>
     let sticker = newSticker C stickerID room eventID mxcURI localMXC imageInfo originalBody
                     (cleanAltText L altText0)
     in
     (case AddSticker d sticker of
        (Some err, d') \<Rightarrow> (Some (''failed to save sticker: '' @ err), d')
      | (None, d') \<Rightarrow> (None, d')))))))"

section \<open>The pack commands of the bot (internal/bot/commands.go)\<close>

text \<open>
  A command returns the text of its reply with the data directory as it leaves it. The
  marks that open a reply are UTF-8 byte sequences.
\<close>

definition cross_mark :: string where
  "cross_mark = [CHR 0xE2, CHR 0x9D, CHR 0x8C]"

definition check_mark :: string where
  "check_mark = [CHR 0xE2, CHR 0x9C, CHR 0x85]"

definition warning_sign :: string where
  "warning_sign = [CHR 0xE2, CHR 0x9A, CHR 0xA0, CHR 0xEF, CHR 0xB8, CHR 0x8F]"

definition reserved_reply :: string where
  "reserved_reply = cross_mark @
     '' Cannot create pack named 'unsorted' - this is a reserved name for stickers not in any pack''"

definition packCreate ::
    "collaborators \<Rightarrow> unicode_lib \<Rightarrow> dataDir \<Rightarrow> string \<Rightarrow> string \<times> dataDir" where
  "packCreate C L d name =
     (let displayName = name;
          packID = ToLower L (ReplaceAll name '' '' ''-'')
      in if packID = ''unsorted'' then (reserved_reply, d)
         else (case CreatePackWithAttribution d packID displayName (UserID C) of
                 (Some err, d') \<Rightarrow> (cross_mark @ '' Error creating pack: '' @ err, d')
               | (None, d') \<Rightarrow> (check_mark @ '' Created pack: '' @ displayName, d')))"

definition packAdd :: "dataDir \<Rightarrow> string \<Rightarrow> string \<Rightarrow> string \<times> dataDir" where
  "packAdd d packName stickerID =
     (case AddToPack d packName [stickerID] of
        (Some err, d') \<Rightarrow> (cross_mark @ '' Error adding to pack: '' @ err, d')
      | (None, d') \<Rightarrow> (check_mark @ '' Added sticker to pack: '' @ packName, d'))"

definition packRemove :: "dataDir \<Rightarrow> string \<Rightarrow> string \<Rightarrow> string \<times> dataDir" where
  "packRemove d packName stickerID =
     (case RemoveFromPack d packName [stickerID] of
        (Some err, d') \<Rightarrow> (cross_mark @ '' Error removing from pack: '' @ err, d')
      | (None, d') \<Rightarrow> (check_mark @ '' Removed sticker from pack: '' @ packName, d'))"

text \<open>Decimal digits of a number, for the \<^verbatim>\<open>%d\<close> of the replies.\<close>

function Itoa :: "nat \<Rightarrow> string" where
  "Itoa n = (if n < 10 then [char_of (48 + n)] else Itoa (n div 10) @ [char_of (48 + n mod 10)])"
  by pat_completeness auto
termination
  by (relation "measure id") auto

text \<open>
  \<^verbatim>\<open>packPublish\<close>. With an empty room id the pack goes to every room of its ledger, one
  \<^verbatim>\<open>PublishPack\<close> call per room, errors collected. Go leaves the order in which a map is
  ranged over open; the model takes it as the argument \<open>order\<close>, a list of the ledger's
  rooms.
\<close>

definition republish_step ::
    "collaborators \<Rightarrow> string \<Rightarrow> string \<Rightarrow> nat \<times> string list \<times> dataDir \<Rightarrow> nat \<times> string list \<times> dataDir" where
  "republish_step C packName savedRoomID acc =
     (case acc of (successCount, errors, d) \<Rightarrow>
        (case PublishPack C d packName savedRoomID of
           (Some err, d') \<Rightarrow> (successCount, errors @ [savedRoomID @ '': '' @ err], d')
         | (None, d') \<Rightarrow> (successCount + 1, errors, d')))"

definition packPublish ::
    "collaborators \<Rightarrow> string list \<Rightarrow> dataDir \<Rightarrow> string \<Rightarrow> string \<Rightarrow> string \<times> dataDir" where
  "packPublish C order d packName room =
     (if room = [] then
        (case GetPack d packName of
           Inl err \<Rightarrow> (cross_mark @ '' Error loading pack: '' @ err, d)
         | Inr pack \<Rightarrow>
             if dom (PublishedRooms pack) = {} then
               (cross_mark @ '' Pack has not been published to any rooms yet'' @ [CHR 0x0A, CHR 0x0A] @
                ''Use: !sticker pack publish <pack> <room-id> to publish to a specific room'', d)
             else
               (case fold (republish_step C packName) order (0, [], d) of
                  (successCount, errors, d') \<Rightarrow>
                    if length errors > 0 then
                      (warning_sign @ '' Published to '' @ Itoa successCount @ ''/'' @
                       Itoa (card (dom (PublishedRooms pack))) @ '' rooms'' @ [CHR 0x0A, CHR 0x0A] @ ''Errors:'' @
                       [CHR 0x0A] @ Join errors [CHR 0x0A], d')
                    else
                      (check_mark @ '' Published pack '' @ [CHR 0x27] @ packName @ [CHR 0x27] @
                       '' to '' @ Itoa successCount @ '' room(s)'', d')))
      else if take 1 room \<noteq> ''!'' then
        (cross_mark @ '' Invalid room ID - must start with !'' @ [CHR 0x0A, CHR 0x0A] @
         ''Example: !roomid:matrix.org'', d)
      else
        (case PublishPack C d packName room of
           (Some err, d') \<Rightarrow> (cross_mark @ '' Error publishing pack: '' @ err, d')
         | (None, d') \<Rightarrow>
             (check_mark @ '' Published pack '' @ [CHR 0x27] @ packName @ [CHR 0x27] @
              '' to room '' @ room, d')))"

section \<open>Properties of the two stores\<close>

text \<open>
  Membership is recorded on both sides: a pack lists the ids of its stickers and a sticker
  lists the names of its packs. The two sides agree when, for every pack and every sticker
  of the stores, the sticker's id is among the pack's ids exactly when the pack's name is
  among the sticker's packs, and no pack lists an id twice.
\<close>

definition membership_consistent :: "dataDir \<Rightarrow> bool" where
  "membership_consistent d =
     list_all (\<lambda>P.
         list_all (\<lambda>I. (ID I \<in> set (StickerIDs P)) = (Pack.Name P \<in> set (InPacks I)))
           (Stickers (collection_json d))
         \<and> distinct (StickerIDs P))
       (Packs (packs_json d))"

text \<open>
  The directories the program can produce: it starts from the empty directory and is
  changed only by the operations of the two stores and by publishing. \<^verbatim>\<open>UpdatePublished\<close>
  is no step of its own: the program calls it from \<^verbatim>\<open>PublishPack\<close> only. The workflow
  and the commands of the bot are compositions of these steps.
\<close>

inductive reachable :: "dataDir \<Rightarrow> bool" where
  r_empty: "reachable emptyDir"
| r_AddSticker: "reachable d \<Longrightarrow> reachable (snd (AddSticker d sticker))"
| r_UpdateAltText: "reachable d \<Longrightarrow> reachable (snd (UpdateAltText d id' altText))"
| r_SetStickerUsage: "reachable d \<Longrightarrow> reachable (snd (SetStickerUsage d stickerID usage))"
| r_SetStickerName: "reachable d \<Longrightarrow> reachable (snd (SetStickerName d stickerID name))"
| r_DeleteSticker: "reachable d \<Longrightarrow> reachable (snd (DeleteSticker d id'))"
| r_CreatePack:
    "reachable d \<Longrightarrow> reachable (snd (CreatePackWithAttribution d name displayName attribution))"
| r_AddToPack: "reachable d \<Longrightarrow> reachable (snd (AddToPack d packName stickerIDs))"
| r_RemoveFromPack: "reachable d \<Longrightarrow> reachable (snd (RemoveFromPack d packName stickerIDs))"
| r_SetPackAvatar: "reachable d \<Longrightarrow> reachable (snd (SetPackAvatar d packName avatarURL))"
| r_SetPackUsage: "reachable d \<Longrightarrow> reachable (snd (SetPackUsage d packName usage))"
| r_PublishPack: "reachable d \<Longrightarrow> reachable (snd (PublishPack C d packName room))"

text \<open>Every value of a pack's publish ledger is the pack's own name.\<close>

definition ledger_keys_are_pack_name :: "dataDir \<Rightarrow> bool" where
  "ledger_keys_are_pack_name d =
     list_all (\<lambda>P. ran (PublishedRooms P) \<subseteq> {Pack.Name P}) (Packs (packs_json d))"

text \<open>
  The payload keys its entries by shortcode, so two members of a pack with the same
  shortcode compete for one entry. \<open>member_shortcodes\<close> lists, in the order of the pack,
  the shortcode under which each member goes into the payload (none for an id that is not
  in the collection). The member at position \<open>k\<close> keeps its entry when no later member
  of the pack has the same shortcode.
\<close>

definition member_shortcodes :: "Sticker list \<Rightarrow> string list \<Rightarrow> string option list" where
  "member_shortcodes stickers ids =
     map (\<lambda>sid. map_option (\<lambda>s. shortcode_of s sid) (find (\<lambda>s. ID s = sid) stickers)) ids"

definition keeps_its_entry :: "Sticker list \<Rightarrow> string list \<Rightarrow> nat \<Rightarrow> bool" where
  "keeps_its_entry stickers ids k =
     (k < length ids \<and>
      member_shortcodes stickers ids ! k \<notin> set (drop (Suc k) (member_shortcodes stickers ids)))"

section \<open>A concrete setting\<close>

text \<open>
  Stand-ins for the collaborators, to run the model on concrete inputs: every address
  parses, the download returns the file id as the bytes (so that different addresses can
  carry the same or different images), every image is a 64 by 64 PNG, the digest of a byte
  sequence is written \<open>sha256:\<close> followed by the bytes, uploads and sends succeed, and the
  caption is a fixed sentence with a line break in it.

  The stand-in for the Unicode side of the string library leaves a string with non-ASCII
  bytes as it is, with one exception taken from the Unicode tables: the token \<open>STICKER\<close>
  written with the Kelvin sign (U+212A, the bytes E2 84 AA) in place of the letter K has
  the lower-case form \<open>sticker\<close>, because the lower-case letter of the Kelvin sign is
  \<open>k\<close>.
\<close>

definition demo_kelvin_token :: string where
  "demo_kelvin_token = ''STIC'' @ [CHR 0xE2, CHR 0x84, CHR 0xAA] @ ''ER''"

definition demo_lib :: unicode_lib where
  "demo_lib = \<lparr>unicode_ToLower = (\<lambda>s. if s = demo_kelvin_token then ''sticker'' else s),
               unicode_TrimFunc = (\<lambda>s. s), unicode_TrimRightFunc = (\<lambda>s. s)\<rparr>"

definition demo_collab :: collaborators where
  "demo_collab =
     \<lparr>UserID = ''@bot:bot.example'', UserHomeserver = ''bot.example'',
      ParseContentURI = (\<lambda>uri. Inr (''other.example'', uri)),
      DownloadBytes = (\<lambda>(server, file). Inr file),
      UploadBytes = (\<lambda>data mimeType. Inr (''mxc://bot.example/'' @ data)),
      SendStateEvent = (\<lambda>ev. None),
      DecodeConfig = (\<lambda>data. Inr (64, 64, ''png'')),
      Sum256Hex = (\<lambda>data. ''sha256:'' @ data),
      MessagesNew = (\<lambda>mimeType data. Inr [(''text'', ''A cat'' @ [CHR 0x0A] @ ''waving '')]),
      Now = 2000\<rparr>"

definition demo_sticker :: Sticker where
  "demo_sticker =
     \<lparr>ID = ''sha256:cat'', Sticker.Name = ''happy_cat'', CollectedAt = 1000,
      SourceRoom = ''!lobby:other.example'', SourceEvent = ''$ev1'',
      SourceMXC = ''cat'', LocalMXC = ''mxc://bot.example/cat'',
      Sticker.MimeType = ''image/png'', Sticker.Width = 64, Sticker.Height = 64,
      Sticker.SizeBytes = 3, OriginalBody = ''cat'', GeneratedAltText = ''A cat'',
      InPacks = [], Sticker.Usage = [''emoticon'']\<rparr>"

definition demo_pack :: Pack where
  "demo_pack =
     \<lparr>Pack.Name = ''faves'', Pack.DisplayName = ''Faves'', Pack.AvatarURL = [],
      Pack.Attribution = ''@bot:bot.example'', StickerIDs = [],
      PublishedRooms = Map.empty, Pack.Usage = []\<rparr>"

definition demo_dir :: dataDir where
  "demo_dir = \<lparr>collection_json = \<lparr>Stickers = [demo_sticker]\<rparr>,
               packs_json = \<lparr>Packs = [demo_pack]\<rparr>\<rparr>"

text \<open>
  A second directory, in which the pack \<open>faves\<close> has two members: the cat, with a short
  name and a usage override, and an image that has neither a generated nor an original
  caption, no short name of its own choosing and no override. Below it, the state event
  that publishing this pack builds.
\<close>

definition demo_cat_in_pack :: Sticker where
  "demo_cat_in_pack = demo_sticker\<lparr>InPacks := [''faves'']\<rparr>"

definition demo_blank :: Sticker where
  "demo_blank =
     \<lparr>ID = ''sha256:blank'', Sticker.Name = ''sha256:blank'', CollectedAt = 1500,
      SourceRoom = ''!lobby:other.example'', SourceEvent = ''$ev3'',
      SourceMXC = ''blank'', LocalMXC = ''mxc://bot.example/blank'',
      Sticker.MimeType = ''image/png'', Sticker.Width = 64, Sticker.Height = 64,
      Sticker.SizeBytes = 5, OriginalBody = [], GeneratedAltText = [],
      InPacks = [''faves''], Sticker.Usage = []\<rparr>"

definition demo_published_dir :: dataDir where
  "demo_published_dir =
     \<lparr>collection_json = \<lparr>Stickers = [demo_cat_in_pack, demo_blank]\<rparr>,
      packs_json = \<lparr>Packs = [demo_pack\<lparr>StickerIDs := [''sha256:cat'', ''sha256:blank'']\<rparr>]\<rparr>\<rparr>"

definition demo_event :: StateEvent where
  "demo_event =
     \<lparr>roomID = ''!lobby:bot.example'', eventType = ''im.ponies.room_emotes'',
      stateKey = ''faves'',
      content = \<lparr>Pack = packInfo_of demo_pack,
                 Images = [''happy_cat'' \<mapsto> stickerData_of demo_cat_in_pack,
                           ''sha256:blank'' \<mapsto> stickerData_of demo_blank]\<rparr>\<rparr>"

text \<open>
  A third directory, in which the pack \<open>twins\<close> has two members that were both given the
  short name \<open>cat\<close>; the first has a usage override, the second has none. Below it, the
  state event that publishing this pack builds: it has one entry.
\<close>

definition demo_twin_a :: Sticker where
  "demo_twin_a =
     \<lparr>ID = ''sha256:a'', Sticker.Name = ''cat'', CollectedAt = 1000,
      SourceRoom = ''!lobby:other.example'', SourceEvent = ''$ev4'',
      SourceMXC = ''a'', LocalMXC = ''mxc://bot.example/a'',
      Sticker.MimeType = ''image/png'', Sticker.Width = 64, Sticker.Height = 64,
      Sticker.SizeBytes = 1, OriginalBody = [], GeneratedAltText = ''first cat'',
      InPacks = [''twins''], Sticker.Usage = [''sticker'']\<rparr>"

definition demo_twin_b :: Sticker where
  "demo_twin_b =
     \<lparr>ID = ''sha256:b'', Sticker.Name = ''cat'', CollectedAt = 1100,
      SourceRoom = ''!lobby:other.example'', SourceEvent = ''$ev5'',
      SourceMXC = ''b'', LocalMXC = ''mxc://bot.example/b'',
      Sticker.MimeType = ''image/png'', Sticker.Width = 64, Sticker.Height = 64,
      Sticker.SizeBytes = 1, OriginalBody = [], GeneratedAltText = ''second cat'',
      InPacks = [''twins''], Sticker.Usage = []\<rparr>"

definition demo_twin_pack :: Pack where
  "demo_twin_pack =
     \<lparr>Pack.Name = ''twins'', Pack.DisplayName = ''Twins'', Pack.AvatarURL = [],
      Pack.Attribution = ''@bot:bot.example'', StickerIDs = [''sha256:a'', ''sha256:b''],
      PublishedRooms = Map.empty, Pack.Usage = []\<rparr>"

definition demo_twin_dir :: dataDir where
  "demo_twin_dir = \<lparr>collection_json = \<lparr>Stickers = [demo_twin_a, demo_twin_b]\<rparr>,
                    packs_json = \<lparr>Packs = [demo_twin_pack]\<rparr>\<rparr>"

definition demo_twin_event :: StateEvent where
  "demo_twin_event =
     \<lparr>roomID = ''!lobby:bot.example'', eventType = ''im.ponies.room_emotes'',
      stateKey = ''twins'',
      content = \<lparr>Pack = packInfo_of demo_twin_pack,
                 Images = [''cat'' \<mapsto> stickerData_of demo_twin_b]\<rparr>\<rparr>"

text \<open>
  A directory reached by two steps from the empty one: the pack \<open>faves\<close> is created and
  then published to one room.
\<close>

definition demo_created :: dataDir where
  "demo_created = snd (CreatePackWithAttribution emptyDir ''faves'' ''Faves'' ''@bot:bot.example'')"

definition demo_once_published :: dataDir where
  "demo_once_published = snd (PublishPack demo_collab demo_created ''faves'' ''!lobby:bot.example'')"

section \<open>Facts about the string functions\<close>

lemma of_char_toLowerByte:
  "(of_char (toLowerByte c) :: nat) = (if isUpperByte c then of_char c + 32 else of_char c)"
  by (simp add: toLowerByte_def isUpperByte_def)

lemma char_eq_nat: "(c = d) = ((of_char c :: nat) = of_char d)"
  by simp

lemma toLowerByte_eq_iff:
  assumes "isLowerLetter d"
  shows "toLowerByte c = d \<longleftrightarrow> spec_same_letter c d"
proof -
  have "toLowerByte c = d \<longleftrightarrow> (of_char (toLowerByte c) :: nat) = of_char d"
    by simp
  also have "\<dots> \<longleftrightarrow> spec_same_letter c d"
    using assms
    unfolding of_char_toLowerByte spec_same_letter_def isLowerLetter_def isUpperByte_def
      char_eq_nat [of c d]
    by presburger
  finally show ?thesis .
qed

lemma map_toLowerByte_eq_iff:
  "list_all isLowerLetter w \<Longrightarrow> map toLowerByte t = w \<longleftrightarrow> spec_equal_fold t w"
  unfolding spec_equal_fold_def
proof (induction t arbitrary: w)
  case Nil
  then show ?case by auto
next
  case (Cons c t)
  then show ?case
    by (cases w) (auto simp: toLowerByte_eq_iff)
qed

lemma dropWhile_no_space:
  "list_all (\<lambda>c. \<not> asciiSpace c) t \<Longrightarrow> dropWhile asciiSpace t = t"
  by (cases t) auto

lemma TrimSpace_token:
  assumes "isASCII t" and "list_all (\<lambda>c. \<not> asciiSpace c) t"
  shows "TrimSpace L t = t"
proof (cases t)
  case Nil
  then show ?thesis by (simp add: TrimSpace_def)
next
  case (Cons c cs)
  have a: "list_all (\<lambda>c. \<not> asciiSpace c) (rev t)" "list_all isASCIIByte (rev t)"
    using assms by (simp_all add: isASCII_def)
  obtain d ds where r: "rev t = d # ds"
    using Cons by (cases "rev t") auto
  have "dropWhile asciiSpace (rev t) = rev t"
    using a(1) by (rule dropWhile_no_space)
  moreover have "isASCIIByte d" using a(2) r by simp
  moreover have "isASCIIByte c" using assms(1) Cons by (simp add: isASCII_def)
  moreover have "dropWhile asciiSpace t = t"
    using assms(2) by (rule dropWhile_no_space)
  moreover have "rev (d # ds) = t" using r by (metis rev_rev_ident)
  ultimately show ?thesis
    using Cons r by (simp add: TrimSpace_def)
qed

section \<open>Usage tokens\<close>

lemma ToLower_lower_word:
  assumes "list_all isLowerLetter w"
  shows "ToLower L w = w"
proof -
  have a: "isASCII w"
    using assms by (auto simp: isASCII_def list_all_iff isLowerLetter_def isASCIIByte_def)
  have "map toLowerByte w = w"
    using assms
    by (intro map_idI) (auto simp: list_all_iff isLowerLetter_def toLowerByte_def isUpperByte_def)
  with a show ?thesis by (simp add: ToLower_def)
qed

lemma same_up_to_case_word:
  "list_all isLowerLetter w \<Longrightarrow> spec_same_up_to_case L t w \<longleftrightarrow> ToLower L t = w"
  by (simp add: spec_same_up_to_case_def ToLower_lower_word)

lemma same_up_to_case_ascii:
  "list_all isLowerLetter w \<Longrightarrow> isASCII t \<Longrightarrow>
     spec_same_up_to_case L t w \<longleftrightarrow> spec_equal_fold t w"
  by (simp add: same_up_to_case_word ToLower_def map_toLowerByte_eq_iff)

text \<open>
  Claim C7. \<^verbatim>\<open>ParseUsage\<close> is case-insensitive over its vocabulary. Take any input and
  the token that is left of it when the white space around it is trimmed (a token that
  the command router cuts out of a message has none). If the token is the same up to case
  as \<open>sticker\<close>, the result is the list \<open>[sticker]\<close>; if it is the same up to case as
  \<open>emoticon\<close> or as its synonym \<open>emoji\<close>, the result is \<open>[emoticon]\<close>; for \<open>both\<close> it
  is \<open>[sticker, emoticon]\<close>; for \<open>reset\<close> it is the nil list, and no error. Every other
  token fails, and the message of the error lists the accepted words. This holds for every
  input, whatever its bytes. For a token of ASCII bytes without white space, being the same
  up to case is the letter-by-letter relation, so that there the outcome is decided by
  comparing the token with the five words letter by letter.
\<close>

theorem ParseUsage_case_insensitive:
  "ParseUsage L input =
     (let token = TrimSpace L input in
      if spec_same_up_to_case L token ''sticker'' then Inr [''sticker'']
      else if spec_same_up_to_case L token ''emoticon'' \<or> spec_same_up_to_case L token ''emoji''
        then Inr [''emoticon'']
      else if spec_same_up_to_case L token ''both'' then Inr [''sticker'', ''emoticon'']
      else if spec_same_up_to_case L token ''reset'' then Inr []
      else Inl (''invalid usage type: '' @ ToLower L token @
                '' (valid: sticker, emoticon, emoji, both, reset)'')) \<and>
   (isASCII input \<and> list_all (\<lambda>c. \<not> asciiSpace c) input \<longrightarrow>
      ParseUsage L input =
        (if spec_equal_fold input ''sticker'' then Inr [''sticker'']
         else if spec_equal_fold input ''emoticon'' \<or> spec_equal_fold input ''emoji''
           then Inr [''emoticon'']
         else if spec_equal_fold input ''both'' then Inr [''sticker'', ''emoticon'']
         else if spec_equal_fold input ''reset'' then Inr []
         else Inl (''invalid usage type: '' @ map toLowerByte input @
                   '' (valid: sticker, emoticon, emoji, both, reset)'')))"
proof (rule conjI)
  let ?t = "TrimSpace L input"
  have s: "spec_same_up_to_case L ?t ''sticker'' \<longleftrightarrow> ToLower L ?t = ''sticker''"
    by (rule same_up_to_case_word) (simp add: isLowerLetter_def)
  have e: "spec_same_up_to_case L ?t ''emoticon'' \<longleftrightarrow> ToLower L ?t = ''emoticon''"
    by (rule same_up_to_case_word) (simp add: isLowerLetter_def)
  have j: "spec_same_up_to_case L ?t ''emoji'' \<longleftrightarrow> ToLower L ?t = ''emoji''"
    by (rule same_up_to_case_word) (simp add: isLowerLetter_def)
  have b: "spec_same_up_to_case L ?t ''both'' \<longleftrightarrow> ToLower L ?t = ''both''"
    by (rule same_up_to_case_word) (simp add: isLowerLetter_def)
  have r: "spec_same_up_to_case L ?t ''reset'' \<longleftrightarrow> ToLower L ?t = ''reset''"
    by (rule same_up_to_case_word) (simp add: isLowerLetter_def)
  show "ParseUsage L input =
     (let token = TrimSpace L input in
      if spec_same_up_to_case L token ''sticker'' then Inr [''sticker'']
      else if spec_same_up_to_case L token ''emoticon'' \<or> spec_same_up_to_case L token ''emoji''
        then Inr [''emoticon'']
      else if spec_same_up_to_case L token ''both'' then Inr [''sticker'', ''emoticon'']
      else if spec_same_up_to_case L token ''reset'' then Inr []
      else Inl (''invalid usage type: '' @ ToLower L token @
                '' (valid: sticker, emoticon, emoji, both, reset)''))"
    unfolding ParseUsage_def Let_def s e j b r by (rule refl)
next
  show "isASCII input \<and> list_all (\<lambda>c. \<not> asciiSpace c) input \<longrightarrow>
      ParseUsage L input =
        (if spec_equal_fold input ''sticker'' then Inr [''sticker'']
         else if spec_equal_fold input ''emoticon'' \<or> spec_equal_fold input ''emoji''
           then Inr [''emoticon'']
         else if spec_equal_fold input ''both'' then Inr [''sticker'', ''emoticon'']
         else if spec_equal_fold input ''reset'' then Inr []
         else Inl (''invalid usage type: '' @ map toLowerByte input @
                   '' (valid: sticker, emoticon, emoji, both, reset)''))"
  proof (intro impI, elim conjE)
    assume a: "isASCII input" and n: "list_all (\<lambda>c. \<not> asciiSpace c) input"
    have t: "ToLower L (TrimSpace L input) = map toLowerByte input"
      using a n by (simp add: TrimSpace_token ToLower_def)
    have s: "map toLowerByte input = ''sticker'' \<longleftrightarrow> spec_equal_fold input ''sticker''"
      by (rule map_toLowerByte_eq_iff) (simp add: isLowerLetter_def)
    have e: "map toLowerByte input = ''emoticon'' \<longleftrightarrow> spec_equal_fold input ''emoticon''"
      by (rule map_toLowerByte_eq_iff) (simp add: isLowerLetter_def)
    have j: "map toLowerByte input = ''emoji'' \<longleftrightarrow> spec_equal_fold input ''emoji''"
      by (rule map_toLowerByte_eq_iff) (simp add: isLowerLetter_def)
    have b: "map toLowerByte input = ''both'' \<longleftrightarrow> spec_equal_fold input ''both''"
      by (rule map_toLowerByte_eq_iff) (simp add: isLowerLetter_def)
    have r: "map toLowerByte input = ''reset'' \<longleftrightarrow> spec_equal_fold input ''reset''"
      by (rule map_toLowerByte_eq_iff) (simp add: isLowerLetter_def)
    show "ParseUsage L input =
        (if spec_equal_fold input ''sticker'' then Inr [''sticker'']
         else if spec_equal_fold input ''emoticon'' \<or> spec_equal_fold input ''emoji''
           then Inr [''emoticon'']
         else if spec_equal_fold input ''both'' then Inr [''sticker'', ''emoticon'']
         else if spec_equal_fold input ''reset'' then Inr []
         else Inl (''invalid usage type: '' @ map toLowerByte input @
                   '' (valid: sticker, emoticon, emoji, both, reset)''))"
      unfolding ParseUsage_def Let_def t s e j b r by (rule refl)
  qed
qed

theorem ParseUsage_case_insensitive_witness:
  "isASCII ''EmoJi'' \<and> list_all (\<lambda>c. \<not> asciiSpace c) ''EmoJi'' \<and>
   ParseUsage demo_lib ''EmoJi'' = Inr [''emoticon''] \<and>
   isASCII ''RESET'' \<and> list_all (\<lambda>c. \<not> asciiSpace c) ''RESET'' \<and>
   ParseUsage demo_lib ''RESET'' = Inr [] \<and>
   isASCII ''stickers'' \<and> list_all (\<lambda>c. \<not> asciiSpace c) ''stickers'' \<and>
   ParseUsage demo_lib ''stickers'' =
     Inl ''invalid usage type: stickers (valid: sticker, emoticon, emoji, both, reset)'' \<and>
   \<not> isASCII demo_kelvin_token \<and>
   TrimSpace demo_lib demo_kelvin_token = demo_kelvin_token \<and>
   spec_same_up_to_case demo_lib demo_kelvin_token ''sticker'' \<and>
   ParseUsage demo_lib demo_kelvin_token = Inr [''sticker'']"
proof -
  have a1: "isASCII ''EmoJi''" and a2: "list_all (\<lambda>c. \<not> asciiSpace c) ''EmoJi''"
    by (simp_all add: isASCII_def isASCIIByte_def asciiSpace_def)
  have b1: "isASCII ''RESET''" and b2: "list_all (\<lambda>c. \<not> asciiSpace c) ''RESET''"
    by (simp_all add: isASCII_def isASCIIByte_def asciiSpace_def)
  have c1: "isASCII ''stickers''" and c2: "list_all (\<lambda>c. \<not> asciiSpace c) ''stickers''"
    by (simp_all add: isASCII_def isASCIIByte_def asciiSpace_def)
  have "ParseUsage demo_lib ''EmoJi'' = Inr [''emoticon'']"
    using ParseUsage_case_insensitive [of demo_lib "''EmoJi''", THEN conjunct2] a1 a2
    by (simp add: spec_equal_fold_def spec_same_letter_def isUpperByte_def)
  moreover have "ParseUsage demo_lib ''RESET'' = Inr []"
    using ParseUsage_case_insensitive [of demo_lib "''RESET''", THEN conjunct2] b1 b2
    by (simp add: spec_equal_fold_def spec_same_letter_def isUpperByte_def)
  moreover have "ParseUsage demo_lib ''stickers'' =
     Inl ''invalid usage type: stickers (valid: sticker, emoticon, emoji, both, reset)''"
    using ParseUsage_case_insensitive [of demo_lib "''stickers''", THEN conjunct2] c1 c2
    by (simp add: spec_equal_fold_def spec_same_letter_def isUpperByte_def toLowerByte_def)
  moreover have k1: "\<not> isASCII demo_kelvin_token"
    by (simp add: demo_kelvin_token_def isASCII_def isASCIIByte_def)
  moreover have k2: "TrimSpace demo_lib demo_kelvin_token = demo_kelvin_token"
    by (simp add: demo_kelvin_token_def TrimSpace_def asciiSpace_def isASCIIByte_def)
  moreover have k3: "spec_same_up_to_case demo_lib demo_kelvin_token ''sticker''"
    using k1 ToLower_lower_word [of "''sticker''" demo_lib]
    by (simp add: spec_same_up_to_case_def ToLower_def demo_lib_def isLowerLetter_def)
  moreover have "ParseUsage demo_lib demo_kelvin_token = Inr [''sticker'']"
    using ParseUsage_case_insensitive [of demo_lib demo_kelvin_token, THEN conjunct1] k2 k3
    by (simp add: Let_def)
  ultimately show ?thesis using a1 a2 b1 b2 c1 c2 by simp
qed

section \<open>The first index\<close>

lemma first_index_Some:
  "first_index p xs = Some i \<Longrightarrow> i < length xs \<and> p (xs ! i) \<and> (\<forall>j<i. \<not> p (xs ! j))"
proof (induction xs arbitrary: i)
  case Nil
  then show ?case by simp
next
  case (Cons x xs)
  show ?case
  proof (cases "p x")
    case True
    with Cons.prems show ?thesis by simp
  next
    case False
    with Cons.prems obtain k where k: "first_index p xs = Some k" "i = Suc k"
      by auto
    from Cons.IH [OF k(1)] False k(2) show ?thesis
      by (auto simp: less_Suc_eq_0_disj)
  qed
qed

lemma first_index_None: "first_index p xs = None \<longleftrightarrow> \<not> list_ex p xs"
  by (induction xs) auto

lemma first_index_ex: "list_ex p xs \<Longrightarrow> \<exists>i. first_index p xs = Some i"
  using first_index_None [of p xs] by (cases "first_index p xs") auto

section \<open>Collecting an image again\<close>

lemma AddSticker_existing:
  assumes "first_index (\<lambda>e. ID e = ID sticker) (Stickers (collection_json d)) = Some i"
  shows "AddSticker d sticker =
           (None, d\<lparr>collection_json :=
                      (collection_json d)\<lparr>Stickers := (Stickers (collection_json d))[i := sticker]\<rparr>\<rparr>)"
  using assms by (simp add: AddSticker_def LoadCollection_def SaveCollection_def Let_def)

lemma AddSticker_new:
  assumes "first_index (\<lambda>e. ID e = ID sticker) (Stickers (collection_json d)) = None"
  shows "AddSticker d sticker =
           (None, d\<lparr>collection_json :=
                      (collection_json d)\<lparr>Stickers := Stickers (collection_json d) @ [sticker]\<rparr>\<rparr>)"
  using assms by (simp add: AddSticker_def LoadCollection_def SaveCollection_def Let_def)

lemma map_ID_update:
  assumes "i < length xs" and "ID (xs ! i) = ID s"
  shows "map ID (xs[i := s]) = map ID xs"
  using assms by (simp add: map_update list_update_same_conv)

lemma AddSticker_tail:
  "(case AddSticker d s of
      (Some err, d') \<Rightarrow> (Some (''failed to save sticker: '' @ err), d')
    | (None, d') \<Rightarrow> (None, d')) = AddSticker d s"
  by (simp add: AddSticker_def Let_def split: option.splits)

text \<open>
  A run of the workflow either stops with an error and leaves the directory as it was, or
  hands a freshly built record, whose id is the digest of the downloaded bytes, to
  \<^verbatim>\<open>AddSticker\<close>.
\<close>

lemma collectSticker_cases:
  "(\<exists>err. collectSticker C L d room eventID mxcURI body = (Some err, d)) \<or>
   (\<exists>parsed imageData localMXC imageInfo altText0.
      ParseContentURI C mxcURI = Inr parsed \<and> DownloadBytes C parsed = Inr imageData \<and>
      GenerateAltText C imageData (ImageInfo.MimeType imageInfo) = Inr altText0 \<and>
      collectSticker C L d room eventID mxcURI body =
        AddSticker d (newSticker C (HashImage C imageData) room eventID mxcURI localMXC imageInfo
                        body (cleanAltText L altText0)))"
proof (cases "ParseContentURI C mxcURI")
  case (Inl err)
  then show ?thesis by (simp add: collectSticker_def)
next
  case parsed: (Inr parsedMXC)
  show ?thesis
  proof (cases "DownloadBytes C parsedMXC")
    case (Inl err)
    with parsed show ?thesis by (simp add: collectSticker_def DownloadMedia_def)
  next
    case data: (Inr imageData)
    show ?thesis
    proof (cases "GetImageInfo C imageData")
      case (Inl err)
      with parsed data show ?thesis by (simp add: collectSticker_def DownloadMedia_def)
    next
      case info: (Inr imageInfo0)
      define imageInfo where "imageInfo =
        (if ImageInfo.MimeType imageInfo0 = [] \<or>
            ImageInfo.MimeType imageInfo0 = ''application/octet-stream''
         then imageInfo0\<lparr>ImageInfo.MimeType := detectMimeType imageData\<rparr> else imageInfo0)"
      define upload where "upload =
        (if fst parsedMXC \<noteq> UserHomeserver C
         then (case UploadMedia C imageData (ImageInfo.MimeType imageInfo) of
                 Inl err \<Rightarrow> Inl (''upload failed: '' @ err)
               | Inr uploaded \<Rightarrow> Inr uploaded)
         else Inr mxcURI)"
      have unfolded: "collectSticker C L d room eventID mxcURI body =
        (case upload of
           Inl err \<Rightarrow> (Some err, d)
         | Inr localMXC \<Rightarrow>
             (case GenerateAltText C imageData (ImageInfo.MimeType imageInfo) of
                Inl err \<Rightarrow> (Some (''alt-text generation failed: '' @ err), d)
              | Inr altText0 \<Rightarrow>
                  AddSticker d (newSticker C (HashImage C imageData) room eventID mxcURI localMXC
                                  imageInfo body (cleanAltText L altText0))))"
        using parsed data info
        by (simp add: collectSticker_def DownloadMedia_def imageInfo_def upload_def Let_def
              AddSticker_tail cong: sum.case_cong)
      show ?thesis
      proof (cases upload)
        case (Inl err)
        with unfolded show ?thesis by simp
      next
        case up: (Inr localMXC)
        show ?thesis
        proof (cases "GenerateAltText C imageData (ImageInfo.MimeType imageInfo)")
          case (Inl err)
          with unfolded up show ?thesis by simp
        next
          case (Inr altText0)
          with unfolded up parsed data show ?thesis by auto
        qed
      qed
    qed
  qed
qed

lemmas demo_simps =
  demo_collab_def demo_lib_def demo_dir_def demo_sticker_def demo_pack_def

lemmas collect_simps =
  collectSticker_def DownloadMedia_def GetImageInfo_def formatToMimeType_def HashImage_def
  UploadMedia_def GenerateAltText_def isImageMimeType_def cleanAltText_def TrimSpace_def
  asciiSpace_def isASCIIByte_def newSticker_def AddSticker_def LoadCollection_def
  SaveCollection_def Let_def

text \<open>
  When the address parses, the download and the decoding succeed, the upload succeeds if
  one is needed, and the caption arrives, the workflow hands this record to \<^verbatim>\<open>AddSticker\<close>.
\<close>

lemma collectSticker_success:
  assumes p: "ParseContentURI C mxcURI = Inr parsedMXC"
      and b: "DownloadBytes C parsedMXC = Inr imageData"
      and c: "DecodeConfig C imageData = Inr (w, h, format)"
      and m: "mimeType = (if formatToMimeType format = [] \<or>
                             formatToMimeType format = ''application/octet-stream''
                          then detectMimeType imageData else formatToMimeType format)"
      and u: "fst parsedMXC \<noteq> UserHomeserver C \<longrightarrow> UploadBytes C imageData mimeType = Inr uploaded"
      and l: "localMXC = (if fst parsedMXC \<noteq> UserHomeserver C then uploaded else mxcURI)"
      and g: "GenerateAltText C imageData mimeType = Inr altText0"
  shows "collectSticker C L d room eventID mxcURI body =
           AddSticker d
             (newSticker C (HashImage C imageData) room eventID mxcURI localMXC
                \<lparr>ImageInfo.Width = w, ImageInfo.Height = h,
                 ImageInfo.SizeBytes = int (length imageData), ImageInfo.MimeType = mimeType\<rparr>
                body (cleanAltText L altText0))"
proof -
  let ?cond = "formatToMimeType format = [] \<or>
               formatToMimeType format = ''application/octet-stream''"
  have info: "GetImageInfo C imageData =
      Inr \<lparr>ImageInfo.Width = w, ImageInfo.Height = h,
           ImageInfo.SizeBytes = int (length imageData),
           ImageInfo.MimeType = formatToMimeType format\<rparr>"
    using c by (simp add: GetImageInfo_def)
  have dl: "DownloadMedia C mxcURI = Inr (imageData, detectMimeType imageData)"
    using p b by (simp add: DownloadMedia_def)
  have up: "fst parsedMXC \<noteq> UserHomeserver C \<Longrightarrow> UploadMedia C imageData mimeType = Inr localMXC"
    using u l by (simp add: UploadMedia_def)
  have nl: "\<not> fst parsedMXC \<noteq> UserHomeserver C \<Longrightarrow> localMXC = mxcURI"
    using l by simp
  show ?thesis
  proof (cases ?cond)
    case True
    then have mt: "mimeType = detectMimeType imageData" using m by simp
    show ?thesis
    proof (cases "fst parsedMXC \<noteq> UserHomeserver C")
      case r: True
      from up [OF r] g True r show ?thesis
        unfolding mt
        by (simp add: collectSticker_def p dl info Let_def AddSticker_tail)
    next
      case r: False
      from nl [OF r] g True r show ?thesis
        unfolding mt
        by (simp add: collectSticker_def p dl info Let_def AddSticker_tail)
    qed
  next
    case False
    then have mt: "mimeType = formatToMimeType format" using m by simp
    show ?thesis
    proof (cases "fst parsedMXC \<noteq> UserHomeserver C")
      case r: True
      from up [OF r] g False r show ?thesis
        unfolding mt
        by (simp add: collectSticker_def p dl info Let_def AddSticker_tail)
    next
      case r: False
      from nl [OF r] g False r show ?thesis
        unfolding mt
        by (simp add: collectSticker_def p dl info Let_def AddSticker_tail)
    qed
  qed
qed

text \<open>
  Conversely a run that returns no error has had all of these.
\<close>

lemma collectSticker_success_only_if:
  assumes ok: "fst (collectSticker C L d room eventID mxcURI body) = None"
  shows "\<exists>parsedMXC imageData w h format mimeType uploaded altText0.
           ParseContentURI C mxcURI = Inr parsedMXC \<and>
           DownloadBytes C parsedMXC = Inr imageData \<and>
           DecodeConfig C imageData = Inr (w, h, format) \<and>
           mimeType = (if formatToMimeType format = [] \<or>
                          formatToMimeType format = ''application/octet-stream''
                       then detectMimeType imageData else formatToMimeType format) \<and>
           (fst parsedMXC \<noteq> UserHomeserver C \<longrightarrow> UploadBytes C imageData mimeType = Inr uploaded) \<and>
           GenerateAltText C imageData mimeType = Inr altText0"
proof (cases "ParseContentURI C mxcURI")
  case (Inl err)
  with ok show ?thesis by (simp add: collectSticker_def)
next
  case p: (Inr parsedMXC)
  show ?thesis
  proof (cases "DownloadBytes C parsedMXC")
    case (Inl err)
    with ok p show ?thesis by (simp add: collectSticker_def DownloadMedia_def)
  next
    case b: (Inr imageData)
    show ?thesis
    proof (cases "DecodeConfig C imageData")
      case (Inl err)
      with ok p b show ?thesis
        by (simp add: collectSticker_def DownloadMedia_def GetImageInfo_def)
    next
      case (Inr whf)
      then obtain w h format where c: "DecodeConfig C imageData = Inr (w, h, format)"
        by (cases whf) auto
      define mimeType where "mimeType = (if formatToMimeType format = [] \<or>
                          formatToMimeType format = ''application/octet-stream''
                       then detectMimeType imageData else formatToMimeType format)"
      have up: "fst parsedMXC \<noteq> UserHomeserver C \<longrightarrow> (\<exists>uploaded. UploadBytes C imageData mimeType = Inr uploaded)"
      proof (intro impI, rule ccontr)
        assume r: "fst parsedMXC \<noteq> UserHomeserver C"
           and "\<nexists>uploaded. UploadBytes C imageData mimeType = Inr uploaded"
        then obtain err where "UploadBytes C imageData mimeType = Inl err"
          by (cases "UploadBytes C imageData mimeType") auto
        with ok p b c r show False
          unfolding mimeType_def
          by (auto simp: collectSticker_def DownloadMedia_def GetImageInfo_def UploadMedia_def
                Let_def split: if_splits)
      qed
      then obtain uploaded where
        u: "fst parsedMXC \<noteq> UserHomeserver C \<longrightarrow> UploadBytes C imageData mimeType = Inr uploaded"
        by blast
      have "\<exists>altText0. GenerateAltText C imageData mimeType = Inr altText0"
      proof (rule ccontr)
        assume "\<nexists>altText0. GenerateAltText C imageData mimeType = Inr altText0"
        then obtain err where "GenerateAltText C imageData mimeType = Inl err"
          by (cases "GenerateAltText C imageData mimeType") auto
        with ok p b c u show False
          unfolding mimeType_def
          by (auto simp: collectSticker_def DownloadMedia_def GetImageInfo_def UploadMedia_def
                Let_def split: if_splits)
      qed
      with p b c u mimeType_def show ?thesis by blast
    qed
  qed
qed

lemma demo_GenerateAltText:
  "GenerateAltText demo_collab ''cat'' ''image/png'' = Inr (''A cat'' @ [CHR 0x0A] @ ''waving '')"
  by (simp add: GenerateAltText_def isImageMimeType_def demo_collab_def)

lemma demo_mime:
  "''image/png'' = (if formatToMimeType ''png'' = [] \<or>
                       formatToMimeType ''png'' = ''application/octet-stream''
                    then detectMimeType ''cat'' else formatToMimeType ''png'')"
  by (simp add: formatToMimeType_def)

text \<open>
  Claim C1. When the bytes that the workflow downloads have a content id that an item of
  the collection already carries, the run does not change the number of items: the ids of
  the collection, in their order, are the same before and after, and every position but
  that of the item with this id is untouched. The upsert replaces in place: handed any
  record with this id, \<^verbatim>\<open>AddSticker\<close> returns no error and puts the record at the position
  of the existing one. When the run returns no error, that position holds the record which
  this run has built, with the room, event, address and caption of this collection, and
  the directory differs from the old one at that position only; when the run stops with
  an error the directory is as it was. And the run returns no error whenever the image
  decodes, the upload (if one is needed) succeeds and the caption arrives.
\<close>

theorem recollect_keeps_item_count:
  assumes "ParseContentURI C mxcURI = Inr parsed"
      and "DownloadBytes C parsed = Inr imageData"
      and "list_ex (\<lambda>s. ID s = HashImage C imageData) (Stickers (collection_json d))"
  shows "let r = collectSticker C L d room eventID mxcURI body;
             old = Stickers (collection_json d);
             new = Stickers (collection_json (snd r))
         in length new = length old \<and> map ID new = map ID old \<and>
            (\<exists>i<length old.
                first_index (\<lambda>s. ID s = HashImage C imageData) old = Some i \<and>
                (\<forall>j<length old. j \<noteq> i \<longrightarrow> new ! j = old ! j) \<and>
                (\<forall>sticker. ID sticker = HashImage C imageData \<longrightarrow>
                    AddSticker d sticker =
                      (None, d\<lparr>collection_json := (collection_json d)\<lparr>Stickers := old[i := sticker]\<rparr>\<rparr>)) \<and>
                (fst r = None \<longrightarrow>
                    (\<exists>localMXC imageInfo altText0.
                        new ! i = newSticker C (HashImage C imageData) room eventID mxcURI localMXC
                                    imageInfo body (cleanAltText L altText0) \<and>
                        snd r = d\<lparr>collection_json := (collection_json d)\<lparr>Stickers := old[i := new ! i]\<rparr>\<rparr>)) \<and>
                (fst r \<noteq> None \<longrightarrow> snd r = d)) \<and>
            (\<forall>w h format mimeType uploaded altText0.
                DecodeConfig C imageData = Inr (w, h, format) \<and>
                mimeType = (if formatToMimeType format = [] \<or>
                               formatToMimeType format = ''application/octet-stream''
                            then detectMimeType imageData else formatToMimeType format) \<and>
                (fst parsed \<noteq> UserHomeserver C \<longrightarrow> UploadBytes C imageData mimeType = Inr uploaded) \<and>
                GenerateAltText C imageData mimeType = Inr altText0
                \<longrightarrow> fst r = None)"
proof -
  let ?old = "Stickers (collection_json d)"
  let ?r = "collectSticker C L d room eventID mxcURI body"
  let ?new = "Stickers (collection_json (snd ?r))"
  obtain i where i: "first_index (\<lambda>s. ID s = HashImage C imageData) ?old = Some i"
    using first_index_ex [OF assms(3)] by blast
  have il: "i < length ?old" and iid: "ID (?old ! i) = HashImage C imageData"
    using first_index_Some [OF i] by simp_all
  have upsert: "\<forall>sticker. ID sticker = HashImage C imageData \<longrightarrow>
      AddSticker d sticker =
        (None, d\<lparr>collection_json := (collection_json d)\<lparr>Stickers := ?old[i := sticker]\<rparr>\<rparr>)"
    using i by (auto intro: AddSticker_existing)
  have total: "\<forall>w h format mimeType uploaded altText0.
                DecodeConfig C imageData = Inr (w, h, format) \<and>
                mimeType = (if formatToMimeType format = [] \<or>
                               formatToMimeType format = ''application/octet-stream''
                            then detectMimeType imageData else formatToMimeType format) \<and>
                (fst parsed \<noteq> UserHomeserver C \<longrightarrow> UploadBytes C imageData mimeType = Inr uploaded) \<and>
                GenerateAltText C imageData mimeType = Inr altText0
                \<longrightarrow> fst ?r = None"
  proof (intro allI impI, elim conjE)
    fix w h format mimeType uploaded altText0
    assume c: "DecodeConfig C imageData = Inr (w, h, format)"
       and m: "mimeType = (if formatToMimeType format = [] \<or>
                               formatToMimeType format = ''application/octet-stream''
                            then detectMimeType imageData else formatToMimeType format)"
       and u: "fst parsed \<noteq> UserHomeserver C \<longrightarrow> UploadBytes C imageData mimeType = Inr uploaded"
       and g: "GenerateAltText C imageData mimeType = Inr altText0"
    from collectSticker_success [OF assms(1,2) c m u refl g, of L d room eventID body]
    show "fst ?r = None" by (simp add: AddSticker_def Let_def split: option.splits)
  qed
  have main: "length ?new = length ?old \<and> map ID ?new = map ID ?old \<and>
      (\<forall>j<length ?old. j \<noteq> i \<longrightarrow> ?new ! j = ?old ! j) \<and>
      (fst ?r = None \<longrightarrow>
          (\<exists>localMXC imageInfo altText0.
              ?new ! i = newSticker C (HashImage C imageData) room eventID mxcURI localMXC
                          imageInfo body (cleanAltText L altText0) \<and>
              snd ?r = d\<lparr>collection_json := (collection_json d)\<lparr>Stickers := ?old[i := ?new ! i]\<rparr>\<rparr>)) \<and>
      (fst ?r \<noteq> None \<longrightarrow> snd ?r = d)"
    using collectSticker_cases [of C L d room eventID mxcURI body]
  proof (elim disjE exE conjE)
    fix err
    assume "?r = (Some err, d)"
    then show ?thesis by simp
  next
    fix parsed' imageData' localMXC imageInfo altText0
    assume p: "ParseContentURI C mxcURI = Inr parsed'"
       and b: "DownloadBytes C parsed' = Inr imageData'"
       and r: "?r = AddSticker d (newSticker C (HashImage C imageData') room eventID mxcURI localMXC
                   imageInfo body (cleanAltText L altText0))"
    let ?s = "newSticker C (HashImage C imageData) room eventID mxcURI localMXC
                   imageInfo body (cleanAltText L altText0)"
    from p b assms(1,2) have same: "imageData' = imageData" by simp
    have ids: "ID ?s = HashImage C imageData" by (simp add: newSticker_def)
    from upsert ids r same
    have res: "?r = (None, d\<lparr>collection_json := (collection_json d)\<lparr>Stickers := ?old[i := ?s]\<rparr>\<rparr>)"
      by simp
    then have new: "?new = ?old[i := ?s]" by simp
    have at: "?new ! i = ?s" using il new by simp
    have m: "map ID (?old[i := ?s]) = map ID ?old"
      by (rule map_ID_update) (simp_all add: il iid ids)
    have "\<exists>localMXC imageInfo altText0.
              ?new ! i = newSticker C (HashImage C imageData) room eventID mxcURI localMXC
                          imageInfo body (cleanAltText L altText0) \<and>
              snd ?r = d\<lparr>collection_json := (collection_json d)\<lparr>Stickers := ?old[i := ?new ! i]\<rparr>\<rparr>"
      using at res by (intro exI [of _ localMXC] exI [of _ imageInfo] exI [of _ altText0]) simp
    moreover have "fst ?r = None" using res by simp
    moreover have "length ?new = length ?old" "map ID ?new = map ID ?old"
      "\<forall>j<length ?old. j \<noteq> i \<longrightarrow> ?new ! j = ?old ! j"
      using new m by simp_all
    ultimately show ?thesis by blast
  qed
  have len: "length ?new = length ?old" and ids: "map ID ?new = map ID ?old"
    and others: "\<forall>j<length ?old. j \<noteq> i \<longrightarrow> ?new ! j = ?old ! j"
    and succ: "fst ?r = None \<longrightarrow>
          (\<exists>localMXC imageInfo altText0.
              ?new ! i = newSticker C (HashImage C imageData) room eventID mxcURI localMXC
                          imageInfo body (cleanAltText L altText0) \<and>
              snd ?r = d\<lparr>collection_json := (collection_json d)\<lparr>Stickers := ?old[i := ?new ! i]\<rparr>\<rparr>)"
    and fail: "fst ?r \<noteq> None \<longrightarrow> snd ?r = d"
    using main by blast+
  show ?thesis
    unfolding Let_def
    by (intro conjI exI [of _ i]) (rule len ids il i others upsert succ fail total)+
qed


theorem recollect_keeps_item_count_witness:
  "ParseContentURI demo_collab ''cat'' = Inr (''other.example'', ''cat'') \<and>
   DownloadBytes demo_collab (''other.example'', ''cat'') = Inr ''cat'' \<and>
   list_ex (\<lambda>s. ID s = HashImage demo_collab ''cat'') (Stickers (collection_json demo_dir)) \<and>
   DecodeConfig demo_collab ''cat'' = Inr (64, 64, ''png'') \<and>
   UploadBytes demo_collab ''cat'' ''image/png'' = Inr ''mxc://bot.example/cat'' \<and>
   fst (collectSticker demo_collab demo_lib demo_dir ''!attic:other.example'' ''$ev2'' ''cat'' ''kitty'')
     = None \<and>
   length (Stickers (collection_json (snd (collectSticker demo_collab demo_lib demo_dir
      ''!attic:other.example'' ''$ev2'' ''cat'' ''kitty'')))) = 1 \<and>
   OriginalBody (Stickers (collection_json (snd (collectSticker demo_collab demo_lib demo_dir
      ''!attic:other.example'' ''$ev2'' ''cat'' ''kitty''))) ! 0) = ''kitty'' \<and>
   SourceEvent (Stickers (collection_json (snd (collectSticker demo_collab demo_lib demo_dir
      ''!attic:other.example'' ''$ev2'' ''cat'' ''kitty''))) ! 0) = ''$ev2''"
proof -
  let ?r = "collectSticker demo_collab demo_lib demo_dir ''!attic:other.example'' ''$ev2'' ''cat'' ''kitty''"
  have h1: "ParseContentURI demo_collab ''cat'' = Inr (''other.example'', ''cat'')"
    by (simp add: demo_collab_def)
  have h2: "DownloadBytes demo_collab (''other.example'', ''cat'') = Inr ''cat''"
    by (simp add: demo_collab_def)
  have h3: "list_ex (\<lambda>s. ID s = HashImage demo_collab ''cat'') (Stickers (collection_json demo_dir))"
    by (simp add: demo_simps HashImage_def)
  have h4: "DecodeConfig demo_collab ''cat'' = Inr (64, 64, ''png'')"
    by (simp add: demo_collab_def)
  have h5: "UploadBytes demo_collab ''cat'' ''image/png'' = Inr ''mxc://bot.example/cat''"
    by (simp add: demo_collab_def)
  have fi: "first_index (\<lambda>s. ID s = HashImage demo_collab ''cat'') (Stickers (collection_json demo_dir))
     = Some 0"
    by (simp add: demo_simps HashImage_def)
  have one: "length (Stickers (collection_json demo_dir)) = 1"
    by (simp add: demo_dir_def)
  note T = recollect_keeps_item_count [OF h1 h2 h3, of demo_lib "''!attic:other.example''" "''$ev2''" "''kitty''",
      unfolded Let_def]
  from T have len: "length (Stickers (collection_json (snd ?r))) = length (Stickers (collection_json demo_dir))"
    by (rule conjunct1)
  from T h4 h5 demo_mime demo_GenerateAltText have ok: "fst ?r = None"
    by blast
  from T ok fi obtain localMXC imageInfo altText0 where
    "Stickers (collection_json (snd ?r)) ! 0 =
       newSticker demo_collab (HashImage demo_collab ''cat'') ''!attic:other.example'' ''$ev2'' ''cat''
         localMXC imageInfo ''kitty'' (cleanAltText demo_lib altText0)"
    by auto
  then have f: "OriginalBody (Stickers (collection_json (snd ?r)) ! 0) = ''kitty''"
    "SourceEvent (Stickers (collection_json (snd ?r)) ! 0) = ''$ev2''"
    by (simp_all add: newSticker_def)
  from h1 h2 h3 h4 h5 ok len one f show ?thesis by simp
qed

section \<open>Adding stickers to a pack\<close>


lemma add_sticker_ids_absent:
  "find (\<lambda>i. \<not> list_ex (\<lambda>s. ID s = i) stickers) ids = Some a \<Longrightarrow>
     add_sticker_ids stickers ids acc = Inl (''sticker not found in collection: '' @ a)"
  by (induction ids arbitrary: acc) (auto split: if_splits)

lemma add_sticker_ids_present:
  "find (\<lambda>i. \<not> list_ex (\<lambda>s. ID s = i) stickers) ids = None \<Longrightarrow>
     \<exists>ids'. add_sticker_ids stickers ids acc = Inr ids'"
  by (induction ids arbitrary: acc) (auto split: if_splits)

lemma add_sticker_ids_known:
  "add_sticker_ids stickers ids acc = Inr ids' \<Longrightarrow> set ids \<subseteq> ID ` set stickers"
  by (induction ids arbitrary: acc) (auto split: if_splits simp: list_ex_iff)

lemma add_sticker_ids_set:
  "add_sticker_ids stickers ids acc = Inr ids' \<Longrightarrow> set ids' = set acc \<union> set ids"
  by (induction ids arbitrary: acc) (auto split: if_splits simp: list_ex_iff)

lemma add_sticker_ids_distinct:
  "add_sticker_ids stickers ids acc = Inr ids' \<Longrightarrow> distinct acc \<Longrightarrow> distinct ids'"
  by (induction ids arbitrary: acc) (auto split: if_splits simp: list_ex_iff)

lemma add_sticker_ids_noop:
  "set ids \<subseteq> set acc \<Longrightarrow> set ids \<subseteq> ID ` set stickers \<Longrightarrow>
     add_sticker_ids stickers ids acc = Inr acc"
  by (induction ids arbitrary: acc) (auto simp: list_ex_iff)

lemma add_in_packs_eq:
  "add_in_packs packName ids s =
     (if ID s \<in> set ids \<and> packName \<notin> set (InPacks s)
      then s\<lparr>InPacks := InPacks s @ [packName]\<rparr> else s)"
proof -
  have "fold (\<lambda>stickerID s.
             if ID s = stickerID
             then (if list_ex (\<lambda>packInList. packInList = packName) (InPacks s) then s
                   else s\<lparr>InPacks := InPacks s @ [packName]\<rparr>)
             else s) ids s = (if ID s \<in> set ids \<and> packName \<notin> set (InPacks s)
      then s\<lparr>InPacks := InPacks s @ [packName]\<rparr> else s)"
    by (induction ids arbitrary: s) (auto simp: list_ex_iff)
  then show ?thesis by (simp add: add_in_packs_def)
qed

lemma ID_add_in_packs [simp]: "ID (add_in_packs packName ids s) = ID s"
  by (simp add: add_in_packs_eq)

lemma add_in_packs_idem:
  "add_in_packs packName ids (add_in_packs packName ids s) = add_in_packs packName ids s"
  by (simp add: add_in_packs_eq)

lemma first_index_update_same:
  assumes "first_index p xs = Some i" "\<And>x. p (f x) = p x"
  shows "first_index p (xs[i := f (xs ! i)]) = Some i"
  using assms(1)
proof (induction xs arbitrary: i)
  case Nil then show ?case by simp
next
  case (Cons x xs)
  then show ?case by (cases i) (auto simp: assms(2) split: if_splits)
qed

lemma AddToPack_outcome:
  "AddToPack d packName stickerIDs =
     (if \<not> list_ex (\<lambda>pack. Pack.Name pack = packName) (Packs (packs_json d))
      then (Some (''pack not found: '' @ packName), d)
      else (case find (\<lambda>i. \<not> list_ex (\<lambda>s. ID s = i) (Stickers (collection_json d))) stickerIDs of
              Some absent \<Rightarrow> (Some (''sticker not found in collection: '' @ absent), d)
            | None \<Rightarrow> (None, snd (AddToPack d packName stickerIDs))))"
proof (cases "first_index (\<lambda>pack. Pack.Name pack = packName) (Packs (packs_json d))")
  case None
  then have "\<not> list_ex (\<lambda>pack. Pack.Name pack = packName) (Packs (packs_json d))"
    by (simp add: first_index_None)
  with None show ?thesis
    by (simp add: AddToPack_def LoadPacks_def LoadCollection_def Let_def)
next
  case (Some packIndex)
  then have ex: "list_ex (\<lambda>pack. Pack.Name pack = packName) (Packs (packs_json d))"
    using first_index_None [of "\<lambda>pack. Pack.Name pack = packName" "Packs (packs_json d)"] by auto
  show ?thesis
  proof (cases "find (\<lambda>i. \<not> list_ex (\<lambda>s. ID s = i) (Stickers (collection_json d))) stickerIDs")
    case None
    from add_sticker_ids_present [OF None]
    obtain ids' where "add_sticker_ids (Stickers (collection_json d)) stickerIDs
        (StickerIDs (Packs (packs_json d) ! packIndex)) = Inr ids'" by blast
    with Some None ex show ?thesis
      by (simp add: AddToPack_def LoadPacks_def LoadCollection_def Let_def)
  next
    case (Some absent)
    from add_sticker_ids_absent [OF Some]
    have "add_sticker_ids (Stickers (collection_json d)) stickerIDs
        (StickerIDs (Packs (packs_json d) ! packIndex)) = Inl (''sticker not found in collection: '' @ absent)" .
    with \<open>first_index _ _ = Some packIndex\<close> Some ex show ?thesis
      by (simp add: AddToPack_def LoadPacks_def LoadCollection_def Let_def)
  qed
qed

lemma AddToPack_twice:
  assumes "AddToPack d packName stickerIDs = (None, d1)"
  shows "AddToPack d1 packName stickerIDs = (None, d1)"
proof -
  let ?packs = "Packs (packs_json d)" and ?stickers = "Stickers (collection_json d)"
  from assms obtain i where i: "first_index (\<lambda>pack. Pack.Name pack = packName) ?packs = Some i"
    by (auto simp: AddToPack_def LoadPacks_def LoadCollection_def Let_def split: option.splits)
  from assms i obtain ids' where ids': "add_sticker_ids ?stickers stickerIDs (StickerIDs (?packs ! i)) = Inr ids'"
    by (auto simp: AddToPack_def LoadPacks_def LoadCollection_def Let_def split: sum.splits)
  let ?packs1 = "?packs[i := (?packs ! i)\<lparr>StickerIDs := ids'\<rparr>]"
  let ?stickers1 = "map (add_in_packs packName stickerIDs) ?stickers"
  from assms i ids' have d1: "d1 = d\<lparr>collection_json := (collection_json d)\<lparr>Stickers := ?stickers1\<rparr>,
       packs_json := (packs_json d)\<lparr>Packs := ?packs1\<rparr>\<rparr>"
    by (simp add: AddToPack_def LoadPacks_def LoadCollection_def SavePacks_def SaveCollection_def Let_def)
  have il: "i < length ?packs" using first_index_Some [OF i] by simp
  have i1: "first_index (\<lambda>pack. Pack.Name pack = packName) ?packs1 = Some i"
    by (rule first_index_update_same [OF i, where f = "\<lambda>p. p\<lparr>StickerIDs := ids'\<rparr>"]) simp
  have known: "set stickerIDs \<subseteq> ID ` set ?stickers1"
    using add_sticker_ids_known [OF ids'] by (auto simp: image_image)
  have sub: "set stickerIDs \<subseteq> set ids'" using add_sticker_ids_set [OF ids'] by auto
  have noop: "add_sticker_ids ?stickers1 stickerIDs ids' = Inr ids'"
    by (rule add_sticker_ids_noop [OF sub known])
  have s2: "map (add_in_packs packName stickerIDs) ?stickers1 = ?stickers1"
    by (simp add: add_in_packs_idem)
  have p2: "?packs1[i := (?packs1 ! i)\<lparr>StickerIDs := ids'\<rparr>] = ?packs1"
    using il by simp
  show ?thesis
    unfolding d1 using i1 il noop s2 p2
    by (simp add: AddToPack_def LoadPacks_def LoadCollection_def SavePacks_def SaveCollection_def Let_def)
qed


lemma find_first_index:
  "first_index p xs = Some i \<Longrightarrow> find p xs = Some (xs ! i)"
  by (induction xs arbitrary: i) (auto split: if_splits)

lemma find_None_first_index:
  "first_index p xs = None \<Longrightarrow> find p xs = None"
  by (induction xs) (auto split: if_splits)

lemmas store_simps =
  AddToPack_def RemoveFromPack_def GetPack_def LoadPacks_def LoadCollection_def SavePacks_def
  SaveCollection_def add_in_packs_def remove_in_packs_def Let_def

text \<open>
  Claim C4, as amended. \<^verbatim>\<open>AddToPack\<close> fails with \<open>pack not found\<close> when no pack has
  the name, and with \<open>sticker not found in collection\<close>, naming the first absent id, when
  a listed id is not in the collection; otherwise it succeeds. A failing call persists
  nothing: the directory it leaves is the directory it found, also for the ids that came
  before the absent one in the list. The ids are checked and added one by one in memory,
  and the two files are written only after the last id has passed.
\<close>

theorem AddToPack_failure_persists_nothing:
  "(\<not> list_ex (\<lambda>pack. Pack.Name pack = packName) (Packs (packs_json d)) \<longrightarrow>
      AddToPack d packName stickerIDs = (Some (''pack not found: '' @ packName), d)) \<and>
   (list_ex (\<lambda>pack. Pack.Name pack = packName) (Packs (packs_json d)) \<and>
    find (\<lambda>i. \<not> list_ex (\<lambda>s. ID s = i) (Stickers (collection_json d))) stickerIDs = Some absent \<longrightarrow>
      AddToPack d packName stickerIDs =
        (Some (''sticker not found in collection: '' @ absent), d)) \<and>
   (list_ex (\<lambda>pack. Pack.Name pack = packName) (Packs (packs_json d)) \<and>
    find (\<lambda>i. \<not> list_ex (\<lambda>s. ID s = i) (Stickers (collection_json d))) stickerIDs = None \<longrightarrow>
      fst (AddToPack d packName stickerIDs) = None)"
proof (intro conjI impI)
  assume "\<not> list_ex (\<lambda>pack. Pack.Name pack = packName) (Packs (packs_json d))"
  then show "AddToPack d packName stickerIDs = (Some (''pack not found: '' @ packName), d)"
    using AddToPack_outcome [of d packName stickerIDs] by simp
next
  assume "list_ex (\<lambda>pack. Pack.Name pack = packName) (Packs (packs_json d)) \<and>
    find (\<lambda>i. \<not> list_ex (\<lambda>s. ID s = i) (Stickers (collection_json d))) stickerIDs = Some absent"
  then show "AddToPack d packName stickerIDs =
        (Some (''sticker not found in collection: '' @ absent), d)"
    using AddToPack_outcome [of d packName stickerIDs] by simp
next
  assume "list_ex (\<lambda>pack. Pack.Name pack = packName) (Packs (packs_json d)) \<and>
    find (\<lambda>i. \<not> list_ex (\<lambda>s. ID s = i) (Stickers (collection_json d))) stickerIDs = None"
  then have "AddToPack d packName stickerIDs = (None, snd (AddToPack d packName stickerIDs))"
    using AddToPack_outcome [of d packName stickerIDs] by simp
  then show "fst (AddToPack d packName stickerIDs) = None"
    by (metis fst_conv)
qed

theorem AddToPack_failure_persists_nothing_witness:
  "\<not> list_ex (\<lambda>pack. Pack.Name pack = ''nopack'') (Packs (packs_json demo_dir)) \<and>
   AddToPack demo_dir ''nopack'' [''sha256:cat''] = (Some ''pack not found: nopack'', demo_dir) \<and>
   list_ex (\<lambda>pack. Pack.Name pack = ''faves'') (Packs (packs_json demo_dir)) \<and>
   find (\<lambda>i. \<not> list_ex (\<lambda>s. ID s = i) (Stickers (collection_json demo_dir)))
     [''sha256:cat'', ''sha256:dog''] = Some ''sha256:dog'' \<and>
   AddToPack demo_dir ''faves'' [''sha256:cat'', ''sha256:dog''] =
     (Some ''sticker not found in collection: sha256:dog'', demo_dir) \<and>
   find (\<lambda>i. \<not> list_ex (\<lambda>s. ID s = i) (Stickers (collection_json demo_dir)))
     [''sha256:cat''] = None \<and>
   fst (AddToPack demo_dir ''faves'' [''sha256:cat'']) = None"
proof -
  have a: "\<not> list_ex (\<lambda>pack. Pack.Name pack = ''nopack'') (Packs (packs_json demo_dir))"
    by (simp add: demo_simps)
  have b: "list_ex (\<lambda>pack. Pack.Name pack = ''faves'') (Packs (packs_json demo_dir))"
    by (simp add: demo_simps)
  have c: "find (\<lambda>i. \<not> list_ex (\<lambda>s. ID s = i) (Stickers (collection_json demo_dir)))
     [''sha256:cat'', ''sha256:dog''] = Some ''sha256:dog''"
    by (simp add: demo_simps)
  have e: "find (\<lambda>i. \<not> list_ex (\<lambda>s. ID s = i) (Stickers (collection_json demo_dir)))
     [''sha256:cat''] = None"
    by (simp add: demo_simps)
  from AddToPack_failure_persists_nothing [of "''nopack''" demo_dir "[''sha256:cat'']"] a
  have 1: "AddToPack demo_dir ''nopack'' [''sha256:cat''] = (Some ''pack not found: nopack'', demo_dir)"
    by simp
  from AddToPack_failure_persists_nothing
         [of "''faves''" demo_dir "[''sha256:cat'', ''sha256:dog'']" "''sha256:dog''"] b c
  have 2: "AddToPack demo_dir ''faves'' [''sha256:cat'', ''sha256:dog''] =
     (Some ''sticker not found in collection: sha256:dog'', demo_dir)"
    by simp
  from AddToPack_failure_persists_nothing [of "''faves''" demo_dir "[''sha256:cat'']"] b e
  have 3: "fst (AddToPack demo_dir ''faves'' [''sha256:cat'']) = None"
    by blast
  from a b c e 1 2 3 show ?thesis by blast
qed

text \<open>
  Claim C4 as stated fails. The collection holds \<open>sha256:cat\<close> and the pack \<open>faves\<close> is
  empty. Adding \<open>sha256:cat\<close> and then the unknown \<open>sha256:dog\<close> in one call fails, and
  afterwards the pack is still empty and the sticker still names no pack: the update for
  the id that was validated first has not been persisted.
\<close>

theorem AddToPack_partial_update_counterexample:
  "map ID (Stickers (collection_json demo_dir)) = [''sha256:cat''] \<and>
   map Pack.Name (Packs (packs_json demo_dir)) = [''faves''] \<and>
   fst (AddToPack demo_dir ''faves'' [''sha256:cat'', ''sha256:dog'']) =
     Some ''sticker not found in collection: sha256:dog'' \<and>
   map StickerIDs
     (Packs (packs_json (snd (AddToPack demo_dir ''faves'' [''sha256:cat'', ''sha256:dog''])))) = [[]] \<and>
   map InPacks
     (Stickers (collection_json (snd (AddToPack demo_dir ''faves'' [''sha256:cat'', ''sha256:dog''])))) = [[]]"
  by (simp add: demo_simps store_simps)

text \<open>
  Claim C8. For a pack that exists and an id that is in the collection, adding the id
  succeeds and puts it among the pack's ids; adding it a second time succeeds and leaves
  the whole directory, so in particular the pack's list of ids, exactly as the first call
  left it.
\<close>

theorem AddToPack_idempotent:
  assumes "list_ex (\<lambda>pack. Pack.Name pack = packName) (Packs (packs_json d))"
      and "list_ex (\<lambda>s. ID s = stickerID) (Stickers (collection_json d))"
  shows "\<exists>d1 P1. AddToPack d packName [stickerID] = (None, d1) \<and>
                 GetPack d1 packName = Inr P1 \<and> stickerID \<in> set (StickerIDs P1) \<and>
                 AddToPack d1 packName [stickerID] = (None, d1)"
proof -
  let ?packs = "Packs (packs_json d)" and ?stickers = "Stickers (collection_json d)"
  obtain i where i: "first_index (\<lambda>pack. Pack.Name pack = packName) ?packs = Some i"
    using first_index_ex [OF assms(1)] by blast
  have il: "i < length ?packs" and nm: "Pack.Name (?packs ! i) = packName"
    using first_index_Some [OF i] by simp_all
  define ids' where "ids' = (if list_ex (\<lambda>existingID. existingID = stickerID) (StickerIDs (?packs ! i))
     then StickerIDs (?packs ! i) else StickerIDs (?packs ! i) @ [stickerID])"
  define d1 where "d1 = d\<lparr>collection_json := (collection_json d)
        \<lparr>Stickers := map (add_in_packs packName [stickerID]) ?stickers\<rparr>,
       packs_json := (packs_json d)\<lparr>Packs := ?packs[i := (?packs ! i)\<lparr>StickerIDs := ids'\<rparr>]\<rparr>\<rparr>"
  have first: "AddToPack d packName [stickerID] = (None, d1)"
    using i assms(2)
    by (simp add: AddToPack_def LoadPacks_def LoadCollection_def SavePacks_def SaveCollection_def
          Let_def d1_def ids'_def)
  have i1: "first_index (\<lambda>pack. Pack.Name pack = packName) (?packs[i := (?packs ! i)\<lparr>StickerIDs := ids'\<rparr>]) = Some i"
    by (rule first_index_update_same [OF i, where f = "\<lambda>p. p\<lparr>StickerIDs := ids'\<rparr>"]) simp
  have get: "GetPack d1 packName = Inr ((?packs ! i)\<lparr>StickerIDs := ids'\<rparr>)"
    using find_first_index [OF i1] il by (simp add: GetPack_def LoadPacks_def d1_def)
  have mem: "stickerID \<in> set ids'" by (simp add: ids'_def list_ex_iff)
  from AddToPack_twice [OF first] first get mem show ?thesis by auto
qed

theorem AddToPack_idempotent_witness:
  "list_ex (\<lambda>pack. Pack.Name pack = ''faves'') (Packs (packs_json demo_dir)) \<and>
   list_ex (\<lambda>s. ID s = ''sha256:cat'') (Stickers (collection_json demo_dir)) \<and>
   (\<exists>d1 P1. AddToPack demo_dir ''faves'' [''sha256:cat''] = (None, d1) \<and>
       GetPack d1 ''faves'' = Inr P1 \<and> ''sha256:cat'' \<in> set (StickerIDs P1) \<and>
       AddToPack d1 ''faves'' [''sha256:cat''] = (None, d1)) \<and>
   map StickerIDs (Packs (packs_json (snd (AddToPack demo_dir ''faves'' [''sha256:cat''])))) =
     [[''sha256:cat'']]"
proof -
  have a: "list_ex (\<lambda>pack. Pack.Name pack = ''faves'') (Packs (packs_json demo_dir))"
    by (simp add: demo_simps)
  have b: "list_ex (\<lambda>s. ID s = ''sha256:cat'') (Stickers (collection_json demo_dir))"
    by (simp add: demo_simps)
  have c: "map StickerIDs (Packs (packs_json (snd (AddToPack demo_dir ''faves'' [''sha256:cat''])))) =
     [[''sha256:cat'']]"
    by (simp add: demo_simps store_simps)
  from AddToPack_idempotent [OF a b] a b c show ?thesis by blast
qed


section \<open>The published payload\<close>


lemma build_images_dom:
  "build_images stickers ids images = Inr images' \<Longrightarrow> dom images \<subseteq> dom images'"
proof (induction ids arbitrary: images)
  case Nil
  then show ?case by simp
next
  case (Cons sid ids)
  from Cons.prems obtain s where
    rest: "build_images stickers ids (images(shortcode_of s sid \<mapsto> stickerData_of s)) = Inr images'"
    by (auto split: option.splits)
  from Cons.IH [OF rest]
  have "dom (images(shortcode_of s sid \<mapsto> stickerData_of s)) \<subseteq> dom images'" .
  moreover have "dom images \<subseteq> dom (images(shortcode_of s sid \<mapsto> stickerData_of s))"
    by (simp add: subset_insertI)
  ultimately show ?case by (rule order_trans [rotated])
qed

lemma build_images_members:
  "build_images stickers ids images = Inr images' \<Longrightarrow>
     \<forall>sid\<in>set ids. \<exists>s. find (\<lambda>s. ID s = sid) stickers = Some s \<and>
                         shortcode_of s sid \<in> dom images'"
proof (induction ids arbitrary: images)
  case Nil
  then show ?case by simp
next
  case (Cons sid ids)
  from Cons.prems obtain s where s: "find (\<lambda>s. ID s = sid) stickers = Some s"
    and rest: "build_images stickers ids (images(shortcode_of s sid \<mapsto> stickerData_of s)) = Inr images'"
    by (auto split: option.splits)
  from build_images_dom [OF rest] have "shortcode_of s sid \<in> dom images'" by auto
  with s Cons.IH [OF rest] show ?case by auto
qed

lemma build_images_entries:
  "build_images stickers ids images = Inr images' \<Longrightarrow> images' k = Some sd \<Longrightarrow>
     images k = Some sd \<or>
     (\<exists>sid\<in>set ids. \<exists>s. find (\<lambda>s. ID s = sid) stickers = Some s \<and>
         k = shortcode_of s sid \<and> sd = stickerData_of s)"
proof (induction ids arbitrary: images)
  case Nil
  then show ?case by simp
next
  case (Cons sid ids)
  from Cons.prems(1) obtain s where s: "find (\<lambda>s. ID s = sid) stickers = Some s"
    and rest: "build_images stickers ids (images(shortcode_of s sid \<mapsto> stickerData_of s)) = Inr images'"
    by (auto split: option.splits)
  from Cons.IH [OF rest Cons.prems(2)] s show ?case
    by (auto split: if_splits)
qed

lemma PublishPack_event_Inr:
  assumes "PublishPack_event d packName room = Inr ev" and "GetPack d packName = Inr pack"
  shows "build_images (Stickers (collection_json d)) (StickerIDs pack) Map.empty = Inr (Images (content ev))"
    and "Pack (content ev) = packInfo_of pack" and "stateKey ev = packName" and "roomID ev = room"
  using assms by (auto simp: PublishPack_event_def LoadCollection_def split: sum.splits)

lemma build_images_find:
  "build_images stickers ids images = Inr images' \<Longrightarrow> k < length ids \<Longrightarrow>
     \<exists>s. find (\<lambda>s. ID s = ids ! k) stickers = Some s"
proof -
  assume b: "build_images stickers ids images = Inr images'" and k: "k < length ids"
  then have "ids ! k \<in> set ids" by simp
  with build_images_members [OF b] show ?thesis by blast
qed

lemma build_images_keep:
  "build_images stickers ids images = Inr images' \<Longrightarrow>
     Some c \<notin> set (member_shortcodes stickers ids) \<Longrightarrow> images' c = images c"
proof (induction ids arbitrary: images)
  case Nil
  then show ?case by simp
next
  case (Cons sid ids)
  from Cons.prems(1) obtain s where s: "find (\<lambda>s. ID s = sid) stickers = Some s"
    and rest: "build_images stickers ids (images(shortcode_of s sid \<mapsto> stickerData_of s)) = Inr images'"
    by (auto split: option.splits)
  from Cons.prems(2) s have ne: "c \<noteq> shortcode_of s sid"
    and notin: "Some c \<notin> set (member_shortcodes stickers ids)"
    by (auto simp: member_shortcodes_def)
  from Cons.IH [OF rest notin] ne show ?case by simp
qed

lemma build_images_last:
  "build_images stickers ids images = Inr images' \<Longrightarrow> k < length ids \<Longrightarrow>
     find (\<lambda>s. ID s = ids ! k) stickers = Some s \<Longrightarrow>
     Some (shortcode_of s (ids ! k)) \<notin> set (drop (Suc k) (member_shortcodes stickers ids)) \<Longrightarrow>
     images' (shortcode_of s (ids ! k)) = Some (stickerData_of s)"
proof (induction ids arbitrary: images k)
  case Nil
  then show ?case by simp
next
  case (Cons sid ids)
  from Cons.prems(1) obtain s0 where s0: "find (\<lambda>s. ID s = sid) stickers = Some s0"
    and rest: "build_images stickers ids (images(shortcode_of s0 sid \<mapsto> stickerData_of s0)) = Inr images'"
    by (auto split: option.splits)
  show ?case
  proof (cases k)
    case 0
    with Cons.prems(3) s0 have same: "s = s0" by simp
    from Cons.prems(4) 0 have "Some (shortcode_of s sid) \<notin> set (member_shortcodes stickers ids)"
      by (simp add: member_shortcodes_def)
    from build_images_keep [OF rest this] same 0 show ?thesis by simp
  next
    case (Suc k')
    with Cons.prems have "k' < length ids" "find (\<lambda>s. ID s = ids ! k') stickers = Some s"
      "Some (shortcode_of s (ids ! k')) \<notin> set (drop (Suc k') (member_shortcodes stickers ids))"
      by (simp_all add: member_shortcodes_def)
    from Cons.IH [OF rest this] Suc show ?thesis by simp
  qed
qed

lemma last_occurrence:
  "x \<in> set xs \<Longrightarrow> \<exists>k<length xs. xs ! k = x \<and> x \<notin> set (drop (Suc k) xs)"
proof (induction xs)
  case Nil
  then show ?case by simp
next
  case (Cons a xs)
  show ?case
  proof (cases "x \<in> set xs")
    case True
    from Cons.IH [OF True] obtain k where "k < length xs" "xs ! k = x" "x \<notin> set (drop (Suc k) xs)"
      by blast
    then show ?thesis by (intro exI [of _ "Suc k"]) simp
  next
    case False
    with Cons.prems show ?thesis by (intro exI [of _ 0]) simp
  qed
qed

lemma member_shortcodes_nth:
  "k < length ids \<Longrightarrow> find (\<lambda>s. ID s = ids ! k) stickers = Some s \<Longrightarrow>
     member_shortcodes stickers ids ! k = Some (shortcode_of s (ids ! k))"
  by (simp add: member_shortcodes_def)

text \<open>
  The entries of the payload: a member that keeps its entry has it under its shortcode, and
  every entry is that of a member that keeps its entry.
\<close>

lemma payload_entries:
  assumes "PublishPack_event d packName room = Inr ev" and "GetPack d packName = Inr pack"
  shows "\<forall>k<length (StickerIDs pack).
           \<exists>s. find (\<lambda>s. ID s = StickerIDs pack ! k) (Stickers (collection_json d)) = Some s \<and>
               (keeps_its_entry (Stickers (collection_json d)) (StickerIDs pack) k \<longrightarrow>
                  Images (content ev) (shortcode_of s (StickerIDs pack ! k)) = Some (stickerData_of s))"
    and "\<forall>c sd. Images (content ev) c = Some sd \<longrightarrow>
           (\<exists>k<length (StickerIDs pack). \<exists>s.
               find (\<lambda>s. ID s = StickerIDs pack ! k) (Stickers (collection_json d)) = Some s \<and>
               c = shortcode_of s (StickerIDs pack ! k) \<and>
               keeps_its_entry (Stickers (collection_json d)) (StickerIDs pack) k \<and>
               sd = stickerData_of s)"
proof -
  let ?stickers = "Stickers (collection_json d)" and ?ids = "StickerIDs pack"
  note b = PublishPack_event_Inr(1) [OF assms]
  show "\<forall>k<length ?ids.
           \<exists>s. find (\<lambda>s. ID s = ?ids ! k) ?stickers = Some s \<and>
               (keeps_its_entry ?stickers ?ids k \<longrightarrow>
                  Images (content ev) (shortcode_of s (?ids ! k)) = Some (stickerData_of s))"
  proof (intro allI impI)
    fix k assume k: "k < length ?ids"
    from build_images_find [OF b k] obtain s where s: "find (\<lambda>s. ID s = ?ids ! k) ?stickers = Some s"
      by blast
    have "keeps_its_entry ?stickers ?ids k \<longrightarrow>
            Images (content ev) (shortcode_of s (?ids ! k)) = Some (stickerData_of s)"
      using build_images_last [OF b k s] member_shortcodes_nth [OF k s]
      by (simp add: keeps_its_entry_def)
    with s show "\<exists>s. find (\<lambda>s. ID s = ?ids ! k) ?stickers = Some s \<and>
               (keeps_its_entry ?stickers ?ids k \<longrightarrow>
                  Images (content ev) (shortcode_of s (?ids ! k)) = Some (stickerData_of s))"
      by blast
  qed
  show "\<forall>c sd. Images (content ev) c = Some sd \<longrightarrow>
           (\<exists>k<length ?ids. \<exists>s.
               find (\<lambda>s. ID s = ?ids ! k) ?stickers = Some s \<and>
               c = shortcode_of s (?ids ! k) \<and>
               keeps_its_entry ?stickers ?ids k \<and>
               sd = stickerData_of s)"
  proof (intro allI impI)
    fix c sd assume e: "Images (content ev) c = Some sd"
    have "Some c \<in> set (member_shortcodes ?stickers ?ids)"
    proof (rule ccontr)
      assume "Some c \<notin> set (member_shortcodes ?stickers ?ids)"
      from build_images_keep [OF b this] e show False by simp
    qed
    from last_occurrence [OF this] obtain k where
      k: "k < length ?ids" and at: "member_shortcodes ?stickers ?ids ! k = Some c"
      and last: "Some c \<notin> set (drop (Suc k) (member_shortcodes ?stickers ?ids))"
      by (auto simp: member_shortcodes_def)
    from build_images_find [OF b k] obtain s where s: "find (\<lambda>s. ID s = ?ids ! k) ?stickers = Some s"
      by blast
    from member_shortcodes_nth [OF k s] at have c: "c = shortcode_of s (?ids ! k)" by simp
    have keeps: "keeps_its_entry ?stickers ?ids k"
      using k at last by (simp add: keeps_its_entry_def)
    from build_images_last [OF b k s] last c e have "sd = stickerData_of s" by simp
    with k s c keeps show "\<exists>k<length ?ids. \<exists>s.
               find (\<lambda>s. ID s = ?ids ! k) ?stickers = Some s \<and>
               c = shortcode_of s (?ids ! k) \<and>
               keeps_its_entry ?stickers ?ids k \<and>
               sd = stickerData_of s"
      by blast
  qed
qed

lemmas demo2_simps = demo_cat_in_pack_def demo_blank_def demo_published_dir_def demo_event_def

lemmas publish_simps =
  PublishPack_event_def GetPack_def LoadPacks_def LoadCollection_def shortcode_of_def
  packInfo_of_def

lemma demo_event_built:
  "PublishPack_event demo_published_dir ''faves'' ''!lobby:bot.example'' = Inr demo_event"
  by (simp add: demo2_simps demo_simps publish_simps)

lemma demo_pack_loaded:
  "GetPack demo_published_dir ''faves'' =
     Inr (demo_pack\<lparr>StickerIDs := [''sha256:cat'', ''sha256:blank'']\<rparr>)"
  by (simp add: demo2_simps demo_simps publish_simps)

lemmas demo3_simps = demo_twin_a_def demo_twin_b_def demo_twin_pack_def demo_twin_dir_def
  demo_twin_event_def

lemma demo_twin_event_built:
  "PublishPack_event demo_twin_dir ''twins'' ''!lobby:bot.example'' = Inr demo_twin_event"
  by (simp add: demo3_simps publish_simps)

lemma demo_twin_pack_loaded: "GetPack demo_twin_dir ''twins'' = Inr demo_twin_pack"
  by (simp add: demo3_simps publish_simps)

lemma demo_twin_dir_reachable: "reachable demo_twin_dir"
proof -
  have eq: "demo_twin_dir =
     snd (AddToPack
       (snd (CreatePackWithAttribution
          (snd (AddSticker (snd (AddSticker emptyDir (demo_twin_a\<lparr>InPacks := []\<rparr>)))
                  (demo_twin_b\<lparr>InPacks := []\<rparr>)))
          ''twins'' ''Twins'' ''@bot:bot.example''))
       ''twins'' [''sha256:a'', ''sha256:b''])"
    by (simp add: demo3_simps emptyDir_def AddSticker_def CreatePackWithAttribution_def store_simps)
  show ?thesis unfolding eq by (intro reachable.intros)
qed

lemma demo_twin_consistent: "membership_consistent demo_twin_dir"
  by (simp add: membership_consistent_def demo3_simps)

lemma demo_keeps_0:
  "keeps_its_entry (Stickers (collection_json demo_published_dir))
     (StickerIDs (demo_pack\<lparr>StickerIDs := [''sha256:cat'', ''sha256:blank'']\<rparr>)) 0"
  by (simp add: keeps_its_entry_def member_shortcodes_def shortcode_of_def demo2_simps demo_simps)

lemma demo_find_0:
  "find (\<lambda>s. ID s = StickerIDs (demo_pack\<lparr>StickerIDs := [''sha256:cat'', ''sha256:blank'']\<rparr>) ! 0)
     (Stickers (collection_json demo_published_dir)) = Some demo_cat_in_pack"
  by (simp add: demo2_simps demo_simps)

text \<open>
  Claim C5, as amended. When \<^verbatim>\<open>PublishPack\<close> builds its state event, every member of the
  pack is found in the collection, and a member that keeps its entry (no later member of
  the pack has the same shortcode) has, under its shortcode, an entry whose body text is
  the item's generated caption when that is not empty and its original caption otherwise.
  Every entry of the payload is the entry of such a member. The field \<open>body\<close> is always
  written to the payload: when both captions are empty it is there, holding the empty
  string.
\<close>

theorem publish_body_text:
  assumes "PublishPack_event d packName room = Inr ev" and "GetPack d packName = Inr pack"
  shows "(\<forall>k<length (StickerIDs pack).
            \<exists>s. find (\<lambda>s. ID s = StickerIDs pack ! k) (Stickers (collection_json d)) = Some s \<and>
                (keeps_its_entry (Stickers (collection_json d)) (StickerIDs pack) k \<longrightarrow>
                   (\<exists>sd. Images (content ev) (shortcode_of s (StickerIDs pack ! k)) = Some sd \<and>
                         Body sd = (if GeneratedAltText s \<noteq> [] then GeneratedAltText s
                                    else OriginalBody s) \<and>
                         map_of (StickerData_json sd) ''body'' = Some (JString (Body sd))))) \<and>
         (\<forall>c sd. Images (content ev) c = Some sd \<longrightarrow>
            (\<exists>k<length (StickerIDs pack). \<exists>s.
                find (\<lambda>s. ID s = StickerIDs pack ! k) (Stickers (collection_json d)) = Some s \<and>
                c = shortcode_of s (StickerIDs pack ! k) \<and>
                keeps_its_entry (Stickers (collection_json d)) (StickerIDs pack) k \<and>
                Body sd = (if GeneratedAltText s \<noteq> [] then GeneratedAltText s
                           else OriginalBody s) \<and>
                map_of (StickerData_json sd) ''body'' = Some (JString (Body sd))))"
proof -
  have body: "Body (stickerData_of s) =
      (if GeneratedAltText s \<noteq> [] then GeneratedAltText s else OriginalBody s)" for s
    by (simp add: stickerData_of_def)
  have json: "map_of (StickerData_json sd) ''body'' = Some (JString (Body sd))" for sd
    by (simp add: StickerData_json_def)
  show ?thesis
  proof (rule conjI)
    show "\<forall>k<length (StickerIDs pack).
            \<exists>s. find (\<lambda>s. ID s = StickerIDs pack ! k) (Stickers (collection_json d)) = Some s \<and>
                (keeps_its_entry (Stickers (collection_json d)) (StickerIDs pack) k \<longrightarrow>
                   (\<exists>sd. Images (content ev) (shortcode_of s (StickerIDs pack ! k)) = Some sd \<and>
                         Body sd = (if GeneratedAltText s \<noteq> [] then GeneratedAltText s
                                    else OriginalBody s) \<and>
                         map_of (StickerData_json sd) ''body'' = Some (JString (Body sd))))"
      using payload_entries(1) [OF assms] body json by metis
    show "\<forall>c sd. Images (content ev) c = Some sd \<longrightarrow>
            (\<exists>k<length (StickerIDs pack). \<exists>s.
                find (\<lambda>s. ID s = StickerIDs pack ! k) (Stickers (collection_json d)) = Some s \<and>
                c = shortcode_of s (StickerIDs pack ! k) \<and>
                keeps_its_entry (Stickers (collection_json d)) (StickerIDs pack) k \<and>
                Body sd = (if GeneratedAltText s \<noteq> [] then GeneratedAltText s
                           else OriginalBody s) \<and>
                map_of (StickerData_json sd) ''body'' = Some (JString (Body sd)))"
      using payload_entries(2) [OF assms] body json by metis
  qed
qed

theorem publish_body_text_witness:
  "PublishPack_event demo_published_dir ''faves'' ''!lobby:bot.example'' = Inr demo_event \<and>
   GetPack demo_published_dir ''faves'' =
     Inr (demo_pack\<lparr>StickerIDs := [''sha256:cat'', ''sha256:blank'']\<rparr>) \<and>
   keeps_its_entry (Stickers (collection_json demo_published_dir))
     (StickerIDs (demo_pack\<lparr>StickerIDs := [''sha256:cat'', ''sha256:blank'']\<rparr>)) 0 \<and>
   (\<exists>sd. Images (content demo_event) ''happy_cat'' = Some sd \<and> Body sd = ''A cat'' \<and>
         map_of (StickerData_json sd) ''body'' = Some (JString ''A cat'')) \<and>
   Images (content demo_event) ''sha256:blank'' = Some (stickerData_of demo_blank) \<and>
   map_of (StickerData_json (stickerData_of demo_blank)) ''body'' =
     Some (JString (Body (stickerData_of demo_blank)))"
proof -
  note T = publish_body_text [OF demo_event_built demo_pack_loaded]
  have l: "(0::nat) < length (StickerIDs (demo_pack\<lparr>StickerIDs := [''sha256:cat'', ''sha256:blank'']\<rparr>))"
    by simp
  from T have "\<forall>k<length (StickerIDs (demo_pack\<lparr>StickerIDs := [''sha256:cat'', ''sha256:blank'']\<rparr>)).
      \<exists>s. find (\<lambda>s. ID s = StickerIDs (demo_pack\<lparr>StickerIDs := [''sha256:cat'', ''sha256:blank'']\<rparr>) ! k)
             (Stickers (collection_json demo_published_dir)) = Some s \<and>
          (keeps_its_entry (Stickers (collection_json demo_published_dir))
             (StickerIDs (demo_pack\<lparr>StickerIDs := [''sha256:cat'', ''sha256:blank'']\<rparr>)) k \<longrightarrow>
             (\<exists>sd. Images (content demo_event)
                     (shortcode_of s (StickerIDs (demo_pack\<lparr>StickerIDs := [''sha256:cat'', ''sha256:blank'']\<rparr>) ! k)) = Some sd \<and>
                   Body sd = (if GeneratedAltText s \<noteq> [] then GeneratedAltText s else OriginalBody s) \<and>
                   map_of (StickerData_json sd) ''body'' = Some (JString (Body sd))))"
    by (rule conjunct1)
  from this [rule_format, OF l] obtain s where
    s: "find (\<lambda>s. ID s = StickerIDs (demo_pack\<lparr>StickerIDs := [''sha256:cat'', ''sha256:blank'']\<rparr>) ! 0)
             (Stickers (collection_json demo_published_dir)) = Some s"
    and imp: "keeps_its_entry (Stickers (collection_json demo_published_dir))
             (StickerIDs (demo_pack\<lparr>StickerIDs := [''sha256:cat'', ''sha256:blank'']\<rparr>)) 0 \<longrightarrow>
             (\<exists>sd. Images (content demo_event)
                     (shortcode_of s (StickerIDs (demo_pack\<lparr>StickerIDs := [''sha256:cat'', ''sha256:blank'']\<rparr>) ! 0)) = Some sd \<and>
                   Body sd = (if GeneratedAltText s \<noteq> [] then GeneratedAltText s else OriginalBody s) \<and>
                   map_of (StickerData_json sd) ''body'' = Some (JString (Body sd)))"
    by blast
  from s demo_find_0 have se: "s = demo_cat_in_pack" by simp
  from imp [rule_format, OF demo_keeps_0]
  have "\<exists>sd. Images (content demo_event)
               (shortcode_of demo_cat_in_pack
                  (StickerIDs (demo_pack\<lparr>StickerIDs := [''sha256:cat'', ''sha256:blank'']\<rparr>) ! 0)) = Some sd \<and>
             Body sd = (if GeneratedAltText demo_cat_in_pack \<noteq> [] then GeneratedAltText demo_cat_in_pack
                        else OriginalBody demo_cat_in_pack) \<and>
             map_of (StickerData_json sd) ''body'' = Some (JString (Body sd))"
    unfolding se .
  then have a: "\<exists>sd. Images (content demo_event) ''happy_cat'' = Some sd \<and> Body sd = ''A cat'' \<and>
         map_of (StickerData_json sd) ''body'' = Some (JString ''A cat'')"
    by (simp add: shortcode_of_def demo2_simps demo_simps)
  have e: "Images (content demo_event) ''sha256:blank'' = Some (stickerData_of demo_blank)"
    by (simp add: demo_event_def)
  from T e have b: "map_of (StickerData_json (stickerData_of demo_blank)) ''body'' =
     Some (JString (Body (stickerData_of demo_blank)))"
    by blast
  from demo_event_built demo_pack_loaded demo_keeps_0 a e b show ?thesis by (intro conjI)
qed

text \<open>
  Claim C5 as stated fails, in two ways. In the pack \<open>faves\<close> the member \<open>sha256:blank\<close>
  has neither caption; its entry in the payload carries the field \<open>body\<close>, with the
  empty string: the field is not omitted. In the pack \<open>twins\<close> both members have the short
  name \<open>cat\<close>; the payload has the one entry \<open>cat\<close>, whose body is the caption of the
  second member, and the caption of the first member is in no entry.
\<close>

theorem publish_body_omitted_counterexample:
  "PublishPack_event demo_published_dir ''faves'' ''!lobby:bot.example'' = Inr demo_event \<and>
   GeneratedAltText demo_blank = [] \<and> OriginalBody demo_blank = [] \<and>
   Images (content demo_event) ''sha256:blank'' = Some (stickerData_of demo_blank) \<and>
   map_of (StickerData_json (stickerData_of demo_blank)) ''body'' = Some (JString []) \<and>
   PublishPack_event demo_twin_dir ''twins'' ''!lobby:bot.example'' = Inr demo_twin_event \<and>
   GetPack demo_twin_dir ''twins'' = Inr demo_twin_pack \<and>
   StickerIDs demo_twin_pack = [''sha256:a'', ''sha256:b''] \<and>
   map ID (Stickers (collection_json demo_twin_dir)) = [''sha256:a'', ''sha256:b''] \<and>
   map GeneratedAltText (Stickers (collection_json demo_twin_dir)) = [''first cat'', ''second cat''] \<and>
   dom (Images (content demo_twin_event)) = {''cat''} \<and>
   map_option Body (Images (content demo_twin_event) ''cat'') = Some ''second cat''"
  by (simp add: demo_event_built demo_twin_event_built demo_twin_pack_loaded)
    (simp add: demo2_simps demo3_simps stickerData_of_def StickerData_json_def)

text \<open>
  Claim C6, as amended. The pack-level usage of the payload is the pack's configured usage
  when that is set and \<open>[sticker, emoticon]\<close> otherwise, and it is written to the payload.
  A member that keeps its entry (no later member of the pack has the same shortcode) has,
  under its shortcode, an entry that carries the field \<open>usage\<close>, holding the item's
  override, exactly when the item has an override (an override of both usages included);
  without an override the field is left out. Every entry of the payload is the entry of
  such a member.
\<close>

theorem publish_usage_fields:
  assumes "PublishPack_event d packName room = Inr ev" and "GetPack d packName = Inr pack"
  shows "PackInfo.Usage (Pack (content ev)) =
           (if Pack.Usage pack \<noteq> [] then Pack.Usage pack else [''sticker'', ''emoticon'']) \<and>
         map_of (PackInfo_json (Pack (content ev))) ''usage'' =
           Some (JArray (map JString (PackInfo.Usage (Pack (content ev))))) \<and>
         (\<forall>k<length (StickerIDs pack).
            \<exists>s. find (\<lambda>s. ID s = StickerIDs pack ! k) (Stickers (collection_json d)) = Some s \<and>
                (keeps_its_entry (Stickers (collection_json d)) (StickerIDs pack) k \<longrightarrow>
                   (\<exists>sd. Images (content ev) (shortcode_of s (StickerIDs pack ! k)) = Some sd \<and>
                         map_of (StickerData_json sd) ''usage'' =
                           (if Sticker.Usage s \<noteq> []
                            then Some (JArray (map JString (Sticker.Usage s))) else None)))) \<and>
         (\<forall>c sd. Images (content ev) c = Some sd \<longrightarrow>
            (\<exists>k<length (StickerIDs pack). \<exists>s.
                find (\<lambda>s. ID s = StickerIDs pack ! k) (Stickers (collection_json d)) = Some s \<and>
                c = shortcode_of s (StickerIDs pack ! k) \<and>
                keeps_its_entry (Stickers (collection_json d)) (StickerIDs pack) k \<and>
                map_of (StickerData_json sd) ''usage'' =
                  (if Sticker.Usage s \<noteq> []
                   then Some (JArray (map JString (Sticker.Usage s))) else None)))"
proof -
  have json: "map_of (StickerData_json (stickerData_of s)) ''usage'' =
      (if Sticker.Usage s \<noteq> [] then Some (JArray (map JString (Sticker.Usage s))) else None)" for s
    by (simp add: stickerData_of_def StickerData_json_def)
  have u: "PackInfo.Usage (Pack (content ev)) =
           (if Pack.Usage pack \<noteq> [] then Pack.Usage pack else [''sticker'', ''emoticon''])"
    by (simp add: PublishPack_event_Inr(2) [OF assms] packInfo_of_def)
  have j: "map_of (PackInfo_json (Pack (content ev))) ''usage'' =
           Some (JArray (map JString (PackInfo.Usage (Pack (content ev)))))"
    unfolding u by (simp add: PublishPack_event_Inr(2) [OF assms] packInfo_of_def PackInfo_json_def)
  have m: "\<forall>k<length (StickerIDs pack).
            \<exists>s. find (\<lambda>s. ID s = StickerIDs pack ! k) (Stickers (collection_json d)) = Some s \<and>
                (keeps_its_entry (Stickers (collection_json d)) (StickerIDs pack) k \<longrightarrow>
                   (\<exists>sd. Images (content ev) (shortcode_of s (StickerIDs pack ! k)) = Some sd \<and>
                         map_of (StickerData_json sd) ''usage'' =
                           (if Sticker.Usage s \<noteq> []
                            then Some (JArray (map JString (Sticker.Usage s))) else None)))"
    using payload_entries(1) [OF assms] json by metis
  have e: "\<forall>c sd. Images (content ev) c = Some sd \<longrightarrow>
            (\<exists>k<length (StickerIDs pack). \<exists>s.
                find (\<lambda>s. ID s = StickerIDs pack ! k) (Stickers (collection_json d)) = Some s \<and>
                c = shortcode_of s (StickerIDs pack ! k) \<and>
                keeps_its_entry (Stickers (collection_json d)) (StickerIDs pack) k \<and>
                map_of (StickerData_json sd) ''usage'' =
                  (if Sticker.Usage s \<noteq> []
                   then Some (JArray (map JString (Sticker.Usage s))) else None))"
    using payload_entries(2) [OF assms] json by metis
  from u j m e show ?thesis by (intro conjI)
qed


theorem publish_usage_fields_witness:
  "PublishPack_event demo_published_dir ''faves'' ''!lobby:bot.example'' = Inr demo_event \<and>
   GetPack demo_published_dir ''faves'' =
     Inr (demo_pack\<lparr>StickerIDs := [''sha256:cat'', ''sha256:blank'']\<rparr>) \<and>
   PackInfo.Usage (Pack (content demo_event)) = [''sticker'', ''emoticon''] \<and>
   map_of (PackInfo_json (Pack (content demo_event))) ''usage'' =
     Some (JArray [JString ''sticker'', JString ''emoticon'']) \<and>
   keeps_its_entry (Stickers (collection_json demo_published_dir))
     (StickerIDs (demo_pack\<lparr>StickerIDs := [''sha256:cat'', ''sha256:blank'']\<rparr>)) 0 \<and>
   (\<exists>sd. Images (content demo_event) ''happy_cat'' = Some sd \<and>
         map_of (StickerData_json sd) ''usage'' = Some (JArray [JString ''emoticon''])) \<and>
   Images (content demo_event) ''sha256:blank'' = Some (stickerData_of demo_blank) \<and>
   map_of (StickerData_json (stickerData_of demo_blank)) ''usage'' = None"
proof -
  note T = publish_usage_fields [OF demo_event_built demo_pack_loaded]
  have u: "Pack.Usage (demo_pack\<lparr>StickerIDs := [''sha256:cat'', ''sha256:blank'']\<rparr>) = []"
    by (simp add: demo_pack_def)
  from T have p1: "PackInfo.Usage (Pack (content demo_event)) = [''sticker'', ''emoticon'']"
    unfolding u by simp
  from T have "map_of (PackInfo_json (Pack (content demo_event))) ''usage'' =
           Some (JArray (map JString (PackInfo.Usage (Pack (content demo_event)))))"
    by blast
  then have p2: "map_of (PackInfo_json (Pack (content demo_event))) ''usage'' =
     Some (JArray [JString ''sticker'', JString ''emoticon''])"
    unfolding p1 by simp
  have l: "(0::nat) < length (StickerIDs (demo_pack\<lparr>StickerIDs := [''sha256:cat'', ''sha256:blank'']\<rparr>))"
    by simp
  from T have "\<forall>k<length (StickerIDs (demo_pack\<lparr>StickerIDs := [''sha256:cat'', ''sha256:blank'']\<rparr>)).
      \<exists>s. find (\<lambda>s. ID s = StickerIDs (demo_pack\<lparr>StickerIDs := [''sha256:cat'', ''sha256:blank'']\<rparr>) ! k)
             (Stickers (collection_json demo_published_dir)) = Some s \<and>
          (keeps_its_entry (Stickers (collection_json demo_published_dir))
             (StickerIDs (demo_pack\<lparr>StickerIDs := [''sha256:cat'', ''sha256:blank'']\<rparr>)) k \<longrightarrow>
             (\<exists>sd. Images (content demo_event)
                     (shortcode_of s (StickerIDs (demo_pack\<lparr>StickerIDs := [''sha256:cat'', ''sha256:blank'']\<rparr>) ! k)) = Some sd \<and>
                   map_of (StickerData_json sd) ''usage'' =
                     (if Sticker.Usage s \<noteq> []
                      then Some (JArray (map JString (Sticker.Usage s))) else None)))"
    by blast
  from this [rule_format, OF l] obtain s where
    s: "find (\<lambda>s. ID s = StickerIDs (demo_pack\<lparr>StickerIDs := [''sha256:cat'', ''sha256:blank'']\<rparr>) ! 0)
             (Stickers (collection_json demo_published_dir)) = Some s"
    and imp: "keeps_its_entry (Stickers (collection_json demo_published_dir))
             (StickerIDs (demo_pack\<lparr>StickerIDs := [''sha256:cat'', ''sha256:blank'']\<rparr>)) 0 \<longrightarrow>
             (\<exists>sd. Images (content demo_event)
                     (shortcode_of s (StickerIDs (demo_pack\<lparr>StickerIDs := [''sha256:cat'', ''sha256:blank'']\<rparr>) ! 0)) = Some sd \<and>
                   map_of (StickerData_json sd) ''usage'' =
                     (if Sticker.Usage s \<noteq> []
                      then Some (JArray (map JString (Sticker.Usage s))) else None))"
    by blast
  from s demo_find_0 have se: "s = demo_cat_in_pack" by simp
  from imp [rule_format, OF demo_keeps_0]
  have "\<exists>sd. Images (content demo_event)
               (shortcode_of demo_cat_in_pack
                  (StickerIDs (demo_pack\<lparr>StickerIDs := [''sha256:cat'', ''sha256:blank'']\<rparr>) ! 0)) = Some sd \<and>
             map_of (StickerData_json sd) ''usage'' =
               (if Sticker.Usage demo_cat_in_pack \<noteq> []
                then Some (JArray (map JString (Sticker.Usage demo_cat_in_pack))) else None)"
    unfolding se .
  then have a: "\<exists>sd. Images (content demo_event) ''happy_cat'' = Some sd \<and>
         map_of (StickerData_json sd) ''usage'' = Some (JArray [JString ''emoticon''])"
    by (simp add: shortcode_of_def demo2_simps demo_simps)
  have e: "Images (content demo_event) ''sha256:blank'' = Some (stickerData_of demo_blank)"
    by (simp add: demo_event_def)
  have n: "map_of (StickerData_json (stickerData_of demo_blank)) ''usage'' = None"
    by (simp add: demo2_simps stickerData_of_def StickerData_json_def)
  from demo_event_built demo_pack_loaded p1 p2 demo_keeps_0 a e n show ?thesis by (intro conjI)
qed

text \<open>
  Claim C6 as stated fails. In the pack \<open>twins\<close> the first member has the usage override
  \<open>[sticker]\<close> and the second, which has the same short name \<open>cat\<close>, has none. The
  payload has the one entry \<open>cat\<close>, that of the second member, and it has no field
  \<open>usage\<close>: the first member has an override and no usage field in the payload.
\<close>

theorem publish_usage_shadowed_counterexample:
  "PublishPack_event demo_twin_dir ''twins'' ''!lobby:bot.example'' = Inr demo_twin_event \<and>
   GetPack demo_twin_dir ''twins'' = Inr demo_twin_pack \<and>
   StickerIDs demo_twin_pack = [''sha256:a'', ''sha256:b''] \<and>
   map ID (Stickers (collection_json demo_twin_dir)) = [''sha256:a'', ''sha256:b''] \<and>
   map Sticker.Usage (Stickers (collection_json demo_twin_dir)) = [[''sticker''], []] \<and>
   dom (Images (content demo_twin_event)) = {''cat''} \<and>
   Images (content demo_twin_event) ''cat'' = Some (stickerData_of demo_twin_b) \<and>
   map_of (StickerData_json (stickerData_of demo_twin_b)) ''usage'' = None"
  by (simp add: demo_twin_event_built demo_twin_pack_loaded)
    (simp add: demo3_simps stickerData_of_def StickerData_json_def)

section \<open>The reserved pack name\<close>


text \<open>
  Claim C9. The command that creates a pack turns the name into the pack's id by putting a
  hyphen for every space and folding the case. When the id so obtained is \<open>unsorted\<close>,
  the command answers that the name is reserved and leaves the data directory as it was:
  no pack is created. (The check is made by the command; \<^verbatim>\<open>CreatePackWithAttribution\<close>
  itself has no such check.)
\<close>

theorem packCreate_unsorted_reserved:
  assumes "ToLower L (ReplaceAll name '' '' ''-'') = ''unsorted''"
  shows "packCreate C L d name = (reserved_reply, d)"
  using assms by (simp add: packCreate_def)

lemma ReplaceAll_no_space:
  "CHR '' '' \<notin> set s \<Longrightarrow> ReplaceAll s '' '' ''-'' = s"
  by (induction s) auto

lemma spec_equal_fold_unsorted_no_space:
  assumes "spec_equal_fold name ''unsorted''"
  shows "CHR '' '' \<notin> set name"
proof
  assume "CHR '' '' \<in> set name"
  then obtain i where i: "i < length name" "name ! i = CHR '' ''"
    by (auto simp: in_set_conv_nth)
  from assms have len: "length name = length ''unsorted''"
    and all: "\<forall>i<length name. spec_same_letter (name ! i) (''unsorted'' ! i)"
    by (auto simp: spec_equal_fold_def list_all2_conv_all_nth)
  from all i have "spec_same_letter (CHR '' '') (''unsorted'' ! i)" by auto
  moreover from i len have "i < 8" by simp
  then have "i \<in> {0,1,2,3,4,5,6,7}" by auto
  ultimately show False
    by (auto simp: spec_same_letter_def isUpperByte_def)
qed

text \<open>In particular, every spelling of \<open>unsorted\<close> in upper and lower case is refused.\<close>

lemma packCreate_unsorted_any_case:
  assumes "isASCII name" and "spec_equal_fold name ''unsorted''"
  shows "packCreate C L d name = (reserved_reply, d)"
proof -
  have "ReplaceAll name '' '' ''-'' = name"
    using spec_equal_fold_unsorted_no_space [OF assms(2)] by (rule ReplaceAll_no_space)
  moreover have "map toLowerByte name = ''unsorted''"
    using assms(2) map_toLowerByte_eq_iff [of "''unsorted''" name]
    by (simp add: isLowerLetter_def)
  ultimately have "ToLower L (ReplaceAll name '' '' ''-'') = ''unsorted''"
    using assms(1) by (simp add: ToLower_def)
  then show ?thesis by (simp add: packCreate_def)
qed

theorem packCreate_unsorted_reserved_witness:
  "ToLower demo_lib (ReplaceAll ''UnSorted'' '' '' ''-'') = ''unsorted'' \<and>
   packCreate demo_collab demo_lib demo_dir ''UnSorted'' = (reserved_reply, demo_dir) \<and>
   map Pack.Name (Packs (packs_json (snd (packCreate demo_collab demo_lib demo_dir ''UnSorted'')))) =
     [''faves''] \<and>
   map Pack.Name (Packs (packs_json (snd (packCreate demo_collab demo_lib demo_dir ''Funny Memes'')))) =
     [''faves'', ''funny-memes'']"
proof -
  have h: "ToLower demo_lib (ReplaceAll ''UnSorted'' '' '' ''-'') = ''unsorted''"
    by (simp add: ToLower_def isASCII_def isASCIIByte_def toLowerByte_def isUpperByte_def
          char_of_eq_iff)
  have 1: "packCreate demo_collab demo_lib demo_dir ''UnSorted'' = (reserved_reply, demo_dir)"
    by (rule packCreate_unsorted_reserved [OF h])
  have 2: "map Pack.Name (Packs (packs_json demo_dir)) = [''faves'']"
    by (simp add: demo_simps)
  have 3: "map Pack.Name (Packs (packs_json (snd (packCreate demo_collab demo_lib demo_dir ''Funny Memes'')))) =
     [''faves'', ''funny-memes'']"
    by (simp add: packCreate_def ToLower_def isASCII_def isASCIIByte_def toLowerByte_def isUpperByte_def
        char_of_eq_iff CreatePackWithAttribution_def LoadPacks_def SavePacks_def demo_simps Let_def)
  from h 1 2 3 show ?thesis by simp
qed

section \<open>The publish ledger\<close>



lemma list_all_update:
  "list_all Q xs \<Longrightarrow> Q y \<Longrightarrow> list_all Q (xs[i := y])"
  by (induction xs arbitrary: i) (auto split: nat.splits)

lemma ledger_update_pack:
  assumes "ledger_keys_are_pack_name d" and "i < length (Packs (packs_json d))"
      and "Pack.Name p' = Pack.Name (Packs (packs_json d) ! i)"
      and "ran (PublishedRooms p') \<subseteq> insert (Pack.Name p') (ran (PublishedRooms (Packs (packs_json d) ! i)))"
  shows "ledger_keys_are_pack_name
           (d'\<lparr>packs_json := (packs_json d)\<lparr>Packs := (Packs (packs_json d))[i := p']\<rparr>\<rparr>)"
proof -
  from assms(1,2) have "ran (PublishedRooms (Packs (packs_json d) ! i)) \<subseteq> {Pack.Name (Packs (packs_json d) ! i)}"
    by (simp add: ledger_keys_are_pack_name_def list_all_length)
  with assms(3,4) have "ran (PublishedRooms p') \<subseteq> {Pack.Name p'}" by auto
  with assms(1) show ?thesis
    by (simp add: ledger_keys_are_pack_name_def list_all_update)
qed

lemma ledger_collection_only:
  "ledger_keys_are_pack_name d \<Longrightarrow> packs_json d' = packs_json d \<Longrightarrow> ledger_keys_are_pack_name d'"
  by (simp add: ledger_keys_are_pack_name_def)

lemma packs_AddSticker: "packs_json (snd (AddSticker d s)) = packs_json d"
  by (simp add: AddSticker_def LoadCollection_def SaveCollection_def Let_def split: option.splits)

lemma packs_UpdateAltText: "packs_json (snd (UpdateAltText d i a)) = packs_json d"
  by (simp add: UpdateAltText_def LoadCollection_def SaveCollection_def Let_def split: option.splits)

lemma packs_SetStickerUsage: "packs_json (snd (SetStickerUsage d i u)) = packs_json d"
  by (simp add: SetStickerUsage_def LoadCollection_def SaveCollection_def Let_def split: option.splits)

lemma packs_SetStickerName: "packs_json (snd (SetStickerName d i n)) = packs_json d"
  by (simp add: SetStickerName_def LoadCollection_def SaveCollection_def Let_def split: option.splits)

lemma ledger_CreatePack:
  "ledger_keys_are_pack_name d \<Longrightarrow>
     ledger_keys_are_pack_name (snd (CreatePackWithAttribution d name displayName attribution))"
  by (simp add: CreatePackWithAttribution_def LoadPacks_def SavePacks_def Let_def
        ledger_keys_are_pack_name_def)

lemma ledger_AddToPack:
  assumes "ledger_keys_are_pack_name d"
  shows "ledger_keys_are_pack_name (snd (AddToPack d packName stickerIDs))"
proof (cases "first_index (\<lambda>pack. Pack.Name pack = packName) (Packs (packs_json d))")
  case None
  with assms show ?thesis by (simp add: AddToPack_def LoadPacks_def Let_def)
next
  case (Some i)
  show ?thesis
  proof (cases "add_sticker_ids (Stickers (collection_json d)) stickerIDs
                  (StickerIDs (Packs (packs_json d) ! i))")
    case (Inl err)
    with Some assms show ?thesis
      by (simp add: AddToPack_def LoadPacks_def LoadCollection_def Let_def)
  next
    case (Inr ids)
    have "ledger_keys_are_pack_name
            ((d\<lparr>collection_json := (collection_json d)\<lparr>Stickers :=
                   map (add_in_packs packName stickerIDs) (Stickers (collection_json d))\<rparr>\<rparr>)
             \<lparr>packs_json := (packs_json d)\<lparr>Packs :=
                   (Packs (packs_json d))[i := (Packs (packs_json d) ! i)\<lparr>StickerIDs := ids\<rparr>]\<rparr>\<rparr>)"
      using first_index_Some [OF Some] by (intro ledger_update_pack [OF assms]) auto
    with Some Inr show ?thesis
      by (simp add: AddToPack_def LoadPacks_def LoadCollection_def SavePacks_def
            SaveCollection_def Let_def)
  qed
qed

lemma ledger_RemoveFromPack:
  assumes "ledger_keys_are_pack_name d"
  shows "ledger_keys_are_pack_name (snd (RemoveFromPack d packName stickerIDs))"
proof (cases "first_index (\<lambda>pack. Pack.Name pack = packName) (Packs (packs_json d))")
  case None
  with assms show ?thesis by (simp add: RemoveFromPack_def LoadPacks_def Let_def)
next
  case (Some i)
  define ids where "ids = fold (\<lambda>stickerID packIDs.
                            filter (\<lambda>existingID. existingID \<noteq> stickerID) packIDs)
                      stickerIDs (StickerIDs (Packs (packs_json d) ! i))"
  have "ledger_keys_are_pack_name
          ((d\<lparr>collection_json := (collection_json d)\<lparr>Stickers :=
                 map (remove_in_packs packName stickerIDs) (Stickers (collection_json d))\<rparr>\<rparr>)
           \<lparr>packs_json := (packs_json d)\<lparr>Packs :=
                 (Packs (packs_json d))[i := (Packs (packs_json d) ! i)\<lparr>StickerIDs := ids\<rparr>]\<rparr>\<rparr>)"
    using first_index_Some [OF Some] by (intro ledger_update_pack [OF assms]) auto
  with Some show ?thesis
    by (simp add: RemoveFromPack_def LoadPacks_def LoadCollection_def SavePacks_def
          SaveCollection_def Let_def ids_def)
qed

lemma ledger_SetPackAvatar:
  assumes "ledger_keys_are_pack_name d"
  shows "ledger_keys_are_pack_name (snd (SetPackAvatar d packName avatarURL))"
proof (cases "first_index (\<lambda>pack. Pack.Name pack = packName) (Packs (packs_json d))")
  case None
  with assms show ?thesis by (simp add: SetPackAvatar_def LoadPacks_def Let_def)
next
  case (Some i)
  have "ledger_keys_are_pack_name
          (d\<lparr>packs_json := (packs_json d)\<lparr>Packs :=
                 (Packs (packs_json d))[i := (Packs (packs_json d) ! i)\<lparr>Pack.AvatarURL := avatarURL\<rparr>]\<rparr>\<rparr>)"
    using first_index_Some [OF Some] by (intro ledger_update_pack [OF assms]) auto
  with Some show ?thesis
    by (simp add: SetPackAvatar_def LoadPacks_def SavePacks_def Let_def)
qed

lemma ledger_SetPackUsage:
  assumes "ledger_keys_are_pack_name d"
  shows "ledger_keys_are_pack_name (snd (SetPackUsage d packName usage))"
proof (cases "first_index (\<lambda>pack. Pack.Name pack = packName) (Packs (packs_json d))")
  case None
  with assms show ?thesis by (simp add: SetPackUsage_def LoadPacks_def Let_def)
next
  case (Some i)
  have "ledger_keys_are_pack_name
          (d\<lparr>packs_json := (packs_json d)\<lparr>Packs :=
                 (Packs (packs_json d))[i := (Packs (packs_json d) ! i)\<lparr>Pack.Usage := usage\<rparr>]\<rparr>\<rparr>)"
    using first_index_Some [OF Some] by (intro ledger_update_pack [OF assms]) auto
  with Some show ?thesis
    by (simp add: SetPackUsage_def LoadPacks_def SavePacks_def Let_def)
qed

lemma ran_upd_subset: "ran (m(k \<mapsto> v)) \<subseteq> insert v (ran m)"
  by (auto simp: ran_def)

lemma UpdatePublished_found:
  assumes "first_index (\<lambda>pack. Pack.Name pack = packName) (Packs (packs_json d)) = Some i"
  shows "UpdatePublished d packName room key =
     (None, d\<lparr>packs_json := (packs_json d)\<lparr>Packs := (Packs (packs_json d))
        [i := (Packs (packs_json d) ! i)
           \<lparr>PublishedRooms := (PublishedRooms (Packs (packs_json d) ! i))(room \<mapsto> key)\<rparr>]\<rparr>\<rparr>)"
  using assms by (simp add: UpdatePublished_def LoadPacks_def SavePacks_def Let_def)

lemma UpdatePublished_missing:
  assumes "first_index (\<lambda>pack. Pack.Name pack = packName) (Packs (packs_json d)) = None"
  shows "UpdatePublished d packName room key = (Some (''pack not found: '' @ packName), d)"
  using assms by (simp add: UpdatePublished_def LoadPacks_def SavePacks_def Let_def)

lemma ledger_UpdatePublished:
  assumes "ledger_keys_are_pack_name d"
  shows "ledger_keys_are_pack_name (snd (UpdatePublished d packName room packName))"
proof (cases "first_index (\<lambda>pack. Pack.Name pack = packName) (Packs (packs_json d))")
  case None
  with assms show ?thesis by (simp add: UpdatePublished_missing)
next
  case (Some i)
  have "ledger_keys_are_pack_name
          (d\<lparr>packs_json := (packs_json d)\<lparr>Packs := (Packs (packs_json d))
             [i := (Packs (packs_json d) ! i)
                \<lparr>PublishedRooms := (PublishedRooms (Packs (packs_json d) ! i))(room \<mapsto> packName)\<rparr>]\<rparr>\<rparr>)"
    using first_index_Some [OF Some] ran_upd_subset [of "PublishedRooms (Packs (packs_json d) ! i)" room packName]
    by (intro ledger_update_pack [OF assms]) auto
  with Some show ?thesis by (simp add: UpdatePublished_found)
qed

lemma PublishPack_cases:
  "(\<exists>err. PublishPack C d packName room = (Some err, d)) \<or>
   (\<exists>ev. PublishPack_event d packName room = Inr ev \<and> SendStateEvent C ev = None \<and>
         PublishPack C d packName room = UpdatePublished d packName room packName \<and>
         fst (UpdatePublished d packName room packName) = None)"
proof (cases "PublishPack_event d packName room")
  case (Inl err)
  then show ?thesis by (simp add: PublishPack_def)
next
  case (Inr ev)
  then have k: "stateKey ev = packName"
    by (auto simp: PublishPack_event_def split: sum.splits)
  show ?thesis
  proof (cases "SendStateEvent C ev")
    case (Some err)
    with Inr show ?thesis by (simp add: PublishPack_def)
  next
    case None
    from Inr obtain pack where "GetPack d packName = Inr pack"
      by (auto simp: PublishPack_event_def split: sum.splits)
    then obtain i where i: "first_index (\<lambda>pack. Pack.Name pack = packName) (Packs (packs_json d)) = Some i"
      using find_None_first_index [of "\<lambda>pack. Pack.Name pack = packName" "Packs (packs_json d)"]
      by (cases "first_index (\<lambda>pack. Pack.Name pack = packName) (Packs (packs_json d))")
         (auto simp: GetPack_def LoadPacks_def)
    with Inr None k show ?thesis
      by (simp add: PublishPack_def UpdatePublished_found)
  qed
qed

lemma ledger_PublishPack:
  assumes "ledger_keys_are_pack_name d"
  shows "ledger_keys_are_pack_name (snd (PublishPack C d packName room))"
  using PublishPack_cases [of C d packName room] assms ledger_UpdatePublished [OF assms, of packName room]
  by auto

lemma ledger_DeleteSticker:
  assumes "ledger_keys_are_pack_name d"
  shows "ledger_keys_are_pack_name (snd (DeleteSticker d id'))"
proof (cases "first_index (\<lambda>sticker. ID sticker = id') (Stickers (collection_json d))")
  case None
  with assms show ?thesis by (simp add: DeleteSticker_def LoadCollection_def Let_def)
next
  case (Some i)
  have step: "\<And>names d0. ledger_keys_are_pack_name d0 \<Longrightarrow>
     ledger_keys_are_pack_name (fold (\<lambda>packName d'. snd (RemoveFromPack d' packName [id'])) names d0)"
  proof -
    fix names d0
    show "ledger_keys_are_pack_name d0 \<Longrightarrow>
       ledger_keys_are_pack_name (fold (\<lambda>packName d'. snd (RemoveFromPack d' packName [id'])) names d0)"
      by (induction names arbitrary: d0) (simp_all add: ledger_RemoveFromPack)
  qed
  have "ledger_keys_are_pack_name (d\<lparr>collection_json := (collection_json d)\<lparr>Stickers :=
                     take i (Stickers (collection_json d)) @ drop (Suc i) (Stickers (collection_json d))\<rparr>\<rparr>)"
    using assms by (simp add: ledger_keys_are_pack_name_def)
  from step [OF this] Some show ?thesis
    by (simp add: DeleteSticker_def LoadCollection_def SaveCollection_def Let_def)
qed

lemma reachable_ledger: "reachable d \<Longrightarrow> ledger_keys_are_pack_name d"
proof (induction rule: reachable.induct)
  case r_empty
  show ?case by (simp add: emptyDir_def ledger_keys_are_pack_name_def)
qed (auto intro: ledger_collection_only ledger_DeleteSticker ledger_CreatePack ledger_AddToPack
       ledger_RemoveFromPack ledger_SetPackAvatar ledger_SetPackUsage ledger_PublishPack
     simp: packs_AddSticker packs_UpdateAltText packs_SetStickerUsage packs_SetStickerName)


lemma ledger_explicit:
  "ledger_keys_are_pack_name d \<longleftrightarrow>
     (\<forall>P\<in>set (Packs (packs_json d)). \<forall>room key.
         PublishedRooms P room = Some key \<longrightarrow> key = Pack.Name P)"
  by (auto simp: ledger_keys_are_pack_name_def list_all_iff ran_def)

lemma GetPack_Inr:
  "GetPack d packName = Inr P \<Longrightarrow> P \<in> set (Packs (packs_json d)) \<and> Pack.Name P = packName"
  by (auto simp: GetPack_def LoadPacks_def find_Some_iff split: option.splits)

lemma PublishPack_success_ledger:
  assumes "PublishPack C d packName room = (None, d')"
  shows "\<exists>P. GetPack d' packName = Inr P \<and> Pack.Name P = packName \<and>
             PublishedRooms P room = Some packName"
proof -
  let ?packs = "Packs (packs_json d)"
  from PublishPack_cases [of C d packName room] assms
  have u: "UpdatePublished d packName room packName = (None, d')" by auto
  then obtain i where i: "first_index (\<lambda>pack. Pack.Name pack = packName) ?packs = Some i"
    by (cases "first_index (\<lambda>pack. Pack.Name pack = packName) ?packs")
       (auto simp: UpdatePublished_missing)
  let ?p = "(?packs ! i)\<lparr>PublishedRooms := (PublishedRooms (?packs ! i))(room \<mapsto> packName)\<rparr>"
  from u i have d': "d' = d\<lparr>packs_json := (packs_json d)\<lparr>Packs := ?packs[i := ?p]\<rparr>\<rparr>"
    by (simp add: UpdatePublished_found)
  have il: "i < length ?packs" and nm: "Pack.Name (?packs ! i) = packName"
    using first_index_Some [OF i] by simp_all
  have "first_index (\<lambda>pack. Pack.Name pack = packName) (?packs[i := ?p]) = Some i"
    by (rule first_index_update_same [OF i,
          where f = "\<lambda>p. p\<lparr>PublishedRooms := (PublishedRooms (?packs ! i))(room \<mapsto> packName)\<rparr>"]) simp
  from find_first_index [OF this] il have "GetPack d' packName = Inr ?p"
    by (simp add: GetPack_def LoadPacks_def d')
  with nm show ?thesis by simp
qed

text \<open>
  Claim C10. In every directory the program can reach, each value of a pack's publish
  ledger is the pack's own name. A successful \<^verbatim>\<open>PublishPack\<close> leaves, in the ledger of the
  pack it published, the pack's name as the state key of the destination room. And when
  the ledger of a pack records a key for a room, the state event that \<^verbatim>\<open>PublishPack\<close>
  builds for that pack and room goes to that room under exactly the recorded key.
\<close>

theorem publish_ledger_records_pack_name:
  assumes "reachable d"
  shows "(\<forall>P\<in>set (Packs (packs_json d)). \<forall>room key.
            PublishedRooms P room = Some key \<longrightarrow> key = Pack.Name P) \<and>
         (\<forall>C packName room d'. PublishPack C d packName room = (None, d') \<longrightarrow>
            (\<exists>P. GetPack d' packName = Inr P \<and> Pack.Name P = packName \<and>
                 PublishedRooms P room = Some packName)) \<and>
         (\<forall>packName P room key ev.
            GetPack d packName = Inr P \<and> PublishedRooms P room = Some key \<and>
            PublishPack_event d packName room = Inr ev \<longrightarrow>
              roomID ev = room \<and> stateKey ev = key)"
proof -
  have l: "\<forall>P\<in>set (Packs (packs_json d)). \<forall>room key.
            PublishedRooms P room = Some key \<longrightarrow> key = Pack.Name P"
    using reachable_ledger [OF assms] by (simp add: ledger_explicit)
  have p: "\<forall>C packName room d'. PublishPack C d packName room = (None, d') \<longrightarrow>
            (\<exists>P. GetPack d' packName = Inr P \<and> Pack.Name P = packName \<and>
                 PublishedRooms P room = Some packName)"
    using PublishPack_success_ledger by blast
  have e: "\<forall>packName P room key ev.
            GetPack d packName = Inr P \<and> PublishedRooms P room = Some key \<and>
            PublishPack_event d packName room = Inr ev \<longrightarrow>
              roomID ev = room \<and> stateKey ev = key"
  proof (intro allI impI)
    fix packName P room key ev
    assume a: "GetPack d packName = Inr P \<and> PublishedRooms P room = Some key \<and>
            PublishPack_event d packName room = Inr ev"
    with GetPack_Inr [of d packName P] l have "key = packName" by auto
    moreover from a have "stateKey ev = packName" "roomID ev = room"
      using PublishPack_event_Inr(3,4) [of d packName room ev P] by simp_all
    ultimately show "roomID ev = room \<and> stateKey ev = key" by simp
  qed
  from l p e show ?thesis by (intro conjI)
qed

lemma demo_once_published_eq:
  "demo_once_published =
     \<lparr>collection_json = \<lparr>Stickers = []\<rparr>,
      packs_json = \<lparr>Packs = [demo_pack\<lparr>PublishedRooms := [''!lobby:bot.example'' \<mapsto> ''faves'']\<rparr>]\<rparr>\<rparr>"
  by (simp add: demo_once_published_def demo_created_def emptyDir_def demo_collab_def demo_pack_def
      CreatePackWithAttribution_def PublishPack_def PublishPack_event_def GetPack_def
      UpdatePublished_def LoadPacks_def LoadCollection_def SavePacks_def packInfo_of_def Let_def)

theorem publish_ledger_records_pack_name_witness:
  "reachable demo_once_published \<and>
   GetPack demo_once_published ''faves'' =
     Inr (demo_pack\<lparr>PublishedRooms := [''!lobby:bot.example'' \<mapsto> ''faves'']\<rparr>) \<and>
   PublishedRooms (demo_pack\<lparr>PublishedRooms := [''!lobby:bot.example'' \<mapsto> ''faves'']\<rparr>)
     ''!lobby:bot.example'' = Some ''faves'' \<and>
   \<not> isl (PublishPack_event demo_once_published ''faves'' ''!lobby:bot.example'') \<and>
   stateKey (projr (PublishPack_event demo_once_published ''faves'' ''!lobby:bot.example'')) = ''faves'' \<and>
   fst (PublishPack demo_collab demo_once_published ''faves'' ''!den:bot.example'') = None \<and>
   (\<exists>P. GetPack (snd (PublishPack demo_collab demo_once_published ''faves'' ''!den:bot.example''))
          ''faves'' = Inr P \<and>
        Pack.Name P = ''faves'' \<and> PublishedRooms P ''!den:bot.example'' = Some ''faves'')"
proof -
  have r: "reachable demo_once_published"
    unfolding demo_once_published_def demo_created_def
    by (intro reachable.intros)
  have g: "GetPack demo_once_published ''faves'' =
     Inr (demo_pack\<lparr>PublishedRooms := [''!lobby:bot.example'' \<mapsto> ''faves'']\<rparr>)"
    by (simp add: demo_once_published_eq GetPack_def LoadPacks_def demo_pack_def)
  have k: "PublishedRooms (demo_pack\<lparr>PublishedRooms := [''!lobby:bot.example'' \<mapsto> ''faves'']\<rparr>)
     ''!lobby:bot.example'' = Some ''faves''"
    by simp
  have e: "\<not> isl (PublishPack_event demo_once_published ''faves'' ''!lobby:bot.example'')"
    by (simp add: demo_once_published_eq PublishPack_event_def GetPack_def LoadPacks_def
          LoadCollection_def demo_pack_def)
  then have e': "PublishPack_event demo_once_published ''faves'' ''!lobby:bot.example'' =
     Inr (projr (PublishPack_event demo_once_published ''faves'' ''!lobby:bot.example''))"
    by (cases "PublishPack_event demo_once_published ''faves'' ''!lobby:bot.example''") simp_all
  from publish_ledger_records_pack_name [OF r] g k e'
  have s: "stateKey (projr (PublishPack_event demo_once_published ''faves'' ''!lobby:bot.example'')) = ''faves''"
    by blast
  have f: "fst (PublishPack demo_collab demo_once_published ''faves'' ''!den:bot.example'') = None"
    by (simp add: demo_once_published_eq demo_collab_def demo_pack_def PublishPack_def
          PublishPack_event_def GetPack_def UpdatePublished_def LoadPacks_def LoadCollection_def
          SavePacks_def Let_def)
  then have "PublishPack demo_collab demo_once_published ''faves'' ''!den:bot.example'' =
      (None, snd (PublishPack demo_collab demo_once_published ''faves'' ''!den:bot.example''))"
    by (metis prod.collapse)
  with publish_ledger_records_pack_name [OF r]
  have p: "\<exists>P. GetPack (snd (PublishPack demo_collab demo_once_published ''faves'' ''!den:bot.example''))
          ''faves'' = Inr P \<and>
        Pack.Name P = ''faves'' \<and> PublishedRooms P ''!den:bot.example'' = Some ''faves''"
    by blast
  from r g k e s f p show ?thesis by (intro conjI)
qed

text \<open>The workflow and the commands of the bot stay within the reachable directories.\<close>

lemma collectSticker_reachable:
  "reachable d \<Longrightarrow> reachable (snd (collectSticker C L d room eventID mxcURI body))"
  using collectSticker_cases [of C L d room eventID mxcURI body]
  by (auto intro: r_AddSticker)

lemma packCreate_reachable: "reachable d \<Longrightarrow> reachable (snd (packCreate C L d name))"
proof -
  assume r: "reachable d"
  have "snd (packCreate C L d name) = d \<or>
        snd (packCreate C L d name) =
          snd (CreatePackWithAttribution d (ToLower L (ReplaceAll name '' '' ''-'')) name (UserID C))"
    by (auto simp: packCreate_def Let_def split: prod.splits option.splits)
  with r show ?thesis by (auto intro: r_CreatePack)
qed

lemma packAdd_reachable: "reachable d \<Longrightarrow> reachable (snd (packAdd d packName stickerID))"
proof -
  assume r: "reachable d"
  have "snd (packAdd d packName stickerID) = snd (AddToPack d packName [stickerID])"
    by (auto simp: packAdd_def split: prod.splits option.splits)
  with r show ?thesis by (auto intro: r_AddToPack)
qed

lemma packRemove_reachable: "reachable d \<Longrightarrow> reachable (snd (packRemove d packName stickerID))"
proof -
  assume r: "reachable d"
  have "snd (packRemove d packName stickerID) = snd (RemoveFromPack d packName [stickerID])"
    by (auto simp: packRemove_def split: prod.splits option.splits)
  with r show ?thesis by (auto intro: r_RemoveFromPack)
qed

lemma republish_step_reachable:
  "reachable (snd (snd acc)) \<Longrightarrow> reachable (snd (snd (republish_step C packName room acc)))"
proof -
  assume r: "reachable (snd (snd acc))"
  obtain n errs d where acc: "acc = (n, errs, d)" by (cases acc) auto
  have "snd (snd (republish_step C packName room acc)) = snd (PublishPack C d packName room)"
    by (auto simp: republish_step_def acc split: prod.splits option.splits)
  with r acc show ?thesis by (auto intro: r_PublishPack)
qed

lemma republish_fold_reachable:
  "reachable (snd (snd acc)) \<Longrightarrow>
     reachable (snd (snd (fold (republish_step C packName) order acc)))"
  by (induction order arbitrary: acc) (simp_all add: republish_step_reachable)

lemma packPublish_reachable:
  assumes "reachable d"
  shows "reachable (snd (packPublish C order d packName room))"
proof -
  have f: "reachable (snd (snd (fold (republish_step C packName) order (0, [], d))))"
    by (rule republish_fold_reachable) (simp add: assms)
  have "snd (packPublish C order d packName room) = d \<or>
        snd (packPublish C order d packName room) =
          snd (snd (fold (republish_step C packName) order (0, [], d))) \<or>
        snd (packPublish C order d packName room) = snd (PublishPack C d packName room)"
    by (auto simp: packPublish_def split: sum.splits prod.splits option.splits if_splits)
  with assms f show ?thesis by (auto intro: r_PublishPack)
qed


section \<open>What collecting an image again does to its record\<close>

text \<open>
  Claim C2, as amended. When the workflow runs on bytes whose content id an item of the
  collection already carries, and the address parses, the download and the decoding
  succeed, the upload succeeds if one is needed and the caption arrives, then the run
  returns no error and the directory changes in one place only: the record at the
  position of that item is replaced, every other item and the packs file stay as they
  were. The new record has the same content id. Its original caption and its generated
  caption (the caption of this run, cleaned), its source room, source event and source
  address are those of this collection. So are its time stamp (the clock of this run), its
  stored address (the uploaded address if the image was rehosted, the source address
  otherwise) and its MIME type, width, height and size (as read from the downloaded
  bytes). Its short name is the content id and it has no usage override. The
  pack-membership list of the new record is not part of this statement.
\<close>

theorem recollect_replaces_record:
  assumes "ParseContentURI C mxcURI = Inr parsedMXC"
      and "DownloadBytes C parsedMXC = Inr imageData"
      and "DecodeConfig C imageData = Inr (w, h, format)"
      and "mimeType = (if formatToMimeType format = [] \<or>
                          formatToMimeType format = ''application/octet-stream''
                       then detectMimeType imageData else formatToMimeType format)"
      and "fst parsedMXC \<noteq> UserHomeserver C \<longrightarrow> UploadBytes C imageData mimeType = Inr uploaded"
      and "localMXC = (if fst parsedMXC \<noteq> UserHomeserver C then uploaded else mxcURI)"
      and "GenerateAltText C imageData mimeType = Inr altText0"
      and "first_index (\<lambda>s. ID s = HashImage C imageData) (Stickers (collection_json d)) = Some i"
  shows "\<exists>new. collectSticker C L d room eventID mxcURI body =
                  (None, d\<lparr>collection_json :=
                     (collection_json d)\<lparr>Stickers := (Stickers (collection_json d))[i := new]\<rparr>\<rparr>) \<and>
           ID new = ID (Stickers (collection_json d) ! i) \<and>
           ID new = Sum256Hex C imageData \<and>
           Sticker.Name new = ID new \<and>
           CollectedAt new = Now C \<and>
           SourceRoom new = room \<and> SourceEvent new = eventID \<and> SourceMXC new = mxcURI \<and>
           LocalMXC new = localMXC \<and>
           Sticker.MimeType new = mimeType \<and>
           Sticker.Width new = w \<and> Sticker.Height new = h \<and>
           Sticker.SizeBytes new = int (length imageData) \<and>
           OriginalBody new = body \<and>
           GeneratedAltText new = cleanAltText L altText0 \<and>
           Sticker.Usage new = []"
proof -
  let ?s = "newSticker C (HashImage C imageData) room eventID mxcURI localMXC
                \<lparr>ImageInfo.Width = w, ImageInfo.Height = h,
                 ImageInfo.SizeBytes = int (length imageData), ImageInfo.MimeType = mimeType\<rparr>
                body (cleanAltText L altText0)"
  have ids: "ID ?s = HashImage C imageData" by (simp add: newSticker_def)
  have "AddSticker d ?s =
          (None, d\<lparr>collection_json :=
                     (collection_json d)\<lparr>Stickers := (Stickers (collection_json d))[i := ?s]\<rparr>\<rparr>)"
    by (rule AddSticker_existing) (simp add: ids assms(8))
  with collectSticker_success [OF assms(1-7), of L d room eventID body]
  have r: "collectSticker C L d room eventID mxcURI body =
          (None, d\<lparr>collection_json :=
                     (collection_json d)\<lparr>Stickers := (Stickers (collection_json d))[i := ?s]\<rparr>\<rparr>)"
    by simp
  have old: "ID (Stickers (collection_json d) ! i) = HashImage C imageData"
    using first_index_Some [OF assms(8)] by simp
  show ?thesis
    by (rule exI [of _ ?s]) (simp add: r old, simp add: newSticker_def HashImage_def)
qed


lemma demo_recollect:
  "collectSticker demo_collab demo_lib demo_dir ''!attic:other.example'' ''$ev2'' ''cat'' ''kitty'' =
    (None, demo_dir\<lparr>collection_json := \<lparr>Stickers =
       [demo_sticker\<lparr>Sticker.Name := ''sha256:cat'', CollectedAt := 2000,
                     SourceRoom := ''!attic:other.example'', SourceEvent := ''$ev2'',
                     OriginalBody := ''kitty'', GeneratedAltText := ''A cat waving'',
                     Sticker.Usage := []\<rparr>]\<rparr>\<rparr>)"
  by (simp add: demo_simps collect_simps)

text \<open>
  Claim C2 as stated fails. The item \<open>sha256:cat\<close> has the short name \<open>happy_cat\<close> and the
  usage override \<open>[emoticon]\<close>. After the same bytes are collected a second time its short
  name is \<open>sha256:cat\<close> and it has no override.
\<close>

theorem recollect_resets_name_and_usage_counterexample:
  "map ID (Stickers (collection_json demo_dir)) = [''sha256:cat''] \<and>
   map Sticker.Name (Stickers (collection_json demo_dir)) = [''happy_cat''] \<and>
   map Sticker.Usage (Stickers (collection_json demo_dir)) = [[''emoticon'']] \<and>
   HashImage demo_collab ''cat'' = ''sha256:cat'' \<and>
   fst (collectSticker demo_collab demo_lib demo_dir ''!attic:other.example'' ''$ev2'' ''cat'' ''kitty'')
     = None \<and>
   map Sticker.Name (Stickers (collection_json (snd (collectSticker demo_collab demo_lib demo_dir
       ''!attic:other.example'' ''$ev2'' ''cat'' ''kitty'')))) = [''sha256:cat''] \<and>
   map Sticker.Usage (Stickers (collection_json (snd (collectSticker demo_collab demo_lib demo_dir
       ''!attic:other.example'' ''$ev2'' ''cat'' ''kitty'')))) = [[]]"
  by (simp add: demo_recollect) (simp add: demo_simps HashImage_def)

theorem recollect_replaces_record_witness:
  "ParseContentURI demo_collab ''cat'' = Inr (''other.example'', ''cat'') \<and>
   DownloadBytes demo_collab (''other.example'', ''cat'') = Inr ''cat'' \<and>
   DecodeConfig demo_collab ''cat'' = Inr (64, 64, ''png'') \<and>
   ''image/png'' = (if formatToMimeType ''png'' = [] \<or>
                       formatToMimeType ''png'' = ''application/octet-stream''
                    then detectMimeType ''cat'' else formatToMimeType ''png'') \<and>
   fst (''other.example'', ''cat'') \<noteq> UserHomeserver demo_collab \<and>
   UploadBytes demo_collab ''cat'' ''image/png'' = Inr ''mxc://bot.example/cat'' \<and>
   ''mxc://bot.example/cat'' =
      (if fst (''other.example'', ''cat'') \<noteq> UserHomeserver demo_collab
       then ''mxc://bot.example/cat'' else ''cat'') \<and>
   GenerateAltText demo_collab ''cat'' ''image/png'' = Inr (''A cat'' @ [CHR 0x0A] @ ''waving '') \<and>
   first_index (\<lambda>s. ID s = HashImage demo_collab ''cat'') (Stickers (collection_json demo_dir))
     = Some 0 \<and>
   (\<exists>new. collectSticker demo_collab demo_lib demo_dir ''!attic:other.example'' ''$ev2'' ''cat'' ''kitty'' =
            (None, demo_dir\<lparr>collection_json :=
               (collection_json demo_dir)\<lparr>Stickers := (Stickers (collection_json demo_dir))[0 := new]\<rparr>\<rparr>) \<and>
          ID new = ''sha256:cat'' \<and> Sticker.Name new = ''sha256:cat'' \<and> CollectedAt new = 2000 \<and>
          SourceRoom new = ''!attic:other.example'' \<and> SourceEvent new = ''$ev2'' \<and>
          SourceMXC new = ''cat'' \<and> LocalMXC new = ''mxc://bot.example/cat'' \<and>
          Sticker.MimeType new = ''image/png'' \<and> Sticker.Width new = 64 \<and> Sticker.Height new = 64 \<and>
          Sticker.SizeBytes new = 3 \<and> OriginalBody new = ''kitty'' \<and>
          GeneratedAltText new = ''A cat waving'' \<and> Sticker.Usage new = [])"
proof -
  have h1: "ParseContentURI demo_collab ''cat'' = Inr (''other.example'', ''cat'')"
    by (simp add: demo_collab_def)
  have h2: "DownloadBytes demo_collab (''other.example'', ''cat'') = Inr ''cat''"
    by (simp add: demo_collab_def)
  have h3: "DecodeConfig demo_collab ''cat'' = Inr (64, 64, ''png'')"
    by (simp add: demo_collab_def)
  have h5a: "fst (''other.example'', ''cat'') \<noteq> UserHomeserver demo_collab"
    by (simp add: demo_collab_def)
  have h5b: "UploadBytes demo_collab ''cat'' ''image/png'' = Inr ''mxc://bot.example/cat''"
    by (simp add: demo_collab_def)
  from h5b have h5: "fst (''other.example'', ''cat'') \<noteq> UserHomeserver demo_collab \<longrightarrow>
      UploadBytes demo_collab ''cat'' ''image/png'' = Inr ''mxc://bot.example/cat''"
    by (rule impI)
  have h6: "''mxc://bot.example/cat'' =
      (if fst (''other.example'', ''cat'') \<noteq> UserHomeserver demo_collab
       then ''mxc://bot.example/cat'' else ''cat'')"
    by (simp add: demo_collab_def)
  have h8: "first_index (\<lambda>s. ID s = HashImage demo_collab ''cat'') (Stickers (collection_json demo_dir))
     = Some 0"
    by (simp add: demo_simps HashImage_def)
  have v: "Sum256Hex demo_collab ''cat'' = ''sha256:cat''" "Now demo_collab = 2000"
    "cleanAltText demo_lib (''A cat'' @ [CHR 0x0A] @ ''waving '') = ''A cat waving''"
    by (simp_all add: demo_collab_def demo_lib_def cleanAltText_def TrimSpace_def asciiSpace_def
          isASCIIByte_def)
  from recollect_replaces_record [OF h1 h2 h3 demo_mime h5 h6 demo_GenerateAltText h8,
         of demo_lib "''!attic:other.example''" "''$ev2''" "''kitty''"]
  have "\<exists>new. collectSticker demo_collab demo_lib demo_dir ''!attic:other.example'' ''$ev2'' ''cat'' ''kitty'' =
            (None, demo_dir\<lparr>collection_json :=
               (collection_json demo_dir)\<lparr>Stickers := (Stickers (collection_json demo_dir))[0 := new]\<rparr>\<rparr>) \<and>
          ID new = ''sha256:cat'' \<and> Sticker.Name new = ''sha256:cat'' \<and> CollectedAt new = 2000 \<and>
          SourceRoom new = ''!attic:other.example'' \<and> SourceEvent new = ''$ev2'' \<and>
          SourceMXC new = ''cat'' \<and> LocalMXC new = ''mxc://bot.example/cat'' \<and>
          Sticker.MimeType new = ''image/png'' \<and> Sticker.Width new = 64 \<and> Sticker.Height new = 64 \<and>
          Sticker.SizeBytes new = 3 \<and> OriginalBody new = ''kitty'' \<and>
          GeneratedAltText new = ''A cat waving'' \<and> Sticker.Usage new = []"
    unfolding v by auto
  with h1 h2 h3 demo_mime h5a h5b h6 demo_GenerateAltText h8 show ?thesis by (intro conjI)
qed

section \<open>Membership on both sides\<close>

text \<open>
  The operations that manage membership keep the two sides in agreement, in a directory
  whose packs have distinct names (which \<^verbatim>\<open>CreatePackWithAttribution\<close> sees to).
\<close>


lemma membership_consistent_iff:
  "membership_consistent d \<longleftrightarrow>
     (\<forall>P\<in>set (Packs (packs_json d)).
        (\<forall>I\<in>set (Stickers (collection_json d)).
            (ID I \<in> set (StickerIDs P)) = (Pack.Name P \<in> set (InPacks I))) \<and>
        distinct (StickerIDs P))"
  by (simp add: membership_consistent_def list_all_iff)

lemma remove_ids_eq:
  "fold (\<lambda>stickerID packIDs. filter (\<lambda>existingID. existingID \<noteq> stickerID) packIDs) sids ids =
     filter (\<lambda>e. e \<notin> set sids) ids"
  by (induction sids arbitrary: ids) (auto intro: filter_cong)

lemma remove_in_packs_eq:
  "remove_in_packs packName sids s =
     (if ID s \<in> set sids
      then s\<lparr>InPacks := filter (\<lambda>p. p \<noteq> packName) (InPacks s)\<rparr> else s)"
proof -
  have "fold (\<lambda>stickerID s.
             if ID s = stickerID
             then s\<lparr>InPacks := filter (\<lambda>packInList. packInList \<noteq> packName) (InPacks s)\<rparr>
             else s) sids s =
     (if ID s \<in> set sids
      then s\<lparr>InPacks := filter (\<lambda>p. p \<noteq> packName) (InPacks s)\<rparr> else s)"
    by (induction sids arbitrary: s) auto
  then show ?thesis by (simp add: remove_in_packs_def)
qed

lemma set_update_cases:
  assumes "P \<in> set (xs[i := y])" and "i < length xs"
  shows "P = y \<or> (\<exists>j<length xs. j \<noteq> i \<and> P = xs ! j)"
proof -
  from assms(1) obtain j where j: "j < length xs" "P = xs[i := y] ! j"
    by (auto simp: in_set_conv_nth)
  then show ?thesis using assms(2) by (cases "j = i") auto
qed

lemma other_pack_name:
  assumes "distinct (map Pack.Name packs)" and "i < length packs" and "j < length packs" and "j \<noteq> i"
  shows "Pack.Name (packs ! j) \<noteq> Pack.Name (packs ! i)"
  using assms by (metis length_map nth_eq_iff_index_eq nth_map)

lemma AddToPack_success:
  assumes "AddToPack d packName stickerIDs = (None, d1)"
  obtains i ids' where
    "first_index (\<lambda>pack. Pack.Name pack = packName) (Packs (packs_json d)) = Some i"
    "add_sticker_ids (Stickers (collection_json d)) stickerIDs
       (StickerIDs (Packs (packs_json d) ! i)) = Inr ids'"
    "d1 = d\<lparr>collection_json := (collection_json d)
              \<lparr>Stickers := map (add_in_packs packName stickerIDs) (Stickers (collection_json d))\<rparr>,
            packs_json := (packs_json d)
              \<lparr>Packs := (Packs (packs_json d))[i := (Packs (packs_json d) ! i)\<lparr>StickerIDs := ids'\<rparr>]\<rparr>\<rparr>"
proof -
  let ?packs = "Packs (packs_json d)" and ?stickers = "Stickers (collection_json d)"
  from assms obtain i where i: "first_index (\<lambda>pack. Pack.Name pack = packName) ?packs = Some i"
    by (auto simp: AddToPack_def LoadPacks_def LoadCollection_def Let_def split: option.splits)
  from assms i obtain ids' where
    ids': "add_sticker_ids ?stickers stickerIDs (StickerIDs (?packs ! i)) = Inr ids'"
    by (auto simp: AddToPack_def LoadPacks_def LoadCollection_def Let_def split: sum.splits)
  from assms i ids' have "d1 = d\<lparr>collection_json := (collection_json d)
              \<lparr>Stickers := map (add_in_packs packName stickerIDs) ?stickers\<rparr>,
            packs_json := (packs_json d)
              \<lparr>Packs := ?packs[i := (?packs ! i)\<lparr>StickerIDs := ids'\<rparr>]\<rparr>\<rparr>"
    by (simp add: AddToPack_def LoadPacks_def LoadCollection_def SavePacks_def SaveCollection_def Let_def)
  with i ids' show ?thesis by (rule that)
qed

lemma AddToPack_error_unchanged:
  "AddToPack d packName stickerIDs = (Some err, d1) \<Longrightarrow> d1 = d"
  by (auto simp: AddToPack_def LoadPacks_def LoadCollection_def Let_def
           split: option.splits sum.splits)

lemma AddToPack_keeps_membership:
  assumes mc: "membership_consistent d"
      and dn: "distinct (map Pack.Name (Packs (packs_json d)))"
  shows "membership_consistent (snd (AddToPack d packName stickerIDs))"
proof (cases "AddToPack d packName stickerIDs")
  case (Pair err d1)
  show ?thesis
  proof (cases err)
    case (Some e)
    with Pair mc AddToPack_error_unchanged [of d packName stickerIDs e d1] show ?thesis by simp
  next
    case None
    let ?packs = "Packs (packs_json d)" and ?stickers = "Stickers (collection_json d)"
    from Pair None have "AddToPack d packName stickerIDs = (None, d1)" by simp
    then obtain i ids' where
      i: "first_index (\<lambda>pack. Pack.Name pack = packName) ?packs = Some i" and
      ids': "add_sticker_ids ?stickers stickerIDs (StickerIDs (?packs ! i)) = Inr ids'" and
      d1: "d1 = d\<lparr>collection_json := (collection_json d)
              \<lparr>Stickers := map (add_in_packs packName stickerIDs) ?stickers\<rparr>,
            packs_json := (packs_json d)
              \<lparr>Packs := ?packs[i := (?packs ! i)\<lparr>StickerIDs := ids'\<rparr>]\<rparr>\<rparr>"
      by (rule AddToPack_success)
    have il: "i < length ?packs" and nm: "Pack.Name (?packs ! i) = packName"
      using first_index_Some [OF i] by simp_all
    have pi: "?packs ! i \<in> set ?packs" using il by simp
    have sets: "set ids' = set (StickerIDs (?packs ! i)) \<union> set stickerIDs"
      by (rule add_sticker_ids_set [OF ids'])
    have "membership_consistent d1"
      unfolding membership_consistent_iff
    proof (intro ballI conjI)
      fix P I
      assume P: "P \<in> set (Packs (packs_json d1))" and I: "I \<in> set (Stickers (collection_json d1))"
      from I obtain I0 where I0: "I0 \<in> set ?stickers" "I = add_in_packs packName stickerIDs I0"
        by (auto simp: d1)
      from P have "P \<in> set (?packs[i := (?packs ! i)\<lparr>StickerIDs := ids'\<rparr>])" by (simp add: d1)
      from set_update_cases [OF this il]
      show "(ID I \<in> set (StickerIDs P)) = (Pack.Name P \<in> set (InPacks I))"
      proof (elim disjE exE conjE)
        assume "P = (?packs ! i)\<lparr>StickerIDs := ids'\<rparr>"
        moreover have "(ID I0 \<in> set (StickerIDs (?packs ! i))) = (packName \<in> set (InPacks I0))"
          using mc pi I0(1) nm by (auto simp: membership_consistent_iff)
        ultimately show ?thesis
          using I0(2) nm sets by (auto simp: add_in_packs_eq)
      next
        fix j assume j: "j < length ?packs" "j \<noteq> i" "P = ?packs ! j"
        then have "Pack.Name P \<noteq> packName"
          using other_pack_name [OF dn il j(1,2)] nm by simp
        moreover have "(ID I0 \<in> set (StickerIDs P)) = (Pack.Name P \<in> set (InPacks I0))"
          using mc j I0(1) by (auto simp: membership_consistent_iff)
        ultimately show ?thesis using I0(2) by (auto simp: add_in_packs_eq)
      qed
    next
      fix P
      assume P: "P \<in> set (Packs (packs_json d1))"
      then have "P \<in> set (?packs[i := (?packs ! i)\<lparr>StickerIDs := ids'\<rparr>])" by (simp add: d1)
      from set_update_cases [OF this il]
      show "distinct (StickerIDs P)"
      proof (elim disjE exE conjE)
        assume "P = (?packs ! i)\<lparr>StickerIDs := ids'\<rparr>"
        moreover have "distinct (StickerIDs (?packs ! i))"
          using mc pi by (auto simp: membership_consistent_iff)
        ultimately show ?thesis using add_sticker_ids_distinct [OF ids'] by simp
      next
        fix j assume "j < length ?packs" "P = ?packs ! j"
        then show ?thesis using mc by (auto simp: membership_consistent_iff)
      qed
    qed
    with Pair show ?thesis by simp
  qed
qed

lemma RemoveFromPack_result:
  "RemoveFromPack d packName stickerIDs =
     (case first_index (\<lambda>pack. Pack.Name pack = packName) (Packs (packs_json d)) of
        None \<Rightarrow> (Some (''pack not found: '' @ packName), d)
      | Some i \<Rightarrow>
          (None, d\<lparr>collection_json := (collection_json d)
                     \<lparr>Stickers := map (remove_in_packs packName stickerIDs) (Stickers (collection_json d))\<rparr>,
                   packs_json := (packs_json d)
                     \<lparr>Packs := (Packs (packs_json d))
                        [i := (Packs (packs_json d) ! i)
                           \<lparr>StickerIDs := filter (\<lambda>e. e \<notin> set stickerIDs)
                                             (StickerIDs (Packs (packs_json d) ! i))\<rparr>]\<rparr>\<rparr>))"
  by (simp add: RemoveFromPack_def LoadPacks_def LoadCollection_def SavePacks_def
        SaveCollection_def Let_def remove_ids_eq split: option.splits)

lemma RemoveFromPack_names:
  "map Pack.Name (Packs (packs_json (snd (RemoveFromPack d packName stickerIDs)))) =
     map Pack.Name (Packs (packs_json d))"
proof (cases "first_index (\<lambda>pack. Pack.Name pack = packName) (Packs (packs_json d))")
  case None
  then show ?thesis by (simp add: RemoveFromPack_result)
next
  case (Some i)
  then show ?thesis
    using first_index_Some [OF Some]
    by (simp add: RemoveFromPack_result map_update list_update_same_conv)
qed

lemma RemoveFromPack_keeps_membership:
  assumes mc: "membership_consistent d"
      and dn: "distinct (map Pack.Name (Packs (packs_json d)))"
  shows "membership_consistent (snd (RemoveFromPack d packName stickerIDs))"
proof (cases "first_index (\<lambda>pack. Pack.Name pack = packName) (Packs (packs_json d))")
  case None
  with mc show ?thesis by (simp add: RemoveFromPack_result)
next
  case (Some i)
  let ?packs = "Packs (packs_json d)" and ?stickers = "Stickers (collection_json d)"
  let ?p = "(?packs ! i)\<lparr>StickerIDs := filter (\<lambda>e. e \<notin> set stickerIDs) (StickerIDs (?packs ! i))\<rparr>"
  let ?d1 = "d\<lparr>collection_json := (collection_json d)
                     \<lparr>Stickers := map (remove_in_packs packName stickerIDs) ?stickers\<rparr>,
               packs_json := (packs_json d)\<lparr>Packs := ?packs[i := ?p]\<rparr>\<rparr>"
  have il: "i < length ?packs" and nm: "Pack.Name (?packs ! i) = packName"
    using first_index_Some [OF Some] by simp_all
  have pi: "?packs ! i \<in> set ?packs" using il by simp
  have "membership_consistent ?d1"
    unfolding membership_consistent_iff
  proof (intro ballI conjI)
    fix P I
    assume P: "P \<in> set (Packs (packs_json ?d1))" and I: "I \<in> set (Stickers (collection_json ?d1))"
    from I obtain I0 where I0: "I0 \<in> set ?stickers" "I = remove_in_packs packName stickerIDs I0"
      by auto
    from P have "P \<in> set (?packs[i := ?p])" by simp
    from set_update_cases [OF this il]
    show "(ID I \<in> set (StickerIDs P)) = (Pack.Name P \<in> set (InPacks I))"
    proof (elim disjE exE conjE)
      assume "P = ?p"
      moreover have "(ID I0 \<in> set (StickerIDs (?packs ! i))) = (packName \<in> set (InPacks I0))"
        using mc pi I0(1) nm by (auto simp: membership_consistent_iff)
      ultimately show ?thesis
        using I0(2) nm by (auto simp: remove_in_packs_eq)
    next
      fix j assume j: "j < length ?packs" "j \<noteq> i" "P = ?packs ! j"
      then have "Pack.Name P \<noteq> packName"
        using other_pack_name [OF dn il j(1,2)] nm by simp
      moreover have "(ID I0 \<in> set (StickerIDs P)) = (Pack.Name P \<in> set (InPacks I0))"
        using mc j I0(1) by (auto simp: membership_consistent_iff)
      ultimately show ?thesis using I0(2) by (auto simp: remove_in_packs_eq)
    qed
  next
    fix P
    assume P: "P \<in> set (Packs (packs_json ?d1))"
    then have "P \<in> set (?packs[i := ?p])" by simp
    from set_update_cases [OF this il]
    show "distinct (StickerIDs P)"
    proof (elim disjE exE conjE)
      assume "P = ?p"
      moreover have "distinct (StickerIDs (?packs ! i))"
        using mc pi by (auto simp: membership_consistent_iff)
      ultimately show ?thesis by simp
    next
      fix j assume "j < length ?packs" "P = ?packs ! j"
      then show ?thesis using mc by (auto simp: membership_consistent_iff)
    qed
  qed
  with Some show ?thesis by (simp add: RemoveFromPack_result)
qed

lemma DeleteSticker_keeps_membership:
  assumes mc: "membership_consistent d"
      and dn: "distinct (map Pack.Name (Packs (packs_json d)))"
  shows "membership_consistent (snd (DeleteSticker d id'))"
proof (cases "first_index (\<lambda>sticker. ID sticker = id') (Stickers (collection_json d))")
  case None
  with mc show ?thesis by (simp add: DeleteSticker_def LoadCollection_def Let_def)
next
  case (Some i)
  let ?d0 = "d\<lparr>collection_json := (collection_json d)\<lparr>Stickers :=
                     take i (Stickers (collection_json d)) @ drop (Suc i) (Stickers (collection_json d))\<rparr>\<rparr>"
  have sub: "set (take i (Stickers (collection_json d)) @ drop (Suc i) (Stickers (collection_json d)))
               \<subseteq> set (Stickers (collection_json d))"
    by (auto dest: in_set_takeD in_set_dropD)
  have mc0: "membership_consistent ?d0"
    using mc sub by (auto simp: membership_consistent_iff)
  have dn0: "distinct (map Pack.Name (Packs (packs_json ?d0)))" using dn by simp
  have step: "membership_consistent d0 \<Longrightarrow> distinct (map Pack.Name (Packs (packs_json d0))) \<Longrightarrow>
     membership_consistent (fold (\<lambda>packName d'. snd (RemoveFromPack d' packName [id'])) names d0)"
    for names d0
    by (induction names arbitrary: d0)
       (simp_all add: RemoveFromPack_keeps_membership RemoveFromPack_names)
  from step [OF mc0 dn0] Some show ?thesis
    by (simp add: DeleteSticker_def LoadCollection_def SaveCollection_def Let_def)
qed

lemmas consistent_simps = membership_consistent_def demo2_simps demo_simps

text \<open>
  The directory of the second example is one the program can reach: two stickers are
  added, the pack is created and both stickers are put into it.
\<close>

lemma demo_published_dir_reachable: "reachable demo_published_dir"
proof -
  have eq: "demo_published_dir =
     snd (AddToPack
       (snd (CreatePackWithAttribution
          (snd (AddSticker (snd (AddSticker emptyDir demo_sticker)) (demo_blank\<lparr>InPacks := []\<rparr>)))
          ''faves'' ''Faves'' ''@bot:bot.example''))
       ''faves'' [''sha256:cat'', ''sha256:blank''])"
    by (simp add: demo2_simps demo_simps emptyDir_def AddSticker_def CreatePackWithAttribution_def
          store_simps)
  show ?thesis unfolding eq by (intro reachable.intros)
qed

lemma demo_published_recollect:
  "collectSticker demo_collab demo_lib demo_published_dir ''!attic:other.example'' ''$ev2'' ''cat'' ''kitty'' =
    (None, demo_published_dir\<lparr>collection_json := \<lparr>Stickers =
       [demo_sticker\<lparr>Sticker.Name := ''sha256:cat'', CollectedAt := 2000,
                     SourceRoom := ''!attic:other.example'', SourceEvent := ''$ev2'',
                     OriginalBody := ''kitty'', GeneratedAltText := ''A cat waving'',
                     Sticker.Usage := []\<rparr>, demo_blank]\<rparr>\<rparr>)"
  by (simp add: demo_simps demo2_simps collect_simps)

text \<open>
  Claim C3. After every mutating operation of the stores, a sticker's id is among a pack's
  ids exactly when the pack's name is among the sticker's packs. \<^verbatim>\<open>AddToPack\<close>,
  \<^verbatim>\<open>RemoveFromPack\<close> and \<^verbatim>\<open>DeleteSticker\<close> keep it so, as shown above. The upsert of the
  collection workflow does not: in a directory where the two sides agree and the pack
  \<open>faves\<close> holds \<open>sha256:cat\<close>, collecting the same bytes again writes a record with an
  empty list of packs over the old one, while the pack still lists the id.
\<close>

theorem recollect_breaks_membership:
  "membership_consistent demo_published_dir \<and>
   HashImage demo_collab ''cat'' = ''sha256:cat'' \<and>
   fst (collectSticker demo_collab demo_lib demo_published_dir ''!attic:other.example'' ''$ev2''
          ''cat'' ''kitty'') = None \<and>
   map StickerIDs (Packs (packs_json (snd (collectSticker demo_collab demo_lib demo_published_dir
       ''!attic:other.example'' ''$ev2'' ''cat'' ''kitty'')))) = [[''sha256:cat'', ''sha256:blank'']] \<and>
   map InPacks (Stickers (collection_json (snd (collectSticker demo_collab demo_lib demo_published_dir
       ''!attic:other.example'' ''$ev2'' ''cat'' ''kitty'')))) = [[], [''faves'']] \<and>
   \<not> membership_consistent (snd (collectSticker demo_collab demo_lib demo_published_dir
       ''!attic:other.example'' ''$ev2'' ''cat'' ''kitty''))"
  by (simp add: demo_published_recollect) (simp add: consistent_simps HashImage_def)

end
